theory Spec2Isabelle
  imports Complex_Main "HOL-Library.Sublist"
begin

section \<open>The design linter: data model\<close>

text \<open>
  The repository holds two versions of the plugin core: \<^verbatim>\<open>src/code.ts\<close>, whose rules
  compare against constants, and \<^verbatim>\<open>src/unnamed/part_000\<close>, whose rules read a token
  store. Both define \<^verbatim>\<open>runAnalysis\<close> and \<^verbatim>\<open>applyFix\<close>; the definitions taken from
  \<^verbatim>\<open>src/code.ts\<close> carry the suffix \<open>_local\<close>, those from \<^verbatim>\<open>part_000\<close> the suffix
  \<open>_tokens\<close>.

  JavaScript numbers are modelled as follows. Colour channels, the only numbers the
  rules compute with, are IEEE 754 double-precision values with their rounding (type
  \<open>double\<close> below). Opacities and the numbers of text styles and spacing tokens, which
  are stored and never computed with, are \<^typ>\<open>real\<close>. The font size of a layer is an
  \<^typ>\<open>int\<close>, printed in decimal where the source interpolates it into a message.
  The names, messages and URLs are ASCII strings; the credential, whose white space
  matters, is the list of its UTF-16 code units.
\<close>

subsection \<open>Double-precision numbers\<close>

text \<open>
  A finite double is \<open>m\<close> times 2 to the power \<open>e\<close> for integers \<open>m\<close> and \<open>e\<close>. The
  record holds the two, with \<open>m\<close> odd or both zero, so that a number has one record.
  NaN, the infinities and the sign of zero, which no colour channel holds, are left
  out, and so is overflow.
\<close>

record double =
  mant :: int
  expo :: int

definition dval :: "double \<Rightarrow> real" where
  "dval x =
     (if 0 \<le> expo x then of_int (mant x) * 2 ^ nat (expo x)
      else of_int (mant x) / 2 ^ nat (- expo x))"

function bit_length :: "nat \<Rightarrow> nat" where
  "bit_length n = (if n = 0 then 0 else bit_length (n div 2) + 1)"
  by pat_completeness auto
termination
  by (relation "measure id") auto

text \<open>The odd mantissa and its exponent.\<close>

function strip :: "nat \<Rightarrow> int \<Rightarrow> nat \<times> int" where
  "strip m e =
     (if m = 0 then (0, 0) else if even m then strip (m div 2) (e + 1) else (m, e))"
  by pat_completeness auto
termination
  by (relation "measure fst") auto

text \<open>
  The rounding of every operation and literal: \<open>m\<close> times 2 to the \<open>e\<close> is brought to 53
  significant bits, to the nearest such number and, half-way between two, to the one
  whose last bit is even. Below 2 to the -1022 the numbers keep the spacing 2 to the
  -1074, hence the second bound on the number \<open>k\<close> of bits that are dropped.
\<close>

definition round53 :: "nat \<Rightarrow> int \<Rightarrow> nat \<times> int" where
  "round53 m e =
     (let k = max (bit_length m - 53) (nat (- 1074 - e)) in
      if k = 0 then strip m e
      else
        (let q = m div 2 ^ k; rm = m mod 2 ^ k; half = 2 ^ (k - 1)
         in strip (if half < rm \<or> (rm = half \<and> odd q) then q + 1 else q) (e + int k)))"

text \<open>
  The double nearest to the fraction \<open>n / d\<close>: the quotient is taken with 55 bits or
  more, and one further bit records whether the division left a remainder.
\<close>

definition round_ratio :: "nat \<Rightarrow> nat \<Rightarrow> nat \<times> int" where
  "round_ratio n d =
     (if n = 0 then (0, 0)
      else
        (let s = bit_length d + 55;
             q = (n * 2 ^ s) div d;
             sticky = (if (n * 2 ^ s) mod d = 0 then 0 else 1)
         in round53 (2 * q + sticky) (- int s - 1)))"

text \<open>
  A decimal literal of the source: \<open>dec n k\<close> is the literal whose digits are those of
  \<open>n\<close>, the last \<open>k\<close> of them after the point; \<^verbatim>\<open>0.196\<close> is \<open>dec 196 3\<close>.
\<close>

definition dec :: "nat \<Rightarrow> nat \<Rightarrow> double" where
  "dec n k = (case round_ratio n (10 ^ k) of (m, e) \<Rightarrow> \<lparr>mant = int m, expo = e\<rparr>)"

text \<open>\<^verbatim>\<open>x - y\<close>: the exact difference, rounded.\<close>

definition dsub :: "double \<Rightarrow> double \<Rightarrow> double" where
  "dsub x y =
     (let e = min (expo x) (expo y);
          m = mant x * 2 ^ nat (expo x - e) - mant y * 2 ^ nat (expo y - e)
      in case round53 (nat \<bar>m\<bar>) e of
           (a, e') \<Rightarrow> \<lparr>mant = (if m < 0 then - int a else int a), expo = e'\<rparr>)"

text \<open>\<^verbatim>\<open>Math.abs(x)\<close> and \<^verbatim>\<open>x < y\<close>, both exact.\<close>

definition dabs :: "double \<Rightarrow> double" where
  "dabs x = x\<lparr>mant := \<bar>mant x\<bar>\<rparr>"

definition dless :: "double \<Rightarrow> double \<Rightarrow> bool" where
  "dless x y \<longleftrightarrow>
     (let e = min (expo x) (expo y)
      in mant x * 2 ^ nat (expo x - e) < mant y * 2 ^ nat (expo y - e))"

subsection \<open>Colours and paints\<close>

record rgb =
  r :: double
  g :: double
  b :: double

datatype paint_type = SOLID | GRADIENT_LINEAR | GRADIENT_RADIAL | IMAGE

record paint =
  ptype :: paint_type
  color :: rgb
  opacity :: real
  pvisible :: bool
  blendMode :: string

subsection \<open>Nodes\<close>

datatype node_type =
  DOCUMENT | PAGE | RECTANGLE | ELLIPSE | POLYGON | STAR | VECTOR | TEXT | FRAME
  | COMPONENT | COMPONENT_SET | INSTANCE | GROUP | LINE | SLICE | BOOLEAN_OPERATION

fun type_name :: "node_type \<Rightarrow> string" where
  "type_name DOCUMENT = ''DOCUMENT''"
| "type_name PAGE = ''PAGE''"
| "type_name RECTANGLE = ''RECTANGLE''"
| "type_name ELLIPSE = ''ELLIPSE''"
| "type_name POLYGON = ''POLYGON''"
| "type_name STAR = ''STAR''"
| "type_name VECTOR = ''VECTOR''"
| "type_name TEXT = ''TEXT''"
| "type_name FRAME = ''FRAME''"
| "type_name COMPONENT = ''COMPONENT''"
| "type_name COMPONENT_SET = ''COMPONENT_SET''"
| "type_name INSTANCE = ''INSTANCE''"
| "type_name GROUP = ''GROUP''"
| "type_name LINE = ''LINE''"
| "type_name SLICE = ''SLICE''"
| "type_name BOOLEAN_OPERATION = ''BOOLEAN_OPERATION''"

text \<open>
  The \<^verbatim>\<open>fills\<close> property: absent (\<^verbatim>\<open>'fills' in node\<close> is false), the symbol
  \<^verbatim>\<open>figma.mixed\<close> (present, but not an array), or an array of paints.
\<close>

datatype fills_prop = NoFills | MixedFills | Fills "paint list"

text \<open>
  \<^verbatim>\<open>fillStyleId\<close> is a string or \<^verbatim>\<open>figma.mixed\<close>; \<open>None\<close> stands for a node without
  the property. \<^verbatim>\<open>!node.fillStyleId\<close> holds for \<^verbatim>\<open>undefined\<close> and for the empty string.
\<close>

datatype style_id = StyleId string | StyleMixed

fun no_style :: "style_id option \<Rightarrow> bool" where
  "no_style None = True"
| "no_style (Some (StyleId s)) = (s = [])"
| "no_style (Some StyleMixed) = False"

record font =
  family :: string
  style :: string

text \<open>
  \<^verbatim>\<open>fontName\<close> is one font or \<^verbatim>\<open>figma.mixed\<close>; the source also tests
  \<^verbatim>\<open>Array.isArray(node.fontName)\<close>, so a list of fonts is a third case.
\<close>

datatype font_ref = Font font | FontMixed | FontList "font list"

datatype font_size = Px int | SizeMixed

text \<open>
  The attributes of a live node. \<open>nvisible\<close> and \<open>locked\<close> are \<open>None\<close> on nodes that do
  not have the property (document and page nodes). \<open>fontName\<close> and \<open>fontSize\<close> are read
  on text nodes only.
\<close>

record node_attrs =
  nid :: string
  name :: string
  ntype :: node_type
  nvisible :: "bool option"
  locked :: "bool option"
  fills :: fills_prop
  fillStyleId :: "style_id option"
  fontName :: font_ref
  fontSize :: font_size

text \<open>
  A node of the tree handed to the analysis is a live node with its children (a node
  without the \<^verbatim>\<open>children\<close> property has the empty list: the loop over the children is
  then not entered either way), or a handle to a layer that has been removed from the
  document, whose property reads make the host throw.
\<close>

datatype node = Node node_attrs "node list" | Removed

subsection \<open>Issues and fix outcomes\<close>

record issue =
  itype :: string
  layer :: string
  nodeId :: string
  detail :: string
  fixable :: bool

datatype status = success | error

record outcome =
  ostatus :: status
  message :: string

datatype exn = HostError

subsection \<open>Strings\<close>

text \<open>\<^verbatim>\<open>String.prototype.toLowerCase\<close> on ASCII.\<close>

definition lower_char :: "char \<Rightarrow> char" where
  "lower_char c =
     (case map_of (zip ''ABCDEFGHIJKLMNOPQRSTUVWXYZ'' ''abcdefghijklmnopqrstuvwxyz'') c of
        Some d \<Rightarrow> d
      | None \<Rightarrow> c)"

definition toLowerCase :: "string \<Rightarrow> string" where
  "toLowerCase s = map lower_char s"

text \<open>\<^verbatim>\<open>String.prototype.includes\<close>: the second string occurs in the first.\<close>

fun starts_with :: "string \<Rightarrow> string \<Rightarrow> bool" where
  "starts_with s [] = True"
| "starts_with [] (c # t) = False"
| "starts_with (d # s) (c # t) = (d = c \<and> starts_with s t)"

fun str_includes :: "string \<Rightarrow> string \<Rightarrow> bool" where
  "str_includes [] t = (t = [])"
| "str_includes (c # s) t = (starts_with (c # s) t \<or> str_includes s t)"

text \<open>
  The decimal numeral that a template literal prints for an integer below 10 to the 21,
  which is what the font sizes of the model are.
\<close>

definition digit_char :: "nat \<Rightarrow> char" where
  "digit_char d = ''0123456789'' ! (d mod 10)"

function digits :: "nat \<Rightarrow> string" where
  "digits n = (if n < 10 then [digit_char n] else digits (n div 10) @ [digit_char n])"
  by pat_completeness auto
termination
  by (relation "measure id") auto

definition number_string :: "int \<Rightarrow> string" where
  "number_string i = (if i < 0 then CHR ''-'' # digits (nat (- i)) else digits (nat i))"

section \<open>Analysis, as in src/code.ts\<close>

definition GRAY_500_RGB :: rgb where
  "GRAY_500_RGB = \<lparr>r = dec 427 3, g = dec 447 3, b = dec 502 3\<rparr>"

definition APPROVED_FONT_SIZE :: int where
  "APPROVED_FONT_SIZE = 14"

definition PRIMARY_BUTTON_COLOR_RGB :: rgb where
  "PRIMARY_BUTTON_COLOR_RGB = \<lparr>r = dec 196 3, g = dec 275 3, b = dec 898 3\<rparr>"

text \<open>\<^verbatim>\<open>node.fills.find(f => f.type === 'SOLID' && f.visible)\<close>\<close>

definition solidFill :: "paint list \<Rightarrow> paint option" where
  "solidFill fs = find (\<lambda>f. ptype f = SOLID \<and> pvisible f) fs"

text \<open>\<^verbatim>\<open>Math.abs(x - p) < 0.01\<close>, and the three channel comparisons of the button rule.\<close>

definition within_tolerance :: "double \<Rightarrow> double \<Rightarrow> bool" where
  "within_tolerance x p \<longleftrightarrow> dless (dabs (dsub x p)) (dec 1 2)"

definition matchesPrimary :: "rgb \<Rightarrow> rgb \<Rightarrow> bool" where
  "matchesPrimary c p \<longleftrightarrow>
     within_tolerance (r c) (r p) \<and> within_tolerance (g c) (g p)
     \<and> within_tolerance (b c) (b p)"

text \<open>Rule 4 of \<^verbatim>\<open>traverse\<close>: a hardcoded fill instead of a style.\<close>

definition colour_rule_local :: "node_attrs \<Rightarrow> issue list" where
  "colour_rule_local n =
     (case fills n of
        Fills fs \<Rightarrow>
          if no_style (fillStyleId n) then
            (case solidFill fs of
               Some f \<Rightarrow>
                 [\<lparr>itype = ''Colour/Token'', layer = name n, nodeId = nid n,
                   detail = ''Layer uses a hardcoded fill colour. Must use a Colour Style/Token.'',
                   fixable = True\<rparr>]
             | None \<Rightarrow> [])
          else []
      | _ \<Rightarrow> [])"

text \<open>Rule 5: a text node whose font size is a number other than the approved one.\<close>

definition typography_rule_local :: "node_attrs \<Rightarrow> issue list" where
  "typography_rule_local n =
     (if ntype n = TEXT then
        (case fontSize n of
           Px s \<Rightarrow>
             if s \<noteq> APPROVED_FONT_SIZE then
               [\<lparr>itype = ''Typography'', layer = name n, nodeId = nid n,
                 detail = ''Uses non-standard font size ('' @ number_string s
                   @ ''px). Recommended size is '' @ number_string APPROVED_FONT_SIZE @ ''px.'',
                 fixable = True\<rparr>]
             else []
         | SizeMixed \<Rightarrow> [])
      else [])"

definition button_issue :: "node_attrs \<Rightarrow> issue" where
  "button_issue n =
     \<lparr>itype = ''Button/Style'', layer = name n, nodeId = nid n,
      detail = ''Button uses hardcoded colour. Must use Primary Button token (Indigo/600).'',
      fixable = True\<rparr>"

text \<open>Rule 6: a rectangle named like a button whose fill is not the primary colour.\<close>

definition button_rule_local :: "node_attrs \<Rightarrow> issue list" where
  "button_rule_local n =
     (if str_includes (toLowerCase (name n)) ''button'' \<or> str_includes (toLowerCase (name n)) ''btn'' then
        (case fills n of
           Fills fs \<Rightarrow>
             if ntype n = RECTANGLE then
               if no_style (fillStyleId n) then
                 (let isIncorrectColour =
                    (case solidFill fs of
                       Some f \<Rightarrow> \<not> matchesPrimary (color f) PRIMARY_BUTTON_COLOR_RGB
                     | None \<Rightarrow> length fs > 0)
                  in if isIncorrectColour then [button_issue n] else [])
               else []
             else []
         | _ \<Rightarrow> [])
      else [])"

definition rules_local :: "node_attrs \<Rightarrow> issue list" where
  "rules_local n = colour_rule_local n @ typography_rule_local n @ button_rule_local n"

text \<open>
  \<^verbatim>\<open>traverse\<close> pushes onto the array \<open>issues\<close>, which survives a throw: the function takes
  the array and returns it with the exception, if one was thrown. The guard reads
  \<^verbatim>\<open>node.visible\<close>, which throws on a removed layer. \<open>traverse_all\<close> is the
  \<^verbatim>\<open>for ... of\<close> loop, over the children and over the selected nodes.
\<close>

fun traverse :: "(node_attrs \<Rightarrow> issue list) \<Rightarrow> node \<Rightarrow> issue list \<Rightarrow> issue list \<times> exn option"
  and traverse_all :: "(node_attrs \<Rightarrow> issue list) \<Rightarrow> node list \<Rightarrow> issue list \<Rightarrow> issue list \<times> exn option"
where
  "traverse rules Removed issues = (issues, Some HostError)"
| "traverse rules (Node n cs) issues =
     (if nvisible n \<noteq> Some True \<and> ntype n \<noteq> DOCUMENT \<and> ntype n \<noteq> PAGE then (issues, None)
      else traverse_all rules cs (issues @ rules n))"
| "traverse_all rules [] issues = (issues, None)"
| "traverse_all rules (c # cs) issues =
     (case traverse rules c issues of
        (issues', Some e) \<Rightarrow> (issues', Some e)
      | (issues', None) \<Rightarrow> traverse_all rules cs issues')"

text \<open>
  The result of \<^verbatim>\<open>runAnalysis\<close> is a promise: \<open>Inr\<close> its value when it resolves, \<open>Inl\<close>
  the exception when it rejects. The \<^verbatim>\<open>catch\<close> around the loop drops the exception and
  keeps the array.
\<close>

definition runAnalysis_local :: "node list \<Rightarrow> exn + issue list" where
  "runAnalysis_local selectedNodes =
     (case traverse_all rules_local selectedNodes [] of
        (issues, Some e) \<Rightarrow> Inr issues
      | (issues, None) \<Rightarrow> Inr issues)"

section \<open>The token store and its loader, as in src/unnamed/part_000\<close>

datatype component_type = Button_type | Input_type | Card_type | Text_type | Other_type

record ComponentToken =
  cname :: string
  ctype :: component_type
  requiredProperties :: "string list"
  allowedVariants :: "string list"

datatype font_weight = WeightNum real | WeightStr string

record CustomTextStyle =
  fontFamily :: string
  styleFontSize :: real
  fontWeight :: font_weight
  lineHeight :: real
  letterSpacing :: real
  textCase :: "string option"

record DesignSystemConfig =
  colourTokens :: "string \<rightharpoonup> rgb"
  textStyles :: "string \<rightharpoonup> CustomTextStyle"
  spacingTokens :: "string \<rightharpoonup> real"
  componentTokens :: "string \<rightharpoonup> ComponentToken"

definition DEFAULT_CONFIG :: DesignSystemConfig where
  "DEFAULT_CONFIG =
     \<lparr>colourTokens = Map.empty, textStyles = Map.empty,
      spacingTokens = Map.empty, componentTokens = Map.empty\<rparr>"

record MCPConfig =
  figmaToken :: "nat list option"
  fileKey :: string
  baseUrl :: string

text \<open>\<^verbatim>\<open>new Map(pairs)\<close>: the pairs are set in order, a later one replacing an earlier one.\<close>

definition new_Map :: "('k \<times> 'v) list \<Rightarrow> ('k \<rightharpoonup> 'v)" where
  "new_Map pairs = fold (\<lambda>(k, v) m. m(k \<mapsto> v)) pairs Map.empty"

definition mockData :: DesignSystemConfig where
  "mockData = \<lparr>
    colourTokens = new_Map [
      (''Primary/Blue/500'', \<lparr>r = dec 196 3, g = dec 275 3, b = dec 898 3\<rparr>),
      (''Primary/Blue/600'', \<lparr>r = dec 157 3, g = dec 220 3, b = dec 718 3\<rparr>),
      (''Primary/Blue/700'', \<lparr>r = dec 118 3, g = dec 165 3, b = dec 538 3\<rparr>),
      (''Primary/Blue/50'', \<lparr>r = dec 961 3, g = dec 965 3, b = dec 988 3\<rparr>),
      (''Primary/Blue/100'', \<lparr>r = dec 918 3, g = dec 925 3, b = dec 976 3\<rparr>),
      (''Primary/Blue/200'', \<lparr>r = dec 835 3, g = dec 851 3, b = dec 949 3\<rparr>),
      (''Primary/Blue/300'', \<lparr>r = dec 690 3, g = dec 722 3, b = dec 910 3\<rparr>),
      (''Primary/Blue/400'', \<lparr>r = dec 443 3, g = dec 498 3, b = dec 804 3\<rparr>),
      (''Secondary/Green/500'', \<lparr>r = dec 63 3, g = dec 725 3, b = dec 506 3\<rparr>),
      (''Secondary/Green/600'', \<lparr>r = dec 51 3, g = dec 580 3, b = dec 404 3\<rparr>),
      (''Secondary/Green/700'', \<lparr>r = dec 39 3, g = dec 435 3, b = dec 302 3\<rparr>),
      (''Secondary/Green/50'', \<lparr>r = dec 961 3, g = dec 988 3, b = dec 984 3\<rparr>),
      (''Secondary/Green/100'', \<lparr>r = dec 918 3, g = dec 976 3, b = dec 965 3\<rparr>),
      (''Secondary/Green/200'', \<lparr>r = dec 835 3, g = dec 949 3, b = dec 925 3\<rparr>),
      (''Secondary/Green/300'', \<lparr>r = dec 690 3, g = dec 910 3, b = dec 863 3\<rparr>),
      (''Secondary/Green/400'', \<lparr>r = dec 443 3, g = dec 804 3, b = dec 722 3\<rparr>),
      (''Neutral/Gray/50'', \<lparr>r = dec 980 3, g = dec 980 3, b = dec 980 3\<rparr>),
      (''Neutral/Gray/100'', \<lparr>r = dec 961 3, g = dec 961 3, b = dec 961 3\<rparr>),
      (''Neutral/Gray/200'', \<lparr>r = dec 925 3, g = dec 925 3, b = dec 925 3\<rparr>),
      (''Neutral/Gray/300'', \<lparr>r = dec 863 3, g = dec 863 3, b = dec 863 3\<rparr>),
      (''Neutral/Gray/400'', \<lparr>r = dec 722 3, g = dec 722 3, b = dec 722 3\<rparr>),
      (''Neutral/Gray/500'', \<lparr>r = dec 427 3, g = dec 447 3, b = dec 502 3\<rparr>),
      (''Neutral/Gray/600'', \<lparr>r = dec 341 3, g = dec 357 3, b = dec 400 3\<rparr>),
      (''Neutral/Gray/700'', \<lparr>r = dec 255 3, g = dec 267 3, b = dec 298 3\<rparr>),
      (''Neutral/Gray/800'', \<lparr>r = dec 169 3, g = dec 176 3, b = dec 196 3\<rparr>),
      (''Neutral/Gray/900'', \<lparr>r = dec 82 3, g = dec 86 3, b = dec 94 3\<rparr>),
      (''Semantic/Success/500'', \<lparr>r = dec 63 3, g = dec 725 3, b = dec 506 3\<rparr>),
      (''Semantic/Success/600'', \<lparr>r = dec 51 3, g = dec 580 3, b = dec 404 3\<rparr>),
      (''Semantic/Success/50'', \<lparr>r = dec 961 3, g = dec 988 3, b = dec 984 3\<rparr>),
      (''Semantic/Success/100'', \<lparr>r = dec 918 3, g = dec 976 3, b = dec 965 3\<rparr>),
      (''Semantic/Warning/500'', \<lparr>r = dec 976 3, g = dec 580 3, b = dec 63 3\<rparr>),
      (''Semantic/Warning/600'', \<lparr>r = dec 780 3, g = dec 463 3, b = dec 51 3\<rparr>),
      (''Semantic/Warning/50'', \<lparr>r = dec 996 3, g = dec 976 3, b = dec 961 3\<rparr>),
      (''Semantic/Warning/100'', \<lparr>r = dec 992 3, g = dec 949 3, b = dec 918 3\<rparr>),
      (''Semantic/Error/500'', \<lparr>r = dec 937 3, g = dec 220 3, b = dec 220 3\<rparr>),
      (''Semantic/Error/600'', \<lparr>r = dec 749 3, g = dec 176 3, b = dec 176 3\<rparr>),
      (''Semantic/Error/50'', \<lparr>r = dec 996 3, g = dec 961 3, b = dec 961 3\<rparr>),
      (''Semantic/Error/100'', \<lparr>r = dec 992 3, g = dec 918 3, b = dec 918 3\<rparr>),
      (''Semantic/Info/500'', \<lparr>r = dec 196 3, g = dec 275 3, b = dec 898 3\<rparr>),
      (''Semantic/Info/600'', \<lparr>r = dec 157 3, g = dec 220 3, b = dec 718 3\<rparr>),
      (''Semantic/Info/50'', \<lparr>r = dec 961 3, g = dec 965 3, b = dec 988 3\<rparr>),
      (''Semantic/Info/100'', \<lparr>r = dec 918 3, g = dec 925 3, b = dec 976 3\<rparr>)],
    textStyles = new_Map [
      (''Heading/H1'', \<lparr>fontFamily = ''Inter'', styleFontSize = 32, fontWeight = WeightNum 700,
        lineHeight = 1.2, letterSpacing = - 0.02, textCase = None\<rparr>),
      (''Heading/H2'', \<lparr>fontFamily = ''Inter'', styleFontSize = 28, fontWeight = WeightNum 700,
        lineHeight = 1.25, letterSpacing = - 0.01, textCase = None\<rparr>),
      (''Heading/H3'', \<lparr>fontFamily = ''Inter'', styleFontSize = 24, fontWeight = WeightNum 600,
        lineHeight = 1.3, letterSpacing = 0, textCase = None\<rparr>),
      (''Heading/H4'', \<lparr>fontFamily = ''Inter'', styleFontSize = 20, fontWeight = WeightNum 600,
        lineHeight = 1.35, letterSpacing = 0, textCase = None\<rparr>),
      (''Heading/H5'', \<lparr>fontFamily = ''Inter'', styleFontSize = 18, fontWeight = WeightNum 600,
        lineHeight = 1.4, letterSpacing = 0, textCase = None\<rparr>),
      (''Heading/H6'', \<lparr>fontFamily = ''Inter'', styleFontSize = 16, fontWeight = WeightNum 600,
        lineHeight = 1.4, letterSpacing = 0, textCase = None\<rparr>),
      (''Body/Large'', \<lparr>fontFamily = ''Inter'', styleFontSize = 16, fontWeight = WeightNum 400,
        lineHeight = 1.5, letterSpacing = 0, textCase = None\<rparr>),
      (''Body/Medium'', \<lparr>fontFamily = ''Inter'', styleFontSize = 14, fontWeight = WeightNum 400,
        lineHeight = 1.5, letterSpacing = 0, textCase = None\<rparr>),
      (''Body/Small'', \<lparr>fontFamily = ''Inter'', styleFontSize = 12, fontWeight = WeightNum 400,
        lineHeight = 1.5, letterSpacing = 0, textCase = None\<rparr>),
      (''Caption/Large'', \<lparr>fontFamily = ''Inter'', styleFontSize = 12, fontWeight = WeightNum 500,
        lineHeight = 1.4, letterSpacing = 0.01, textCase = None\<rparr>),
      (''Caption/Medium'', \<lparr>fontFamily = ''Inter'', styleFontSize = 11, fontWeight = WeightNum 500,
        lineHeight = 1.4, letterSpacing = 0.01, textCase = None\<rparr>),
      (''Caption/Small'', \<lparr>fontFamily = ''Inter'', styleFontSize = 10, fontWeight = WeightNum 500,
        lineHeight = 1.4, letterSpacing = 0.01, textCase = None\<rparr>),
      (''Button/Large'', \<lparr>fontFamily = ''Inter'', styleFontSize = 16, fontWeight = WeightNum 600,
        lineHeight = 1.25, letterSpacing = 0, textCase = None\<rparr>),
      (''Button/Medium'', \<lparr>fontFamily = ''Inter'', styleFontSize = 14, fontWeight = WeightNum 600,
        lineHeight = 1.25, letterSpacing = 0, textCase = None\<rparr>),
      (''Button/Small'', \<lparr>fontFamily = ''Inter'', styleFontSize = 12, fontWeight = WeightNum 600,
        lineHeight = 1.25, letterSpacing = 0, textCase = None\<rparr>),
      (''Link/Large'', \<lparr>fontFamily = ''Inter'', styleFontSize = 16, fontWeight = WeightNum 500,
        lineHeight = 1.5, letterSpacing = 0, textCase = None\<rparr>),
      (''Link/Medium'', \<lparr>fontFamily = ''Inter'', styleFontSize = 14, fontWeight = WeightNum 500,
        lineHeight = 1.5, letterSpacing = 0, textCase = None\<rparr>),
      (''Link/Small'', \<lparr>fontFamily = ''Inter'', styleFontSize = 12, fontWeight = WeightNum 500,
        lineHeight = 1.5, letterSpacing = 0, textCase = None\<rparr>)],
    spacingTokens = new_Map [
      (''Spacing/0'', 0), (''Spacing/1'', 4), (''Spacing/2'', 8), (''Spacing/3'', 12),
      (''Spacing/4'', 16), (''Spacing/5'', 20), (''Spacing/6'', 24), (''Spacing/8'', 32),
      (''Spacing/10'', 40), (''Spacing/12'', 48), (''Spacing/16'', 64), (''Spacing/20'', 80),
      (''Spacing/24'', 96), (''Spacing/32'', 128), (''Spacing/40'', 160), (''Spacing/48'', 192),
      (''Spacing/56'', 224), (''Spacing/64'', 256)],
    componentTokens = new_Map [
      (''Button/Primary'', \<lparr>cname = ''Button/Primary'', ctype = Button_type,
        requiredProperties = [''fillStyleId'', ''textStyleId''],
        allowedVariants = [''Large'', ''Medium'', ''Small'', ''Disabled'']\<rparr>),
      (''Button/Secondary'', \<lparr>cname = ''Button/Secondary'', ctype = Button_type,
        requiredProperties = [''fillStyleId'', ''textStyleId''],
        allowedVariants = [''Large'', ''Medium'', ''Small'', ''Disabled'']\<rparr>),
      (''Button/Tertiary'', \<lparr>cname = ''Button/Tertiary'', ctype = Button_type,
        requiredProperties = [''fillStyleId'', ''textStyleId''],
        allowedVariants = [''Large'', ''Medium'', ''Small'', ''Disabled'']\<rparr>),
      (''Button/Danger'', \<lparr>cname = ''Button/Danger'', ctype = Button_type,
        requiredProperties = [''fillStyleId'', ''textStyleId''],
        allowedVariants = [''Large'', ''Medium'', ''Small'', ''Disabled'']\<rparr>),
      (''Input/Text'', \<lparr>cname = ''Input/Text'', ctype = Input_type,
        requiredProperties = [''fillStyleId'', ''textStyleId''],
        allowedVariants = [''Large'', ''Medium'', ''Small'', ''Error'', ''Disabled'']\<rparr>),
      (''Input/Password'', \<lparr>cname = ''Input/Password'', ctype = Input_type,
        requiredProperties = [''fillStyleId'', ''textStyleId''],
        allowedVariants = [''Large'', ''Medium'', ''Small'', ''Error'', ''Disabled'']\<rparr>),
      (''Input/Email'', \<lparr>cname = ''Input/Email'', ctype = Input_type,
        requiredProperties = [''fillStyleId'', ''textStyleId''],
        allowedVariants = [''Large'', ''Medium'', ''Small'', ''Error'', ''Disabled'']\<rparr>),
      (''Card/Default'', \<lparr>cname = ''Card/Default'', ctype = Card_type,
        requiredProperties = [''fillStyleId''],
        allowedVariants = [''Elevated'', ''Outlined'', ''Filled'']\<rparr>),
      (''Card/Interactive'', \<lparr>cname = ''Card/Interactive'', ctype = Card_type,
        requiredProperties = [''fillStyleId''],
        allowedVariants = [''Hover'', ''Pressed'', ''Selected'']\<rparr>),
      (''Text/Heading'', \<lparr>cname = ''Text/Heading'', ctype = Text_type,
        requiredProperties = [''textStyleId''],
        allowedVariants = [''H1'', ''H2'', ''H3'', ''H4'', ''H5'', ''H6'']\<rparr>),
      (''Text/Body'', \<lparr>cname = ''Text/Body'', ctype = Text_type,
        requiredProperties = [''textStyleId''],
        allowedVariants = [''Large'', ''Medium'', ''Small'']\<rparr>),
      (''Text/Caption'', \<lparr>cname = ''Text/Caption'', ctype = Text_type,
        requiredProperties = [''textStyleId''],
        allowedVariants = [''Large'', ''Medium'', ''Small'']\<rparr>),
      (''Text/Link'', \<lparr>cname = ''Text/Link'', ctype = Text_type,
        requiredProperties = [''textStyleId''],
        allowedVariants = [''Large'', ''Medium'', ''Small'']\<rparr>)]\<rparr>"

text \<open>
  \<^verbatim>\<open>String.prototype.trim\<close> removes the code units of the ECMAScript productions
  WhiteSpace and LineTerminator from both ends: tab, line feed, vertical tab, form feed,
  carriage return, space, no-break space, the Unicode space separators U+1680,
  U+2000 to U+200A, U+202F, U+205F and U+3000, the line and paragraph separators
  U+2028 and U+2029, and the byte order mark U+FEFF.
\<close>

definition white_space :: "nat list" where
  "white_space =
     [0x0009, 0x000A, 0x000B, 0x000C, 0x000D, 0x0020, 0x00A0, 0x1680,
      0x2000, 0x2001, 0x2002, 0x2003, 0x2004, 0x2005, 0x2006, 0x2007, 0x2008, 0x2009, 0x200A,
      0x2028, 0x2029, 0x202F, 0x205F, 0x3000, 0xFEFF]"

definition is_space :: "nat \<Rightarrow> bool" where
  "is_space u \<longleftrightarrow> u \<in> set white_space"

definition trim :: "nat list \<Rightarrow> nat list" where
  "trim s = rev (dropWhile is_space (rev (dropWhile is_space s)))"

fun getComponentType :: "string \<Rightarrow> component_type" where
  "getComponentType nm =
     (let lowerName = toLowerCase nm in
      if str_includes lowerName ''button'' \<or> str_includes lowerName ''btn'' then Button_type
      else if str_includes lowerName ''input'' \<or> str_includes lowerName ''field'' then Input_type
      else if str_includes lowerName ''card'' \<or> str_includes lowerName ''container'' then Card_type
      else if str_includes lowerName ''text'' \<or> str_includes lowerName ''label'' then Text_type
      else Other_type)"

subsection \<open>The host\<close>

text \<open>
  What a \<^verbatim>\<open>fetch\<close> followed by \<^verbatim>\<open>json()\<close> gives: the promise rejects, the response is
  not \<^verbatim>\<open>ok\<close>, or it is \<^verbatim>\<open>ok\<close> with a body.
\<close>

datatype 'a fetched = Rejects | NotOk | Ok 'a

record api_style =
  styleKey :: string
  styleName :: string
  styleType :: string

record file_data =
  styles :: "api_style list option"
  document :: bool

record style_details =
  sd_fills :: "paint list option"
  sd_fontFamily :: "string option"
  sd_fontSize :: "real option"
  sd_fontWeight :: "font_weight option"
  sd_lineHeight :: "real option"
  sd_letterSpacing :: "real option"

record paint_style =
  ps_name :: string
  paints :: "paint list"

record local_text_style =
  lt_name :: string
  lt_fontName :: "string option"
  lt_fontSize :: real
  lt_fontWeight :: "font_weight option"
  lt_lineHeight :: "real option"
  lt_letterSpacing :: "real option"

record component_set =
  cs_name :: string
  cs_children :: "string list option"

text \<open>
  The host as the loader and the fixes see it. A local getter that is \<open>None\<close> throws.
  \<open>fetch_components\<close> carries the names of \<^verbatim>\<open>meta.components\<close>, \<open>None\<close> when the body
  has no \<^verbatim>\<open>meta\<close> (the loop then throws). \<open>timer_after\<close> places the 5000 ms timer in
  the call to the API: \<open>Some k\<close> when the timer fires after the call has received \<open>k\<close>
  responses, should it still be running then, \<open>None\<close> when the call settles first.
  \<open>mock_throws\<close> stands for an exception inside the \<^verbatim>\<open>try\<close> block of
  \<^verbatim>\<open>loadMockDesignSystem\<close>; the block builds a literal and assigns it, so that only the
  runtime can raise there.
\<close>

record host =
  fetch_file :: "file_data fetched"
  fetch_style :: "string \<Rightarrow> style_details fetched"
  fetch_components :: "string list option fetched"
  timer_after :: "nat option"
  mock_throws :: bool
  getLocalPaintStyles :: "paint_style list option"
  getLocalTextStyles :: "local_text_style list option"
  findAll_COMPONENT_SET :: "component_set list option"
  loadFontAsync :: "font \<Rightarrow> bool"

text \<open>
  The state of the plugin: the global \<^verbatim>\<open>designSystemConfig\<close> and, for the claims about
  the network, the list of the URLs requested so far.
\<close>

record state =
  designSystemConfig :: DesignSystemConfig
  requests :: "string list"

definition set_colour :: "string \<Rightarrow> rgb \<Rightarrow> state \<Rightarrow> state" where
  "set_colour k v s =
     s\<lparr>designSystemConfig := (designSystemConfig s)
          \<lparr>colourTokens := (colourTokens (designSystemConfig s))(k \<mapsto> v)\<rparr>\<rparr>"

definition set_textStyle :: "string \<Rightarrow> CustomTextStyle \<Rightarrow> state \<Rightarrow> state" where
  "set_textStyle k v s =
     s\<lparr>designSystemConfig := (designSystemConfig s)
          \<lparr>textStyles := (textStyles (designSystemConfig s))(k \<mapsto> v)\<rparr>\<rparr>"

definition set_component :: "string \<Rightarrow> ComponentToken \<Rightarrow> state \<Rightarrow> state" where
  "set_component k v s =
     s\<lparr>designSystemConfig := (designSystemConfig s)
          \<lparr>componentTokens := (componentTokens (designSystemConfig s))(k \<mapsto> v)\<rparr>\<rparr>"

definition request :: "string \<Rightarrow> state \<Rightarrow> state" where
  "request url s = s\<lparr>requests := requests s @ [url]\<rparr>"

text \<open>\<^verbatim>\<open>x || d\<close> on a number (0 is falsy), on a string (the empty string is falsy).\<close>

definition or_num :: "real option \<Rightarrow> real \<Rightarrow> real" where
  "or_num x d = (case x of None \<Rightarrow> d | Some v \<Rightarrow> if v = 0 then d else v)"

definition or_str :: "string option \<Rightarrow> string \<Rightarrow> string" where
  "or_str x d = (case x of None \<Rightarrow> d | Some v \<Rightarrow> if v = [] then d else v)"

definition or_weight :: "font_weight option \<Rightarrow> font_weight \<Rightarrow> font_weight" where
  "or_weight x d =
     (case x of
        None \<Rightarrow> d
      | Some (WeightNum v) \<Rightarrow> if v = 0 then d else WeightNum v
      | Some (WeightStr v) \<Rightarrow> if v = [] then d else WeightStr v)"

subsection \<open>Local styles\<close>

definition local_colours :: "paint_style list \<Rightarrow> state \<Rightarrow> state" where
  "local_colours colourStyles s =
     fold (\<lambda>st s. case paints st of
                     p # _ \<Rightarrow> if ptype p = SOLID then set_colour (ps_name st) (color p) s else s
                   | [] \<Rightarrow> s)
          colourStyles s"

definition local_texts :: "local_text_style list \<Rightarrow> state \<Rightarrow> state" where
  "local_texts tstyles s =
     fold (\<lambda>st. set_textStyle (lt_name st)
                  \<lparr>fontFamily = (case lt_fontName st of Some f \<Rightarrow> f | None \<Rightarrow> ''Inter''),
                   styleFontSize = lt_fontSize st,
                   fontWeight = or_weight (lt_fontWeight st) (WeightNum 400),
                   lineHeight = (case lt_lineHeight st of Some v \<Rightarrow> v | None \<Rightarrow> 1.2),
                   letterSpacing = (case lt_letterSpacing st of Some v \<Rightarrow> v | None \<Rightarrow> 0),
                   textCase = None\<rparr>)
          tstyles s"

definition local_components :: "component_set list \<Rightarrow> state \<Rightarrow> state" where
  "local_components componentSets s =
     fold (\<lambda>cs. set_component (cs_name cs)
                  \<lparr>cname = cs_name cs, ctype = getComponentType (cs_name cs),
                   requiredProperties = [],
                   allowedVariants = (case cs_children cs of Some ns \<Rightarrow> ns | None \<Rightarrow> [])\<rparr>)
          componentSets s"

text \<open>
  The \<^verbatim>\<open>try\<close> block of \<^verbatim>\<open>loadLocalDesignSystem\<close>: the state reached and the exception,
  if one of the three getters threw.
\<close>

definition local_body :: "host \<Rightarrow> state \<Rightarrow> state \<times> exn option" where
  "local_body h s =
     (case getLocalPaintStyles h of
        None \<Rightarrow> (s, Some HostError)
      | Some colourStyles \<Rightarrow>
          let s1 = local_colours colourStyles s in
          (case getLocalTextStyles h of
             None \<Rightarrow> (s1, Some HostError)
           | Some tstyles \<Rightarrow>
               let s2 = local_texts tstyles s1 in
               (case findAll_COMPONENT_SET h of
                  None \<Rightarrow> (s2, Some HostError)
                | Some componentSets \<Rightarrow> (local_components componentSets s2, None))))"

text \<open>The handler of \<^verbatim>\<open>loadLocalDesignSystem\<close> is empty: the exception is dropped.\<close>

definition loadLocalDesignSystem :: "host \<Rightarrow> state \<Rightarrow> state \<times> exn option" where
  "loadLocalDesignSystem h s =
     (case local_body h s of
        (s', Some e) \<Rightarrow> (s', None)
      | (s', None) \<Rightarrow> (s', None))"

definition loadMockDesignSystem :: "host \<Rightarrow> state \<Rightarrow> state \<times> exn option" where
  "loadMockDesignSystem h s =
     (if mock_throws h then loadLocalDesignSystem h s
      else (s\<lparr>designSystemConfig := mockData\<rparr>, None))"

subsection \<open>The remote API\<close>

text \<open>
  The call to the API suspends at each fetch, and the timer can fire at any of them.
  \<open>fuel\<close> is the number of responses that still arrive before the timer fires, \<open>None\<close>
  when it does not fire. A fetch is requested first; when no response is left, the call
  stays suspended there and the timer wins the race, with the state as the call has
  left it. The functions return the state, the fuel that is left and how the call ends.
\<close>

datatype api_result = Returns | Throws exn | TimerWins

definition answered :: "nat option \<Rightarrow> nat option" where
  "answered fuel = map_option (\<lambda>k. k - 1) fuel"

definition load_style ::
  "host \<Rightarrow> MCPConfig \<Rightarrow> api_style \<Rightarrow> nat option \<Rightarrow> state \<Rightarrow> state \<times> nat option \<times> api_result" where
  "load_style h config st fuel s =
     (if styleType st = ''FILL'' then
        (let s1 = request (baseUrl config @ ''/styles/'' @ styleKey st) s in
         if fuel = Some 0 then (s1, fuel, TimerWins)
         else
           (case fetch_style h (styleKey st) of
              Rejects \<Rightarrow> (s1, answered fuel, Throws HostError)
            | NotOk \<Rightarrow> (s1, answered fuel, Returns)
            | Ok d \<Rightarrow>
                (case sd_fills d of
                   Some (p # _) \<Rightarrow>
                     if ptype p = SOLID
                     then (set_colour (styleName st) (color p) s1, answered fuel, Returns)
                     else (s1, answered fuel, Returns)
                 | _ \<Rightarrow> (s1, answered fuel, Returns))))
      else if styleType st = ''TEXT'' then
        (let s1 = request (baseUrl config @ ''/styles/'' @ styleKey st) s in
         if fuel = Some 0 then (s1, fuel, TimerWins)
         else
           (case fetch_style h (styleKey st) of
              Rejects \<Rightarrow> (s1, answered fuel, Throws HostError)
            | NotOk \<Rightarrow> (s1, answered fuel, Returns)
            | Ok d \<Rightarrow>
                (set_textStyle (styleName st)
                   \<lparr>fontFamily = or_str (sd_fontFamily d) ''Inter'',
                    styleFontSize = or_num (sd_fontSize d) 14,
                    fontWeight = or_weight (sd_fontWeight d) (WeightNum 400),
                    lineHeight = or_num (sd_lineHeight d) 1.2,
                    letterSpacing = or_num (sd_letterSpacing d) 0,
                    textCase = None\<rparr> s1, answered fuel, Returns)))
      else (s, fuel, Returns))"

fun loadStylesFromAPI ::
  "host \<Rightarrow> MCPConfig \<Rightarrow> api_style list \<Rightarrow> nat option \<Rightarrow> state \<Rightarrow> state \<times> nat option \<times> api_result" where
  "loadStylesFromAPI h config [] fuel s = (s, fuel, Returns)"
| "loadStylesFromAPI h config (st # sts) fuel s =
     (case load_style h config st fuel s of
        (s', fuel', Returns) \<Rightarrow> loadStylesFromAPI h config sts fuel' s'
      | (s', fuel', Throws e) \<Rightarrow> (s', fuel', Throws e)
      | (s', fuel', TimerWins) \<Rightarrow> (s', fuel', TimerWins))"

definition loadComponentsFromAPI ::
  "host \<Rightarrow> MCPConfig \<Rightarrow> nat option \<Rightarrow> state \<Rightarrow> state \<times> nat option \<times> api_result" where
  "loadComponentsFromAPI h config fuel s =
     (let s1 = request (baseUrl config @ ''/files/'' @ fileKey config @ ''/components'') s in
      if fuel = Some 0 then (s1, fuel, TimerWins)
      else
        (case fetch_components h of
           Rejects \<Rightarrow> (s1, answered fuel, Throws HostError)
         | NotOk \<Rightarrow> (s1, answered fuel, Returns)
         | Ok None \<Rightarrow> (s1, answered fuel, Throws HostError)
         | Ok (Some names) \<Rightarrow>
             (fold (\<lambda>nm. set_component nm
                      \<lparr>cname = nm, ctype = getComponentType nm,
                       requiredProperties = [], allowedVariants = []\<rparr>) names s1,
              answered fuel, Returns)))"

definition loadFigmaDesignSystem ::
  "host \<Rightarrow> MCPConfig \<Rightarrow> nat option \<Rightarrow> state \<Rightarrow> state \<times> nat option \<times> api_result" where
  "loadFigmaDesignSystem h config fuel s =
     (let s1 = request (baseUrl config @ ''/files/'' @ fileKey config) s in
      if fuel = Some 0 then (s1, fuel, TimerWins)
      else
        (case fetch_file h of
           Rejects \<Rightarrow> (s1, answered fuel, Throws HostError)
         | NotOk \<Rightarrow> (s1, answered fuel, Throws HostError)
         | Ok fileData \<Rightarrow>
             (case (case styles fileData of
                      Some sts \<Rightarrow> loadStylesFromAPI h config sts (answered fuel) s1
                    | None \<Rightarrow> (s1, answered fuel, Returns)) of
                (s2, fuel2, Returns) \<Rightarrow>
                  if document fileData then loadComponentsFromAPI h config fuel2 s2
                  else (s2, fuel2, Returns)
              | (s2, fuel2, Throws e) \<Rightarrow> (s2, fuel2, Throws e)
              | (s2, fuel2, TimerWins) \<Rightarrow> (s2, fuel2, TimerWins))))"

subsection \<open>The fallback chain\<close>

text \<open>
  \<^verbatim>\<open>loadDesignSystemViaMCP\<close>. \<open>globalConfig\<close> is \<open>None\<close> when the \<^verbatim>\<open>config\<close> message
  carried no configuration: reading its token then throws, inside the outer \<^verbatim>\<open>try\<close>.
  When the timer wins, the handler runs on the state that the call to the API has
  reached by then. The promise of that call is not cancelled; what it requests and sets
  afterwards, on the store that the fallback has installed meanwhile, is outside the
  model.
\<close>

text \<open>\<^verbatim>\<open>!mcpConfig.figmaToken || mcpConfig.figmaToken.trim() === ''\<close>\<close>

definition no_token :: "nat list option \<Rightarrow> bool" where
  "no_token t = (case t of None \<Rightarrow> True | Some v \<Rightarrow> v = [] \<or> trim v = [])"

definition loadDesignSystemViaMCP :: "host \<Rightarrow> MCPConfig option \<Rightarrow> state \<Rightarrow> state \<times> exn option" where
  "loadDesignSystemViaMCP h globalConfig s =
     (case globalConfig of
        None \<Rightarrow> loadMockDesignSystem h s
      | Some mcpConfig \<Rightarrow>
          if no_token (figmaToken mcpConfig) then loadMockDesignSystem h s
          else
            (case loadFigmaDesignSystem h mcpConfig (timer_after h) s of
               (s', fuel', Returns) \<Rightarrow> (s', None)
             | (s', fuel', Throws apiError) \<Rightarrow> loadMockDesignSystem h s'
             | (s', fuel', TimerWins) \<Rightarrow> loadMockDesignSystem h s'))"

section \<open>Analysis, as in src/unnamed/part_000\<close>

text \<open>The fill rule, which tells text nodes from the other nodes.\<close>

definition colour_rule_tokens :: "node_attrs \<Rightarrow> issue list" where
  "colour_rule_tokens n =
     (case fills n of
        Fills fs \<Rightarrow>
          if no_style (fillStyleId n) then
            (case solidFill fs of
               Some f \<Rightarrow>
                 [\<lparr>itype = (if ntype n = TEXT then ''Text/Colour'' else ''Colour/Token''),
                   layer = name n, nodeId = nid n,
                   detail =
                     (if ntype n = TEXT then
                        ''Text uses hardcoded colour instead of design system token. Should use Functional/Carbon for text.''
                      else ''Layer uses a hardcoded fill colour. Must use a Colour Style/Token.''),
                   fixable = True\<rparr>]
             | None \<Rightarrow> [])
          else []
      | _ \<Rightarrow> [])"

text \<open>The button rule, which reads the primary colour from the store.\<close>

definition button_rule_tokens :: "DesignSystemConfig \<Rightarrow> node_attrs \<Rightarrow> issue list" where
  "button_rule_tokens cfg n =
     (if str_includes (toLowerCase (name n)) ''button'' \<or> str_includes (toLowerCase (name n)) ''btn'' then
        (case fills n of
           Fills fs \<Rightarrow>
             if ntype n = RECTANGLE then
               if no_style (fillStyleId n) then
                 (let isIncorrectColour =
                    (case solidFill fs of
                       Some f \<Rightarrow>
                         \<not> (case colourTokens cfg ''Primary/Blue/600'' of
                              Some primaryButtonColour \<Rightarrow> matchesPrimary (color f) primaryButtonColour
                            | None \<Rightarrow> False)
                     | None \<Rightarrow> length fs > 0)
                  in if isIncorrectColour then [button_issue n] else [])
               else []
             else []
         | _ \<Rightarrow> [])
      else [])"

definition rules_tokens :: "DesignSystemConfig \<Rightarrow> node_attrs \<Rightarrow> issue list" where
  "rules_tokens cfg n = colour_rule_tokens n @ button_rule_tokens cfg n"

text \<open>
  \<^verbatim>\<open>runAnalysis\<close> loads the store first, dropping an exception of the loader, and walks the
  selection with the store it finds then. It returns the promise's result and the state.
\<close>

definition runAnalysis_tokens ::
  "host \<Rightarrow> MCPConfig option \<Rightarrow> state \<Rightarrow> node list \<Rightarrow> (exn + issue list) \<times> state" where
  "runAnalysis_tokens h globalConfig s selectedNodes =
     (let s' = (case loadDesignSystemViaMCP h globalConfig s of
                  (s1, Some e) \<Rightarrow> s1
                | (s1, None) \<Rightarrow> s1)
      in case traverse_all (rules_tokens (designSystemConfig s')) selectedNodes [] of
           (issues, Some e) \<Rightarrow> (Inr issues, s')
         | (issues, None) \<Rightarrow> (Inr issues, s'))"

section \<open>Fixes\<close>

text \<open>
  The document is the map that \<^verbatim>\<open>figma.getNodeById\<close> looks up. A fix returns its outcome
  and the document, changed where the source assigns to a property of the node. The
  assignments themselves are taken to succeed.
\<close>

type_synonym doc = "string \<rightharpoonup> node_attrs"

definition err :: "string \<Rightarrow> outcome" where
  "err m = \<lparr>ostatus = error, message = m\<rparr>"

definition ok :: "string \<Rightarrow> outcome" where
  "ok m = \<lparr>ostatus = success, message = m\<rparr>"

definition solid :: "rgb \<Rightarrow> paint" where
  "solid c = \<lparr>ptype = SOLID, color = c, opacity = 1, pvisible = True, blendMode = ''NORMAL''\<rparr>"

definition fillableTypes :: "node_type list" where
  "fillableTypes =
     [RECTANGLE, ELLIPSE, POLYGON, STAR, VECTOR, TEXT, FRAME, COMPONENT, COMPONENT_SET, INSTANCE]"

text \<open>
  The guard that precedes every change of a text node: the two tests for mixed fonts and
  the load of the font. \<open>None\<close> lets the fix go on, \<open>Some\<close> is the error it returns.
\<close>

definition font_guard :: "(font \<Rightarrow> bool) \<Rightarrow> node_attrs \<Rightarrow> outcome option" where
  "font_guard load n =
     (case fontName n of
        FontList fl \<Rightarrow> Some (err ''Text layer uses mixed fonts and cannot be auto-fixed.'')
      | FontMixed \<Rightarrow>
          Some (err ''Text layer uses mixed fonts (figma.mixed) and cannot be auto-fixed.'')
      | Font f \<Rightarrow>
          if load f then None
          else Some (err ''Failed to load font for text layer. Manual fix required.''))"

definition is_array :: "fills_prop \<Rightarrow> bool" where
  "is_array fp = (case fp of Fills fs \<Rightarrow> True | _ \<Rightarrow> False)"

definition not_applied :: outcome where
  "not_applied = err ''Fix logic did not apply any changes.''"

subsection \<open>applyFix of src/code.ts\<close>

definition fix_colour_local :: "(font \<Rightarrow> bool) \<Rightarrow> doc \<Rightarrow> string \<Rightarrow> node_attrs \<Rightarrow> outcome \<times> doc" where
  "fix_colour_local load d node_id n =
     (if ntype n \<notin> set fillableTypes then
        (err (''Cannot apply fill fix to node type: '' @ type_name (ntype n) @ ''.''), d)
      else if is_array (fills n) then
        (case (if ntype n = TEXT then font_guard load n else None) of
           Some e \<Rightarrow> (e, d)
         | None \<Rightarrow>
             if ntype n = INSTANCE \<and> no_style (fillStyleId n) then
               (err ''Instance property may be locked or unoverrideable.'', d)
             else
               (ok ''Applied Gray/500 colour fill.'',
                d(node_id \<mapsto> n\<lparr>fills := Fills [solid GRAY_500_RGB]\<rparr>)))
      else (not_applied, d))"

definition fix_typography_local :: "(font \<Rightarrow> bool) \<Rightarrow> doc \<Rightarrow> string \<Rightarrow> node_attrs \<Rightarrow> outcome \<times> doc" where
  "fix_typography_local load d node_id n =
     (if ntype n = TEXT then
        (case font_guard load n of
           Some e \<Rightarrow> (e, d)
         | None \<Rightarrow>
             (ok (''Set font size to '' @ number_string APPROVED_FONT_SIZE @ ''px.''),
              d(node_id \<mapsto> n\<lparr>fontSize := Px APPROVED_FONT_SIZE\<rparr>)))
      else (not_applied, d))"

definition fix_button_local :: "(font \<Rightarrow> bool) \<Rightarrow> doc \<Rightarrow> string \<Rightarrow> node_attrs \<Rightarrow> outcome \<times> doc" where
  "fix_button_local load d node_id n =
     (if is_array (fills n) then
        if ntype n = INSTANCE \<and> no_style (fillStyleId n) then
          (err ''Instance property may be locked or unoverrideable.'', d)
        else
          (case (if ntype n = TEXT then font_guard load n else None) of
             Some e \<Rightarrow> (e, d)
           | None \<Rightarrow>
               (ok ''Applied Primary Button (Indigo/600) colour fill.'',
                d(node_id \<mapsto> n\<lparr>fills := Fills [solid PRIMARY_BUTTON_COLOR_RGB]\<rparr>)))
      else (not_applied, d))"

definition applyFix_local :: "(font \<Rightarrow> bool) \<Rightarrow> doc \<Rightarrow> string \<Rightarrow> string \<Rightarrow> outcome \<times> doc" where
  "applyFix_local load d node_id issueType =
     (case d node_id of
        None \<Rightarrow> (err ''Node not found or removed.'', d)
      | Some n \<Rightarrow>
          if locked n = Some True then (err ''Layer is locked. Manual fix needed.'', d)
          else if issueType = ''Colour/Token'' then fix_colour_local load d node_id n
          else if issueType = ''Typography'' then fix_typography_local load d node_id n
          else if issueType = ''Button/Style'' then fix_button_local load d node_id n
          else (err (''Unknown issue type: '' @ issueType), d))"

subsection \<open>applyFix of src/unnamed/part_000\<close>

text \<open>\<^verbatim>\<open>colourTokens.get(key) || fallback\<close>: a colour is an object, hence truthy.\<close>

definition token_or :: "DesignSystemConfig \<Rightarrow> string \<Rightarrow> rgb \<Rightarrow> rgb" where
  "token_or cfg k fallback = (case colourTokens cfg k of Some c \<Rightarrow> c | None \<Rightarrow> fallback)"

definition carbonColour :: "DesignSystemConfig \<Rightarrow> rgb" where
  "carbonColour cfg = token_or cfg ''Functional/Carbon'' \<lparr>r = dec 1 1, g = dec 1 1, b = dec 1 1\<rparr>"

definition primaryButtonColour :: "DesignSystemConfig \<Rightarrow> rgb" where
  "primaryButtonColour cfg = token_or cfg ''Primary/Blue/600'' \<lparr>r = dec 196 3, g = dec 275 3, b = dec 898 3\<rparr>"

definition fix_text_colour_tokens ::
  "(font \<Rightarrow> bool) \<Rightarrow> DesignSystemConfig \<Rightarrow> doc \<Rightarrow> string \<Rightarrow> node_attrs \<Rightarrow> outcome \<times> doc" where
  "fix_text_colour_tokens load cfg d node_id n =
     (if ntype n = TEXT then
        (case font_guard load n of
           Some e \<Rightarrow> (e, d)
         | None \<Rightarrow>
             if is_array (fills n) then
               (ok ''Applied Functional/Carbon colour to text.'',
                d(node_id \<mapsto> n\<lparr>fills := Fills [solid (carbonColour cfg)]\<rparr>))
             else (not_applied, d))
      else (not_applied, d))"

definition fix_colour_tokens ::
  "(font \<Rightarrow> bool) \<Rightarrow> DesignSystemConfig \<Rightarrow> doc \<Rightarrow> string \<Rightarrow> node_attrs \<Rightarrow> outcome \<times> doc" where
  "fix_colour_tokens load cfg d node_id n =
     (if ntype n \<notin> set fillableTypes then
        (err (''Cannot apply fill fix to node type: '' @ type_name (ntype n) @ ''.''), d)
      else if is_array (fills n) then
        (case (if ntype n = TEXT then font_guard load n else None) of
           Some e \<Rightarrow> (e, d)
         | None \<Rightarrow>
             if ntype n = INSTANCE \<and> no_style (fillStyleId n) then
               (err ''Instance property may be locked or unoverrideable.'', d)
             else
               (ok ''Applied Functional/Carbon colour fill.'',
                d(node_id \<mapsto> n\<lparr>fills := Fills [solid (carbonColour cfg)]\<rparr>)))
      else (not_applied, d))"

definition fix_typography_tokens :: "(font \<Rightarrow> bool) \<Rightarrow> doc \<Rightarrow> node_attrs \<Rightarrow> outcome \<times> doc" where
  "fix_typography_tokens load d n =
     (if ntype n = TEXT then
        (case font_guard load n of
           Some e \<Rightarrow> (e, d)
         | None \<Rightarrow>
             (err ''Typography fixes should use design system text styles instead of hardcoded font sizes.'',
              d))
      else (not_applied, d))"

definition fix_button_tokens ::
  "(font \<Rightarrow> bool) \<Rightarrow> DesignSystemConfig \<Rightarrow> doc \<Rightarrow> string \<Rightarrow> node_attrs \<Rightarrow> outcome \<times> doc" where
  "fix_button_tokens load cfg d node_id n =
     (if is_array (fills n) then
        if ntype n = INSTANCE \<and> no_style (fillStyleId n) then
          (err ''Instance property may be locked or unoverrideable.'', d)
        else
          (case (if ntype n = TEXT then font_guard load n else None) of
             Some e \<Rightarrow> (e, d)
           | None \<Rightarrow>
               (ok ''Applied Primary Button (Indigo/600) colour fill.'',
                d(node_id \<mapsto> n\<lparr>fills := Fills [solid (primaryButtonColour cfg)]\<rparr>)))
      else (not_applied, d))"

definition applyFix_tokens ::
  "(font \<Rightarrow> bool) \<Rightarrow> DesignSystemConfig \<Rightarrow> doc \<Rightarrow> string \<Rightarrow> string \<Rightarrow> outcome \<times> doc" where
  "applyFix_tokens load cfg d node_id issueType =
     (case d node_id of
        None \<Rightarrow> (err ''Node not found or removed.'', d)
      | Some n \<Rightarrow>
          if locked n = Some True then (err ''Layer is locked. Manual fix needed.'', d)
          else if issueType = ''Text/Colour'' then fix_text_colour_tokens load cfg d node_id n
          else if issueType = ''Colour/Token'' then fix_colour_tokens load cfg d node_id n
          else if issueType = ''Typography'' then fix_typography_tokens load d n
          else if issueType = ''Button/Style'' then fix_button_tokens load cfg d node_id n
          else (err (''Unknown issue type: '' @ issueType), d))"

section \<open>The walk, as the specification words it\<close>

text \<open>
  The specification describes the traversal as a depth-first pre-order descent that
  enters a node only if it is visible or a document or page. \<open>walk\<close> lists the nodes
  reached in that order, a node before its children and the children from left to
  right; \<open>None\<close> marks a removed layer, at which the host throws. \<open>before_throw\<close> keeps
  the nodes reached before the first such mark.
\<close>

definition entered :: "node_attrs \<Rightarrow> bool" where
  "entered n \<longleftrightarrow> nvisible n = Some True \<or> ntype n = DOCUMENT \<or> ntype n = PAGE"

fun walk :: "node \<Rightarrow> node_attrs option list"
  and walk_all :: "node list \<Rightarrow> node_attrs option list"
where
  "walk Removed = [None]"
| "walk (Node n cs) = (if entered n then Some n # walk_all cs else [])"
| "walk_all [] = []"
| "walk_all (c # cs) = walk c @ walk_all cs"

fun before_throw :: "'a option list \<Rightarrow> 'a list" where
  "before_throw [] = []"
| "before_throw (None # xs) = []"
| "before_throw (Some x # xs) = x # before_throw xs"

section \<open>Concrete inputs\<close>

text \<open>
  The initial values of the globals of \<^verbatim>\<open>part_000\<close>, and the layers, document and host
  at which the theorems below are instantiated.
\<close>

definition initial_globalConfig :: MCPConfig where
  "initial_globalConfig =
     \<lparr>figmaToken = Some [], fileKey = ''KkqX7OKAggFzvfB0CMUwBz'',
      baseUrl = ''https://api.figma.com/v1''\<rparr>"

definition initial_state :: state where
  "initial_state = \<lparr>designSystemConfig = DEFAULT_CONFIG, requests = []\<rparr>"

definition grey :: rgb where
  "grey = \<lparr>r = dec 5 1, g = dec 5 1, b = dec 5 1\<rparr>"

definition inter_regular :: font where
  "inter_regular = \<lparr>family = ''Inter'', style = ''Regular''\<rparr>"

definition example_button :: node_attrs where
  "example_button =
     \<lparr>nid = ''1:2'', name = ''Primary Button'', ntype = RECTANGLE, nvisible = Some True,
      locked = Some False, fills = Fills [solid grey], fillStyleId = Some (StyleId []),
      fontName = Font inter_regular, fontSize = Px 14\<rparr>"

definition example_text :: node_attrs where
  "example_text =
     \<lparr>nid = ''1:3'', name = ''Title'', ntype = TEXT, nvisible = Some True,
      locked = Some False, fills = Fills [solid grey], fillStyleId = Some (StyleId []),
      fontName = Font inter_regular, fontSize = Px 18\<rparr>"

definition example_mixed_text :: node_attrs where
  "example_mixed_text = example_text\<lparr>nid := ''1:4'', fontName := FontMixed\<rparr>"

definition example_locked :: node_attrs where
  "example_locked = example_button\<lparr>nid := ''1:5'', locked := Some True\<rparr>"

definition example_hidden_frame :: node_attrs where
  "example_hidden_frame =
     \<lparr>nid = ''1:6'', name = ''Drafts'', ntype = FRAME, nvisible = Some False,
      locked = Some False, fills = Fills [solid grey], fillStyleId = Some (StyleId []),
      fontName = Font inter_regular, fontSize = Px 14\<rparr>"

definition example_page :: node_attrs where
  "example_page =
     \<lparr>nid = ''0:1'', name = ''Page 1'', ntype = PAGE, nvisible = None,
      locked = None, fills = NoFills, fillStyleId = None,
      fontName = Font inter_regular, fontSize = Px 14\<rparr>"

definition example_doc :: doc where
  "example_doc =
     [''1:2'' \<mapsto> example_button, ''1:3'' \<mapsto> example_text, ''1:4'' \<mapsto> example_mixed_text,
      ''1:5'' \<mapsto> example_locked]"

definition all_fonts :: "font \<Rightarrow> bool" where
  "all_fonts f = True"

definition no_style_details :: "string \<Rightarrow> style_details fetched" where
  "no_style_details k = Rejects"

definition example_host :: host where
  "example_host =
     \<lparr>fetch_file = Rejects, fetch_style = no_style_details, fetch_components = Rejects,
      timer_after = None, mock_throws = False,
      getLocalPaintStyles = Some [\<lparr>ps_name = ''Brand/Ink'', paints = [solid grey]\<rparr>],
      getLocalTextStyles = None, findAll_COMPONENT_SET = Some [],
      loadFontAsync = all_fonts\<rparr>"

text \<open>
  A host whose API answers: the file declares one fill style, named like the primary
  token, whose first paint is the grey of the example layers.
\<close>

definition grey_style_details :: "string \<Rightarrow> style_details fetched" where
  "grey_style_details k =
     Ok \<lparr>sd_fills = Some [solid grey], sd_fontFamily = None, sd_fontSize = None,
         sd_fontWeight = None, sd_lineHeight = None, sd_letterSpacing = None\<rparr>"

definition remote_host :: host where
  "remote_host =
     example_host
       \<lparr>fetch_file :=
          Ok \<lparr>styles = Some [\<lparr>styleKey = ''S:1'', styleName = ''Primary/Blue/600'',
                                styleType = ''FILL''\<rparr>],
              document = False\<rparr>,
        fetch_style := grey_style_details\<rparr>"

text \<open>The code units of the credential \<^verbatim>\<open>figd_1\<close>, and a credential of white space only.\<close>

definition figd_1 :: "nat list" where
  "figd_1 = [0x66, 0x69, 0x67, 0x64, 0x5F, 0x31]"

definition blank_credential :: "nat list" where
  "blank_credential = [0x0020, 0x0009, 0x00A0, 0x3000, 0xFEFF, 0x000A]"

definition remote_globalConfig :: MCPConfig where
  "remote_globalConfig = initial_globalConfig\<lparr>figmaToken := Some figd_1\<rparr>"

text \<open>
  A store whose primary token has a dark red channel, 0.012, and a paint whose red
  channel is the double next above 0.002, that is 0.0020000000000000005; the green and
  blue channels agree.
\<close>

definition dark_primary :: rgb where
  "dark_primary = \<lparr>r = dec 12 3, g = dec 5 1, b = dec 5 1\<rparr>"

definition dark_paint :: paint where
  "dark_paint =
     solid \<lparr>r = \<lparr>mant = 4611686018427389, expo = - 61\<rparr>, g = dec 5 1, b = dec 5 1\<rparr>"

definition dark_store :: DesignSystemConfig where
  "dark_store = DEFAULT_CONFIG\<lparr>colourTokens := [''Primary/Blue/600'' \<mapsto> dark_primary]\<rparr>"

definition dark_style_details :: "string \<Rightarrow> style_details fetched" where
  "dark_style_details k =
     Ok \<lparr>sd_fills = Some [solid dark_primary], sd_fontFamily = None, sd_fontSize = None,
         sd_fontWeight = None, sd_lineHeight = None, sd_letterSpacing = None\<rparr>"

definition dark_host :: host where
  "dark_host = remote_host\<lparr>fetch_style := dark_style_details\<rparr>"

definition dark_button :: node_attrs where
  "dark_button = example_button\<lparr>fills := Fills [dark_paint]\<rparr>"

text \<open>Buttons with several paints, and paints at the edge of the tolerance.\<close>

definition primary_paint :: paint where
  "primary_paint = solid PRIMARY_BUTTON_COLOR_RGB"

definition layered_button :: node_attrs where
  "layered_button =
     example_button\<lparr>fills := Fills [primary_paint\<lparr>pvisible := False\<rparr>, solid grey, primary_paint]\<rparr>"

definition covered_button :: node_attrs where
  "covered_button = example_button\<lparr>fills := Fills [primary_paint, solid grey]\<rparr>"

definition near_paint :: paint where
  "near_paint = solid \<lparr>r = dec 206 3, g = dec 275 3, b = dec 898 3\<rparr>"

definition far_paint :: paint where
  "far_paint = solid \<lparr>r = dec 196 3, g = dec 265 3, b = dec 898 3\<rparr>"

definition hidden_text :: node_attrs where
  "hidden_text = example_text\<lparr>nvisible := Some False\<rparr>"

definition locked_text :: node_attrs where
  "locked_text = example_text\<lparr>locked := Some True\<rparr>"

definition hidden_mixed_text :: node_attrs where
  "hidden_mixed_text = example_mixed_text\<lparr>nvisible := Some False\<rparr>"

definition locked_mixed_text :: node_attrs where
  "locked_mixed_text = example_mixed_text\<lparr>locked := Some True\<rparr>"

section \<open>Evaluation of the numbers\<close>

text \<open>
  The doubles that the literals of the source denote; \<open>dec 1 2\<close>, the tolerance
  \<^verbatim>\<open>0.01\<close>, is 5764607523034235 / 2^59, a little above one hundredth.
\<close>

lemma dec_values:
  "dec 1 2 = \<lparr>mant = 5764607523034235, expo = - 59\<rparr>"
  "dec 5 1 = \<lparr>mant = 1, expo = - 1\<rparr>"
  "dec 196 3 = \<lparr>mant = 3530822107858469, expo = - 54\<rparr>"
  "dec 275 3 = \<lparr>mant = 2476979795053773, expo = - 53\<rparr>"
  "dec 898 3 = \<lparr>mant = 8088464930757411, expo = - 53\<rparr>"
  "dec 157 3 = \<lparr>mant = 5656521131977343, expo = - 55\<rparr>"
  "dec 220 3 = \<lparr>mant = 7926335344172073, expo = - 55\<rparr>"
  "dec 718 3 = \<lparr>mant = 202099033278251, expo = - 48\<rparr>"
  "dec 206 3 = \<lparr>mant = 7421932185906577, expo = - 55\<rparr>"
  "dec 265 3 = \<lparr>mant = 2386907802506363, expo = - 53\<rparr>"
  "dec 12 3 = \<lparr>mant = 3458764513820541, expo = - 58\<rparr>"
  apply (simp_all add: dec_def round_ratio_def Let_def)
  apply (simp_all add: round53_def Let_def)
  done

lemma within_tolerance_refl: "within_tolerance x x"
  unfolding within_tolerance_def dec_values
  apply (simp add: dsub_def Let_def)
  apply (simp add: round53_def Let_def dabs_def)
  apply (simp add: dless_def Let_def)
  done

lemma tolerance_values:
  "\<not> within_tolerance (dec 5 1) (dec 196 3)"
  "\<not> within_tolerance (dec 5 1) (dec 157 3)"
  "within_tolerance (dec 206 3) (dec 196 3)"
  "\<not> within_tolerance (dec 265 3) (dec 275 3)"
  "\<not> within_tolerance \<lparr>mant = 4611686018427389, expo = - 61\<rparr> (dec 12 3)"
  apply (simp_all only: within_tolerance_def dec_values)
  apply (simp_all add: dsub_def Let_def)
  apply (simp_all add: round53_def Let_def dabs_def dless_def)
  done

lemma half_far:
  "\<not> within_tolerance (dec 5 (Suc 0)) (dec 196 3)"
  "\<not> within_tolerance (dec 5 (Suc 0)) (dec 157 3)"
  using tolerance_values(1,2) by simp_all

lemma matchesPrimary_refl: "matchesPrimary c c"
  by (simp add: matchesPrimary_def within_tolerance_refl)

lemma grey_far:
  "\<not> matchesPrimary grey PRIMARY_BUTTON_COLOR_RGB"
  "\<not> matchesPrimary grey \<lparr>r = dec 196 3, g = dec 275 3, b = dec 898 3\<rparr>"
  "\<not> matchesPrimary grey \<lparr>r = dec 157 3, g = dec 220 3, b = dec 718 3\<rparr>"
  by (simp_all add: matchesPrimary_def grey_def PRIMARY_BUTTON_COLOR_RGB_def half_far)

lemma edge_paints:
  "matchesPrimary (color near_paint) PRIMARY_BUTTON_COLOR_RGB"
  "\<not> matchesPrimary (color far_paint) PRIMARY_BUTTON_COLOR_RGB"
  by (simp_all add: matchesPrimary_def near_paint_def far_paint_def solid_def
      PRIMARY_BUTTON_COLOR_RGB_def tolerance_values within_tolerance_refl)

lemma dark_far: "\<not> matchesPrimary (color dark_paint) dark_primary"
  by (simp add: matchesPrimary_def dark_paint_def dark_primary_def solid_def tolerance_values)

section \<open>Evaluation of the concrete inputs\<close>

lemmas rule_defs =
  rules_local_def colour_rule_local_def typography_rule_local_def button_rule_local_def
  rules_tokens_def colour_rule_tokens_def button_rule_tokens_def button_issue_def
  solidFill_def PRIMARY_BUTTON_COLOR_RGB_def APPROVED_FONT_SIZE_def grey_far
  matchesPrimary_refl
  toLowerCase_def lower_char_def number_string_def digit_char_def

lemmas example_defs =
  example_button_def example_text_def example_mixed_text_def example_locked_def
  example_hidden_frame_def example_page_def example_doc_def solid_def
  inter_regular_def all_fonts_def hidden_text_def locked_text_def hidden_mixed_text_def
  locked_mixed_text_def

section \<open>The traversal\<close>

lemma before_throw_append:
  "before_throw (xs @ ys) =
     (if None \<in> set xs then before_throw xs else before_throw xs @ before_throw ys)"
proof (induction xs)
  case Nil
  show ?case by simp
next
  case (Cons x xs)
  then show ?case by (cases x) auto
qed

lemma walk_all_append: "walk_all (xs @ ys) = walk_all xs @ walk_all ys"
  by (induction xs) simp_all

text \<open>
  The array after \<^verbatim>\<open>traverse\<close> is the array before it followed by the issues of the
  nodes that the walk reaches before a removed layer, and \<^verbatim>\<open>traverse\<close> throws exactly
  when the walk reaches one.
\<close>

lemma traverse_walk:
  "traverse rules nd acc =
     (acc @ concat (map rules (before_throw (walk nd))),
      if None \<in> set (walk nd) then Some HostError else None)"
  "traverse_all rules nds acc =
     (acc @ concat (map rules (before_throw (walk_all nds))),
      if None \<in> set (walk_all nds) then Some HostError else None)"
proof (induction rules nd acc and rules nds acc rule: traverse_traverse_all.induct)
  case (1 rules issues)
  show ?case by simp
next
  case (2 rules n cs issues)
  then show ?case by (simp add: entered_def)
next
  case (3 rules issues)
  show ?case by simp
next
  case (4 rules c cs issues)
  show ?case
  proof (cases "None \<in> set (walk c)")
    case True
    with 4(1) show ?thesis by (simp add: before_throw_append)
  next
    case False
    with 4(1) have t: "traverse rules c issues =
        (issues @ concat (map rules (before_throw (walk c))), None)"
      by simp
    from 4(2)[OF t[symmetric] refl] False t show ?thesis
      by (simp add: before_throw_append)
  qed
qed

lemma traverse_all_abort:
  assumes "traverse_all rules pre [] = (acc, Some e)"
  shows "traverse_all rules (pre @ post) [] = (acc, Some e)"
proof -
  from assms have th: "None \<in> set (walk_all pre)"
    and acc: "acc = concat (map rules (before_throw (walk_all pre)))"
    and e: "e = HostError"
    by (auto simp: traverse_walk(2) split: if_splits)
  show ?thesis
    by (simp add: traverse_walk(2) walk_all_append before_throw_append th acc e)
qed

lemma runAnalysis_local_eq:
  "runAnalysis_local roots = Inr (fst (traverse_all rules_local roots []))"
  by (auto simp: runAnalysis_local_def split: prod.splits option.splits)

lemma runAnalysis_tokens_eq:
  "runAnalysis_tokens h gc s roots =
     (Inr (fst (traverse_all
        (rules_tokens (designSystemConfig (fst (loadDesignSystemViaMCP h gc s)))) roots [])),
      fst (loadDesignSystemViaMCP h gc s))"
  by (auto simp: runAnalysis_tokens_def Let_def split: prod.splits option.splits)

lemma runAnalysis_local_walk:
  "runAnalysis_local roots = Inr (concat (map rules_local (before_throw (walk_all roots))))"
  by (simp add: runAnalysis_local_eq traverse_walk(2))

lemma runAnalysis_tokens_walk:
  "fst (runAnalysis_tokens h gc s roots) =
     Inr (concat (map (rules_tokens (designSystemConfig (fst (loadDesignSystemViaMCP h gc s))))
       (before_throw (walk_all roots))))"
  by (simp add: runAnalysis_tokens_eq traverse_walk(2))

lemma example_button_rules_local:
  "map itype (rules_local example_button) = [''Colour/Token'', ''Button/Style'']"
  by (simp add: rule_defs example_defs)

text \<open>
  Claim C1. For every sequence of selected root nodes, \<^verbatim>\<open>runAnalysis\<close> does not raise: its
  promise resolves with an issue list, in both versions. If the walk throws while it is
  in the first part \<open>pre\<close> of the selection, having accumulated the issues \<open>acc\<close>, then
  the nodes after it are not visited and the issues \<open>acc\<close> are what the call returns.
\<close>

theorem runAnalysis_never_raises:
  "(\<exists>issues. runAnalysis_local roots = Inr issues)
   \<and> (\<exists>issues. fst (runAnalysis_tokens h gc s roots) = Inr issues)
   \<and> (traverse_all rules_local pre [] = (acc, Some e)
        \<longrightarrow> runAnalysis_local (pre @ post) = Inr acc)
   \<and> (traverse_all (rules_tokens (designSystemConfig (fst (loadDesignSystemViaMCP h gc s))))
          pre [] = (acc, Some e)
        \<longrightarrow> fst (runAnalysis_tokens h gc s (pre @ post)) = Inr acc)"
proof (intro conjI impI)
  show "\<exists>issues. runAnalysis_local roots = Inr issues"
    by (simp add: runAnalysis_local_walk)
  show "\<exists>issues. fst (runAnalysis_tokens h gc s roots) = Inr issues"
    by (simp add: runAnalysis_tokens_walk)
next
  assume "traverse_all rules_local pre [] = (acc, Some e)"
  then have "traverse_all rules_local (pre @ post) [] = (acc, Some e)"
    by (rule traverse_all_abort)
  then show "runAnalysis_local (pre @ post) = Inr acc"
    by (simp add: runAnalysis_local_eq)
next
  let ?cfg = "designSystemConfig (fst (loadDesignSystemViaMCP h gc s))"
  assume "traverse_all (rules_tokens ?cfg) pre [] = (acc, Some e)"
  then have "traverse_all (rules_tokens ?cfg) (pre @ post) [] = (acc, Some e)"
    by (rule traverse_all_abort)
  then show "fst (runAnalysis_tokens h gc s (pre @ post)) = Inr acc"
    by (simp add: runAnalysis_tokens_eq)
qed

theorem runAnalysis_never_raises_witness:
  "traverse_all rules_local [Node example_button [], Removed] []
     = (rules_local example_button, Some HostError)
   \<and> runAnalysis_local ([Node example_button [], Removed] @ [Node example_text []])
     = Inr (rules_local example_button)
   \<and> map itype (rules_local example_button) = [''Colour/Token'', ''Button/Style'']"
proof -
  have t: "traverse_all rules_local [Node example_button [], Removed] []
      = (rules_local example_button, Some HostError)"
    by (simp add: example_button_def)
  from runAnalysis_never_raises [of _ _ _ _ "[Node example_button [], Removed]"
      "rules_local example_button" HostError "[Node example_text []]"] t
  have "runAnalysis_local ([Node example_button [], Removed] @ [Node example_text []])
      = Inr (rules_local example_button)"
    by blast
  with t example_button_rules_local show ?thesis by simp
qed

text \<open>
  Claim C4. A node whose visibility flag is not true and which is neither a document nor
  a page is left at once: nothing is added to the issues, none of its descendants is
  visited (not even a removed one, which would throw), and the analysis of a selection
  gives the same result with and without such a node. A document or page node is
  entered whatever its visibility: its rules run and the walk goes on with its children.
  The issues returned are those of the nodes of \<open>walk_all\<close>, which lists every entered
  node before its children and the children in their order, each node contributing the
  issues of its rules before any issue of a descendant.
\<close>

theorem hidden_skipped_walk_preorder:
  "(nvisible n \<noteq> Some True \<and> ntype n \<noteq> DOCUMENT \<and> ntype n \<noteq> PAGE \<longrightarrow>
      traverse rules (Node n cs) issues = (issues, None)
      \<and> runAnalysis_local (pre @ Node n cs # post) = runAnalysis_local (pre @ post)
      \<and> runAnalysis_tokens h gc s (pre @ Node n cs # post)
          = runAnalysis_tokens h gc s (pre @ post))
   \<and> (ntype n = DOCUMENT \<or> ntype n = PAGE \<longrightarrow>
      traverse rules (Node n cs) issues = traverse_all rules cs (issues @ rules n))
   \<and> runAnalysis_local roots
       = Inr (concat (map rules_local (before_throw (walk_all roots))))
   \<and> fst (runAnalysis_tokens h gc s roots)
       = Inr (concat (map (rules_tokens (designSystemConfig (snd (runAnalysis_tokens h gc s roots))))
           (before_throw (walk_all roots))))"
proof (intro conjI impI)
  assume hidden: "nvisible n \<noteq> Some True \<and> ntype n \<noteq> DOCUMENT \<and> ntype n \<noteq> PAGE"
  then have w: "walk_all (pre @ Node n cs # post) = walk_all (pre @ post)"
    by (simp add: walk_all_append entered_def)
  from hidden show "traverse rules (Node n cs) issues = (issues, None)"
    by simp
  from w show "runAnalysis_local (pre @ Node n cs # post) = runAnalysis_local (pre @ post)"
    by (simp add: runAnalysis_local_walk)
  from w show "runAnalysis_tokens h gc s (pre @ Node n cs # post)
      = runAnalysis_tokens h gc s (pre @ post)"
    by (simp add: runAnalysis_tokens_eq traverse_walk(2))
next
  assume "ntype n = DOCUMENT \<or> ntype n = PAGE"
  then show "traverse rules (Node n cs) issues = traverse_all rules cs (issues @ rules n)"
    by auto
next
  show "runAnalysis_local roots
      = Inr (concat (map rules_local (before_throw (walk_all roots))))"
    by (rule runAnalysis_local_walk)
  show "fst (runAnalysis_tokens h gc s roots)
      = Inr (concat (map (rules_tokens (designSystemConfig (snd (runAnalysis_tokens h gc s roots))))
          (before_throw (walk_all roots))))"
    by (simp add: runAnalysis_tokens_eq traverse_walk(2))
qed

theorem hidden_skipped_walk_preorder_witness:
  "(nvisible example_hidden_frame \<noteq> Some True \<and> ntype example_hidden_frame \<noteq> DOCUMENT
      \<and> ntype example_hidden_frame \<noteq> PAGE)
   \<and> traverse rules_local (Node example_hidden_frame [Node example_button [], Removed]) []
       = ([], None)
   \<and> runAnalysis_local
        ([Node example_text []] @ Node example_hidden_frame [Node example_button []] # [])
       = runAnalysis_local ([Node example_text []] @ [])
   \<and> ntype example_page = PAGE
   \<and> traverse rules_local (Node example_page [Node example_button []]) []
       = traverse_all rules_local [Node example_button []] ([] @ rules_local example_page)
   \<and> runAnalysis_local [Node example_page [Node example_button [], Node example_text []]]
       = Inr (rules_local example_page @ rules_local example_button @ rules_local example_text)"
proof -
  have hid: "nvisible example_hidden_frame \<noteq> Some True \<and> ntype example_hidden_frame \<noteq> DOCUMENT
      \<and> ntype example_hidden_frame \<noteq> PAGE"
    by (simp add: example_hidden_frame_def)
  have pg: "ntype example_page = PAGE"
    by (simp add: example_page_def)
  note a = hidden_skipped_walk_preorder [of example_hidden_frame rules_local
      "[Node example_button [], Removed]" "[]"]
  note b = hidden_skipped_walk_preorder [of example_hidden_frame _
      "[Node example_button []]" _ "[Node example_text []]" "[]"]
  note c = hidden_skipped_walk_preorder [of example_page rules_local
      "[Node example_button []]" "[]"]
  note d = hidden_skipped_walk_preorder [of _ _ _ _ _ _ _ _ _
      "[Node example_page [Node example_button [], Node example_text []]]"]
  have w: "before_throw (walk_all [Node example_page [Node example_button [], Node example_text []]])
      = [example_page, example_button, example_text]"
    by (simp add: entered_def example_defs)
  from a hid have 1: "traverse rules_local
      (Node example_hidden_frame [Node example_button [], Removed]) [] = ([], None)"
    by blast
  from b hid have 2: "runAnalysis_local
        ([Node example_text []] @ Node example_hidden_frame [Node example_button []] # [])
       = runAnalysis_local ([Node example_text []] @ [])"
    by blast
  from c pg have 3: "traverse rules_local (Node example_page [Node example_button []]) []
       = traverse_all rules_local [Node example_button []] ([] @ rules_local example_page)"
    by blast
  from d w have 4: "runAnalysis_local [Node example_page [Node example_button [], Node example_text []]]
       = Inr (rules_local example_page @ rules_local example_button @ rules_local example_text)"
    by simp
  from hid pg 1 2 3 4 show ?thesis by blast
qed

section \<open>The preconditions of a fix\<close>

lemma rules_local_locked: "rules_local (n\<lparr>locked := l\<rparr>) = rules_local n"
proof -
  have "colour_rule_local (n\<lparr>locked := l\<rparr>) = colour_rule_local n"
    by (simp add: colour_rule_local_def split: fills_prop.splits option.splits)
  moreover have "typography_rule_local (n\<lparr>locked := l\<rparr>) = typography_rule_local n"
    by (simp add: typography_rule_local_def split: font_size.splits)
  moreover have "button_rule_local (n\<lparr>locked := l\<rparr>) = button_rule_local n"
    by (simp add: button_rule_local_def button_issue_def split: fills_prop.splits)
  ultimately show ?thesis by (simp add: rules_local_def)
qed

lemma rules_tokens_locked: "rules_tokens cfg (n\<lparr>locked := l\<rparr>) = rules_tokens cfg n"
proof -
  have "colour_rule_tokens (n\<lparr>locked := l\<rparr>) = colour_rule_tokens n"
    by (simp add: colour_rule_tokens_def split: fills_prop.splits option.splits)
  moreover have "button_rule_tokens cfg (n\<lparr>locked := l\<rparr>) = button_rule_tokens cfg n"
    by (simp add: button_rule_tokens_def button_issue_def split: fills_prop.splits)
  ultimately show ?thesis by (simp add: rules_tokens_def)
qed

lemma example_doc_lookup:
  "example_doc ''1:2'' = Some example_button"
  "example_doc ''1:3'' = Some example_text"
  "example_doc ''1:4'' = Some example_mixed_text"
  "example_doc ''1:5'' = Some example_locked"
  "example_doc ''9:9'' = None"
  by (simp_all add: example_doc_def)

text \<open>
  Claim C5. \<^verbatim>\<open>applyFix\<close> checks in this order, in both versions: an id that the document
  does not resolve gives the error \<open>Node not found or removed.\<close>; otherwise a locked node
  gives \<open>Layer is locked. Manual fix needed.\<close>; otherwise an issue type that no case of
  the switch names gives \<open>Unknown issue type: \<close> followed by the type. The document is
  unchanged in the three cases. The analysis does not read the lock: a node yields the
  same issues locked and unlocked.
\<close>

theorem applyFix_preconditions:
  "(d i = None \<longrightarrow>
      applyFix_local load d i t = (err ''Node not found or removed.'', d)
      \<and> applyFix_tokens load cfg d i t = (err ''Node not found or removed.'', d))
   \<and> (d i = Some n \<and> locked n = Some True \<longrightarrow>
      applyFix_local load d i t = (err ''Layer is locked. Manual fix needed.'', d)
      \<and> applyFix_tokens load cfg d i t = (err ''Layer is locked. Manual fix needed.'', d))
   \<and> (d i = Some n \<and> locked n \<noteq> Some True
        \<and> t \<notin> {''Colour/Token'', ''Typography'', ''Button/Style''} \<longrightarrow>
      applyFix_local load d i t = (err (''Unknown issue type: '' @ t), d))
   \<and> (d i = Some n \<and> locked n \<noteq> Some True
        \<and> t \<notin> {''Text/Colour'', ''Colour/Token'', ''Typography'', ''Button/Style''} \<longrightarrow>
      applyFix_tokens load cfg d i t = (err (''Unknown issue type: '' @ t), d))
   \<and> runAnalysis_local [Node (n\<lparr>locked := Some True\<rparr>) cs]
       = runAnalysis_local [Node (n\<lparr>locked := Some False\<rparr>) cs]
   \<and> runAnalysis_tokens h gc s [Node (n\<lparr>locked := Some True\<rparr>) cs]
       = runAnalysis_tokens h gc s [Node (n\<lparr>locked := Some False\<rparr>) cs]"
proof (intro conjI impI)
  assume "d i = None"
  then show "applyFix_local load d i t = (err ''Node not found or removed.'', d)"
    and "applyFix_tokens load cfg d i t = (err ''Node not found or removed.'', d)"
    by (simp_all add: applyFix_local_def applyFix_tokens_def)
next
  assume "d i = Some n \<and> locked n = Some True"
  then show "applyFix_local load d i t = (err ''Layer is locked. Manual fix needed.'', d)"
    and "applyFix_tokens load cfg d i t = (err ''Layer is locked. Manual fix needed.'', d)"
    by (simp_all add: applyFix_local_def applyFix_tokens_def)
next
  assume "d i = Some n \<and> locked n \<noteq> Some True
    \<and> t \<notin> {''Colour/Token'', ''Typography'', ''Button/Style''}"
  then show "applyFix_local load d i t = (err (''Unknown issue type: '' @ t), d)"
    by (simp add: applyFix_local_def)
next
  assume "d i = Some n \<and> locked n \<noteq> Some True
    \<and> t \<notin> {''Text/Colour'', ''Colour/Token'', ''Typography'', ''Button/Style''}"
  then show "applyFix_tokens load cfg d i t = (err (''Unknown issue type: '' @ t), d)"
    by (simp add: applyFix_tokens_def)
next
  show "runAnalysis_local [Node (n\<lparr>locked := Some True\<rparr>) cs]
      = runAnalysis_local [Node (n\<lparr>locked := Some False\<rparr>) cs]"
    by (simp add: runAnalysis_local_walk entered_def rules_local_locked)
  show "runAnalysis_tokens h gc s [Node (n\<lparr>locked := Some True\<rparr>) cs]
      = runAnalysis_tokens h gc s [Node (n\<lparr>locked := Some False\<rparr>) cs]"
    by (simp add: runAnalysis_tokens_eq traverse_walk(2) entered_def rules_tokens_locked)
qed

theorem applyFix_preconditions_witness:
  "example_doc ''9:9'' = None
   \<and> applyFix_local all_fonts example_doc ''9:9'' ''Colour/Token''
       = (err ''Node not found or removed.'', example_doc)
   \<and> example_doc ''1:5'' = Some example_locked \<and> locked example_locked = Some True
   \<and> applyFix_local all_fonts example_doc ''1:5'' ''Colour/Token''
       = (err ''Layer is locked. Manual fix needed.'', example_doc)
   \<and> applyFix_tokens all_fonts mockData example_doc ''1:5'' ''Spacing''
       = (err ''Layer is locked. Manual fix needed.'', example_doc)
   \<and> example_doc ''1:2'' = Some example_button \<and> locked example_button \<noteq> Some True
   \<and> applyFix_local all_fonts example_doc ''1:2'' ''Text/Colour''
       = (err ''Unknown issue type: Text/Colour'', example_doc)
   \<and> applyFix_tokens all_fonts mockData example_doc ''1:2'' ''Spacing''
       = (err ''Unknown issue type: Spacing'', example_doc)
   \<and> map itype (rules_local example_locked) = [''Colour/Token'', ''Button/Style'']"
proof -
  have l: "locked example_locked = Some True" and u: "locked example_button \<noteq> Some True"
    by (simp_all add: example_defs)
  have r: "map itype (rules_local example_locked) = [''Colour/Token'', ''Button/Style'']"
    by (simp add: rule_defs example_defs)
  note a = applyFix_preconditions [of example_doc "''9:9''" all_fonts "''Colour/Token''"]
  note b = applyFix_preconditions [of example_doc "''1:5''" all_fonts "''Colour/Token''"
      mockData example_locked]
  note c = applyFix_preconditions [of example_doc "''1:5''" all_fonts "''Spacing''"
      mockData example_locked]
  note d = applyFix_preconditions [of example_doc "''1:2''" all_fonts "''Text/Colour''"
      mockData example_button]
  note e = applyFix_preconditions [of example_doc "''1:2''" all_fonts "''Spacing''"
      mockData example_button]
  from a example_doc_lookup(5)
  have 1: "applyFix_local all_fonts example_doc ''9:9'' ''Colour/Token''
       = (err ''Node not found or removed.'', example_doc)"
    by blast
  from b example_doc_lookup(4) l
  have 2: "applyFix_local all_fonts example_doc ''1:5'' ''Colour/Token''
       = (err ''Layer is locked. Manual fix needed.'', example_doc)"
    by blast
  from c example_doc_lookup(4) l
  have 3: "applyFix_tokens all_fonts mockData example_doc ''1:5'' ''Spacing''
       = (err ''Layer is locked. Manual fix needed.'', example_doc)"
    by blast
  from d example_doc_lookup(1) u
  have 4: "applyFix_local all_fonts example_doc ''1:2'' ''Text/Colour''
       = (err ''Unknown issue type: Text/Colour'', example_doc)"
    by simp
  from e example_doc_lookup(1) u
  have 5: "applyFix_tokens all_fonts mockData example_doc ''1:2'' ''Spacing''
       = (err ''Unknown issue type: Spacing'', example_doc)"
    by simp
  from 1 2 3 4 5 l u r example_doc_lookup show ?thesis by simp
qed

section \<open>The button rule\<close>

lemma find_filter_conv:
  "find P xs = (case filter P xs of [] \<Rightarrow> None | x # ys \<Rightarrow> Some x)"
  by (induction xs) simp_all

lemma find_first:
  "find P xs = Some x \<longleftrightarrow>
     (\<exists>pre post. xs = pre @ x # post \<and> (\<forall>q \<in> set pre. \<not> P q) \<and> P x)"
proof (induction xs)
  case Nil
  show ?case by simp
next
  case (Cons a xs)
  show ?case
  proof (cases "P a")
    case True
    have "(\<exists>pre post. a # xs = pre @ x # post \<and> (\<forall>q \<in> set pre. \<not> P q) \<and> P x) \<longleftrightarrow> a = x"
    proof
      assume "\<exists>pre post. a # xs = pre @ x # post \<and> (\<forall>q \<in> set pre. \<not> P q) \<and> P x"
      then obtain pre post where d: "a # xs = pre @ x # post" "\<forall>q \<in> set pre. \<not> P q"
        by blast
      with True show "a = x" by (cases pre) auto
    next
      assume "a = x"
      with True have "a # xs = [] @ x # xs \<and> (\<forall>q \<in> set []. \<not> P q) \<and> P x"
        by simp
      then show "\<exists>pre post. a # xs = pre @ x # post \<and> (\<forall>q \<in> set pre. \<not> P q) \<and> P x"
        by blast
    qed
    with True show ?thesis by simp
  next
    case False
    have "(\<exists>pre post. a # xs = pre @ x # post \<and> (\<forall>q \<in> set pre. \<not> P q) \<and> P x) \<longleftrightarrow>
        (\<exists>pre post. xs = pre @ x # post \<and> (\<forall>q \<in> set pre. \<not> P q) \<and> P x)"
    proof
      assume "\<exists>pre post. a # xs = pre @ x # post \<and> (\<forall>q \<in> set pre. \<not> P q) \<and> P x"
      then obtain pre post where d: "a # xs = pre @ x # post" "\<forall>q \<in> set pre. \<not> P q" "P x"
        by blast
      with False obtain pre' where "pre = a # pre'"
        by (cases pre) auto
      with d have "xs = pre' @ x # post \<and> (\<forall>q \<in> set pre'. \<not> P q) \<and> P x"
        by simp
      then show "\<exists>pre post. xs = pre @ x # post \<and> (\<forall>q \<in> set pre. \<not> P q) \<and> P x"
        by blast
    next
      assume "\<exists>pre post. xs = pre @ x # post \<and> (\<forall>q \<in> set pre. \<not> P q) \<and> P x"
      then obtain pre post where d: "xs = pre @ x # post" "\<forall>q \<in> set pre. \<not> P q" "P x"
        by blast
      with False have "a # xs = (a # pre) @ x # post \<and> (\<forall>q \<in> set (a # pre). \<not> P q) \<and> P x"
        by simp
      then show "\<exists>pre post. a # xs = pre @ x # post \<and> (\<forall>q \<in> set pre. \<not> P q) \<and> P x"
        by blast
    qed
    with False Cons show ?thesis by simp
  qed
qed

lemma solidFill_None_iff:
  "solidFill fs = None \<longleftrightarrow> \<not> (\<exists>f \<in> set fs. ptype f = SOLID \<and> pvisible f)"
  by (auto simp: solidFill_def find_None_iff)

text \<open>The paint that \<^verbatim>\<open>find\<close> returns is the first of the array that is solid and visible.\<close>

lemma solidFill_first:
  "solidFill fs = Some f \<longleftrightarrow>
     (\<exists>pre post. fs = pre @ f # post
        \<and> (\<forall>q \<in> set pre. \<not> (ptype q = SOLID \<and> pvisible q))
        \<and> ptype f = SOLID \<and> pvisible f)"
  by (simp add: solidFill_def find_first)

lemma first_mismatch:
  "(\<exists>f. solidFill fs = Some f \<and> \<not> matchesPrimary (color f) p) \<longleftrightarrow>
     (\<exists>pre f post. fs = pre @ f # post
        \<and> (\<forall>q \<in> set pre. \<not> (ptype q = SOLID \<and> pvisible q))
        \<and> ptype f = SOLID \<and> pvisible f
        \<and> (\<not> within_tolerance (r (color f)) (r p)
           \<or> \<not> within_tolerance (g (color f)) (g p)
           \<or> \<not> within_tolerance (b (color f)) (b p)))"
  unfolding solidFill_first matchesPrimary_def by blast

lemma button_rule_local_cases:
  "button_rule_local n = [] \<or> button_rule_local n = [button_issue n]"
  by (simp add: button_rule_local_def Let_def split: fills_prop.splits option.splits)

lemma button_rule_tokens_cases:
  "button_rule_tokens cfg n = [] \<or> button_rule_tokens cfg n = [button_issue n]"
  by (simp add: button_rule_tokens_def Let_def split: fills_prop.splits option.splits)

lemma colour_rule_local_itype:
  "i \<in> set (colour_rule_local n) \<Longrightarrow> itype i = ''Colour/Token''"
proof -
  have "colour_rule_local n = [] \<or> (\<exists>i'. colour_rule_local n = [i'] \<and> itype i' = ''Colour/Token'')"
    by (simp add: colour_rule_local_def split: fills_prop.splits option.splits)
  then show "i \<in> set (colour_rule_local n) \<Longrightarrow> itype i = ''Colour/Token''"
    by auto
qed

lemma typography_rule_local_itype:
  "i \<in> set (typography_rule_local n) \<Longrightarrow> itype i = ''Typography''"
proof -
  have "typography_rule_local n = []
      \<or> (\<exists>i'. typography_rule_local n = [i'] \<and> itype i' = ''Typography'')"
    by (simp add: typography_rule_local_def split: font_size.splits)
  then show "i \<in> set (typography_rule_local n) \<Longrightarrow> itype i = ''Typography''"
    by auto
qed

lemma colour_rule_tokens_itype:
  "i \<in> set (colour_rule_tokens n) \<Longrightarrow> itype i = ''Text/Colour'' \<or> itype i = ''Colour/Token''"
proof -
  have "colour_rule_tokens n = []
      \<or> (\<exists>i'. colour_rule_tokens n = [i']
            \<and> (itype i' = ''Text/Colour'' \<or> itype i' = ''Colour/Token''))"
    by (simp add: colour_rule_tokens_def split: fills_prop.splits option.splits)
  then show "i \<in> set (colour_rule_tokens n)
      \<Longrightarrow> itype i = ''Text/Colour'' \<or> itype i = ''Colour/Token''"
    by auto
qed

lemma button_issue_local_iff:
  "button_issue n \<in> set (rules_local n) \<longleftrightarrow> button_rule_local n = [button_issue n]"
proof -
  have t: "itype (button_issue n) = ''Button/Style''"
    by (simp add: button_issue_def)
  have "button_issue n \<notin> set (colour_rule_local n)"
    using colour_rule_local_itype [of "button_issue n" n] t by auto
  moreover have "button_issue n \<notin> set (typography_rule_local n)"
    using typography_rule_local_itype [of "button_issue n" n] t by auto
  ultimately show ?thesis
    using button_rule_local_cases [of n] by (auto simp: rules_local_def)
qed

lemma button_issue_tokens_iff:
  "button_issue n \<in> set (rules_tokens cfg n) \<longleftrightarrow> button_rule_tokens cfg n = [button_issue n]"
proof -
  have t: "itype (button_issue n) = ''Button/Style''"
    by (simp add: button_issue_def)
  have "button_issue n \<notin> set (colour_rule_tokens n)"
    using colour_rule_tokens_itype [of "button_issue n" n] t by auto
  then show ?thesis
    using button_rule_tokens_cases [of cfg n] by (auto simp: rules_tokens_def)
qed

lemma mock_primary:
  "colourTokens mockData ''Primary/Blue/600'' = Some \<lparr>r = dec 157 3, g = dec 220 3, b = dec 718 3\<rparr>"
  by (simp add: mockData_def new_Map_def)

lemma example_button_candidate:
  "str_includes (toLowerCase (name example_button)) ''button''"
  "ntype example_button = RECTANGLE"
  "fills example_button = Fills [solid grey]"
  "no_style (fillStyleId example_button)"
  "solidFill [solid grey] = Some (solid grey)"
  by (simp_all add: example_defs toLowerCase_def lower_char_def solidFill_def)

text \<open>
  Claim C3, as the code has it. Take a node whose lower-cased name contains \<open>button\<close> or
  \<open>btn\<close>, whose type is \<open>RECTANGLE\<close> and whose \<open>fills\<close> is an array \<open>fs\<close>. Without a fill
  style, the button rule emits its issue exactly when (a) \<open>fs\<close> has a visible solid paint
  and the first of them, the one with no visible solid paint before it in \<open>fs\<close>, fails
  the test \<^verbatim>\<open>Math.abs(x - p) < 0.01\<close> of the code, taken in double precision, in the red,
  green or blue channel against the primary colour, or (b) \<open>fs\<close> is not empty and holds no
  visible solid paint; otherwise it emits nothing. The primary colour is the constant
  \<open>PRIMARY_BUTTON_COLOR_RGB\<close> in \<^verbatim>\<open>src/code.ts\<close> and the token \<open>Primary/Blue/600\<close> of the
  store in \<^verbatim>\<open>part_000\<close>, where the equivalence is stated for a store that has the token.
  With a fill style attached (a non-empty id, or the mixed value) the rule emits nothing,
  whatever the store holds. The issue of the rule is among the issues that \<^verbatim>\<open>runAnalysis\<close>
  returns whenever the walk of the selection enters the node before it throws, and for a
  selection of that one node, visible and without children, it is among them exactly
  when the rule emits it.
\<close>

theorem button_rule_fires_iff:
  assumes "str_includes (toLowerCase (name n)) ''button'' \<or> str_includes (toLowerCase (name n)) ''btn''"
    and "ntype n = RECTANGLE"
    and "fills n = Fills fs"
  shows "(no_style (fillStyleId n) \<longrightarrow>
            (button_rule_local n = [button_issue n] \<longleftrightarrow>
               (\<exists>pre f post. fs = pre @ f # post
                  \<and> (\<forall>q \<in> set pre. \<not> (ptype q = SOLID \<and> pvisible q))
                  \<and> ptype f = SOLID \<and> pvisible f
                  \<and> (\<not> within_tolerance (r (color f)) (r PRIMARY_BUTTON_COLOR_RGB)
                     \<or> \<not> within_tolerance (g (color f)) (g PRIMARY_BUTTON_COLOR_RGB)
                     \<or> \<not> within_tolerance (b (color f)) (b PRIMARY_BUTTON_COLOR_RGB)))
               \<or> (fs \<noteq> [] \<and> \<not> (\<exists>f \<in> set fs. ptype f = SOLID \<and> pvisible f)))
            \<and> (button_rule_local n \<noteq> [button_issue n] \<longrightarrow> button_rule_local n = []))
       \<and> (no_style (fillStyleId n) \<and> colourTokens cfg ''Primary/Blue/600'' = Some p \<longrightarrow>
            (button_rule_tokens cfg n = [button_issue n] \<longleftrightarrow>
               (\<exists>pre f post. fs = pre @ f # post
                  \<and> (\<forall>q \<in> set pre. \<not> (ptype q = SOLID \<and> pvisible q))
                  \<and> ptype f = SOLID \<and> pvisible f
                  \<and> (\<not> within_tolerance (r (color f)) (r p)
                     \<or> \<not> within_tolerance (g (color f)) (g p)
                     \<or> \<not> within_tolerance (b (color f)) (b p)))
               \<or> (fs \<noteq> [] \<and> \<not> (\<exists>f \<in> set fs. ptype f = SOLID \<and> pvisible f)))
            \<and> (button_rule_tokens cfg n \<noteq> [button_issue n] \<longrightarrow> button_rule_tokens cfg n = []))
       \<and> (\<not> no_style (fillStyleId n) \<longrightarrow>
            button_rule_local n = [] \<and> button_rule_tokens cfg n = [])
       \<and> (n \<in> set (before_throw (walk_all roots)) \<longrightarrow>
            (\<exists>issues. runAnalysis_local roots = Inr issues
               \<and> set (button_rule_local n) \<subseteq> set issues)
            \<and> (\<exists>issues. fst (runAnalysis_tokens h gc s roots) = Inr issues
                 \<and> set (button_rule_tokens
                          (designSystemConfig (fst (loadDesignSystemViaMCP h gc s))) n)
                     \<subseteq> set issues))
       \<and> (nvisible n = Some True \<longrightarrow>
            (\<exists>issues. runAnalysis_local [Node n []] = Inr issues
               \<and> (button_issue n \<in> set issues \<longleftrightarrow> button_rule_local n = [button_issue n]))
            \<and> (\<exists>issues. fst (runAnalysis_tokens h gc s [Node n []]) = Inr issues
                 \<and> (button_issue n \<in> set issues \<longleftrightarrow>
                      button_rule_tokens
                        (designSystemConfig (fst (loadDesignSystemViaMCP h gc s))) n
                      = [button_issue n])))"
proof (intro conjI impI)
  assume ns: "no_style (fillStyleId n)"
  have "button_rule_local n = [button_issue n] \<longleftrightarrow>
      (\<exists>f. solidFill fs = Some f \<and> \<not> matchesPrimary (color f) PRIMARY_BUTTON_COLOR_RGB)
      \<or> (fs \<noteq> [] \<and> \<not> (\<exists>f \<in> set fs. ptype f = SOLID \<and> pvisible f))"
  proof (cases "solidFill fs")
    case None
    then have "\<not> (\<exists>f \<in> set fs. ptype f = SOLID \<and> pvisible f)"
      by (simp add: solidFill_None_iff)
    with None assms ns show ?thesis
      by (simp add: button_rule_local_def)
  next
    case (Some f)
    then have "\<exists>f \<in> set fs. ptype f = SOLID \<and> pvisible f"
      using solidFill_None_iff [of fs] by simp
    with Some assms ns show ?thesis
      by (simp add: button_rule_local_def)
  qed
  then show "button_rule_local n = [button_issue n] \<longleftrightarrow>
      (\<exists>pre f post. fs = pre @ f # post
         \<and> (\<forall>q \<in> set pre. \<not> (ptype q = SOLID \<and> pvisible q))
         \<and> ptype f = SOLID \<and> pvisible f
         \<and> (\<not> within_tolerance (r (color f)) (r PRIMARY_BUTTON_COLOR_RGB)
            \<or> \<not> within_tolerance (g (color f)) (g PRIMARY_BUTTON_COLOR_RGB)
            \<or> \<not> within_tolerance (b (color f)) (b PRIMARY_BUTTON_COLOR_RGB)))
      \<or> (fs \<noteq> [] \<and> \<not> (\<exists>f \<in> set fs. ptype f = SOLID \<and> pvisible f))"
    by (simp only: first_mismatch)
next
  assume "button_rule_local n \<noteq> [button_issue n]"
  with button_rule_local_cases [of n] show "button_rule_local n = []"
    by blast
next
  assume a: "no_style (fillStyleId n) \<and> colourTokens cfg ''Primary/Blue/600'' = Some p"
  have "button_rule_tokens cfg n = [button_issue n] \<longleftrightarrow>
      (\<exists>f. solidFill fs = Some f \<and> \<not> matchesPrimary (color f) p)
      \<or> (fs \<noteq> [] \<and> \<not> (\<exists>f \<in> set fs. ptype f = SOLID \<and> pvisible f))"
  proof (cases "solidFill fs")
    case None
    then have "\<not> (\<exists>f \<in> set fs. ptype f = SOLID \<and> pvisible f)"
      by (simp add: solidFill_None_iff)
    with None assms a show ?thesis
      by (simp add: button_rule_tokens_def)
  next
    case (Some f)
    then have "\<exists>f \<in> set fs. ptype f = SOLID \<and> pvisible f"
      using solidFill_None_iff [of fs] by simp
    with Some assms a show ?thesis
      by (simp add: button_rule_tokens_def)
  qed
  then show "button_rule_tokens cfg n = [button_issue n] \<longleftrightarrow>
      (\<exists>pre f post. fs = pre @ f # post
         \<and> (\<forall>q \<in> set pre. \<not> (ptype q = SOLID \<and> pvisible q))
         \<and> ptype f = SOLID \<and> pvisible f
         \<and> (\<not> within_tolerance (r (color f)) (r p)
            \<or> \<not> within_tolerance (g (color f)) (g p)
            \<or> \<not> within_tolerance (b (color f)) (b p)))
      \<or> (fs \<noteq> [] \<and> \<not> (\<exists>f \<in> set fs. ptype f = SOLID \<and> pvisible f))"
    by (simp only: first_mismatch)
next
  assume "button_rule_tokens cfg n \<noteq> [button_issue n]"
  with button_rule_tokens_cases [of cfg n] show "button_rule_tokens cfg n = []"
    by blast
next
  assume "\<not> no_style (fillStyleId n)"
  with assms show "button_rule_local n = []" and "button_rule_tokens cfg n = []"
    by (simp_all add: button_rule_local_def button_rule_tokens_def)
next
  assume "n \<in> set (before_throw (walk_all roots))"
  then show "\<exists>issues. runAnalysis_local roots = Inr issues
      \<and> set (button_rule_local n) \<subseteq> set issues"
    and "\<exists>issues. fst (runAnalysis_tokens h gc s roots) = Inr issues
      \<and> set (button_rule_tokens (designSystemConfig (fst (loadDesignSystemViaMCP h gc s))) n)
          \<subseteq> set issues"
    by (auto simp: runAnalysis_local_walk runAnalysis_tokens_walk rules_local_def
        rules_tokens_def)
next
  assume "nvisible n = Some True"
  then show "\<exists>issues. runAnalysis_local [Node n []] = Inr issues
      \<and> (button_issue n \<in> set issues \<longleftrightarrow> button_rule_local n = [button_issue n])"
    and "\<exists>issues. fst (runAnalysis_tokens h gc s [Node n []]) = Inr issues
      \<and> (button_issue n \<in> set issues \<longleftrightarrow>
           button_rule_tokens (designSystemConfig (fst (loadDesignSystemViaMCP h gc s))) n
           = [button_issue n])"
    by (simp_all add: runAnalysis_local_walk runAnalysis_tokens_walk entered_def
        button_issue_local_iff button_issue_tokens_iff)
qed

theorem button_rule_fires_iff_witness:
  "str_includes (toLowerCase (name layered_button)) ''button''
   \<and> ntype layered_button = RECTANGLE
   \<and> fills layered_button
       = Fills ([primary_paint\<lparr>pvisible := False\<rparr>] @ solid grey # [primary_paint])
   \<and> no_style (fillStyleId layered_button)
   \<and> nvisible layered_button = Some True
   \<and> \<not> pvisible (primary_paint\<lparr>pvisible := False\<rparr>)
   \<and> ptype (solid grey) = SOLID \<and> pvisible (solid grey)
   \<and> ptype primary_paint = SOLID \<and> pvisible primary_paint
   \<and> \<not> within_tolerance (r (color (solid grey))) (r PRIMARY_BUTTON_COLOR_RGB)
   \<and> matchesPrimary (color primary_paint) PRIMARY_BUTTON_COLOR_RGB
   \<and> button_rule_local layered_button = [button_issue layered_button]
   \<and> colourTokens mockData ''Primary/Blue/600''
       = Some \<lparr>r = dec 157 3, g = dec 220 3, b = dec 718 3\<rparr>
   \<and> \<not> within_tolerance (r (color (solid grey))) (r \<lparr>r = dec 157 3, g = dec 220 3, b = dec 718 3\<rparr>)
   \<and> button_rule_tokens mockData layered_button = [button_issue layered_button]
   \<and> (\<exists>issues. runAnalysis_local [Node layered_button []] = Inr issues
         \<and> button_issue layered_button \<in> set issues)
   \<and> (\<exists>issues. runAnalysis_local [Node example_text [], Node layered_button []] = Inr issues
         \<and> button_issue layered_button \<in> set issues)
   \<and> fills covered_button = Fills [primary_paint, solid grey]
   \<and> button_rule_local covered_button = []
   \<and> runAnalysis_local [Node covered_button []]
       = Inr [\<lparr>itype = ''Colour/Token'', layer = ''Primary Button'', nodeId = ''1:2'',
               detail = ''Layer uses a hardcoded fill colour. Must use a Colour Style/Token.'',
               fixable = True\<rparr>]
   \<and> color near_paint = \<lparr>r = dec 206 3, g = dec 275 3, b = dec 898 3\<rparr>
   \<and> PRIMARY_BUTTON_COLOR_RGB = \<lparr>r = dec 196 3, g = dec 275 3, b = dec 898 3\<rparr>
   \<and> within_tolerance (dec 206 3) (dec 196 3)
   \<and> button_rule_local (example_button\<lparr>fills := Fills [near_paint]\<rparr>) = []
   \<and> color far_paint = \<lparr>r = dec 196 3, g = dec 265 3, b = dec 898 3\<rparr>
   \<and> \<not> within_tolerance (dec 265 3) (dec 275 3)
   \<and> button_rule_local (example_button\<lparr>fills := Fills [far_paint]\<rparr>)
       = [button_issue (example_button\<lparr>fills := Fills [far_paint]\<rparr>)]
   \<and> button_rule_local
        (example_button\<lparr>fills := Fills [(solid grey)\<lparr>ptype := GRADIENT_LINEAR\<rparr>]\<rparr>)
       = [button_issue (example_button\<lparr>fills := Fills [(solid grey)\<lparr>ptype := GRADIENT_LINEAR\<rparr>]\<rparr>)]
   \<and> button_rule_local (example_button\<lparr>fills := Fills []\<rparr>) = []
   \<and> \<not> no_style (fillStyleId (example_button\<lparr>fillStyleId := Some (StyleId ''S:1'')\<rparr>))
   \<and> button_rule_local (example_button\<lparr>fillStyleId := Some (StyleId ''S:1'')\<rparr>) = []
   \<and> button_rule_tokens mockData (example_button\<lparr>fillStyleId := Some (StyleId ''S:1'')\<rparr>) = []"
proof -
  let ?hid = "primary_paint\<lparr>pvisible := False\<rparr>"
  let ?mock = "\<lparr>r = dec 157 3, g = dec 220 3, b = dec 718 3\<rparr>"
  have c: "str_includes (toLowerCase (name layered_button)) ''button''"
    "ntype layered_button = RECTANGLE"
    "fills layered_button = Fills ([?hid] @ solid grey # [primary_paint])"
    "no_style (fillStyleId layered_button)" "nvisible layered_button = Some True"
    by (simp_all add: layered_button_def example_defs toLowerCase_def lower_char_def)
  have p: "\<not> pvisible ?hid" "ptype (solid grey) = SOLID" "pvisible (solid grey)"
    "ptype primary_paint = SOLID" "pvisible primary_paint"
    by (simp_all add: primary_paint_def solid_def)
  have far: "\<not> within_tolerance (r (color (solid grey))) (r PRIMARY_BUTTON_COLOR_RGB)"
    "\<not> within_tolerance (r (color (solid grey))) (r ?mock)"
    by (simp_all add: solid_def grey_def PRIMARY_BUTTON_COLOR_RGB_def half_far)
  have same: "matchesPrimary (color primary_paint) PRIMARY_BUTTON_COLOR_RGB"
    by (simp add: primary_paint_def solid_def matchesPrimary_refl)
  have w: "n \<in> set (before_throw (walk_all [Node example_text [], Node layered_button []]))
       \<longleftrightarrow> n = example_text \<or> n = layered_button" for n
    by (auto simp: entered_def layered_button_def example_defs)
  note a = button_rule_fires_iff [of layered_button "[?hid] @ solid grey # [primary_paint]"
      mockData ?mock "[Node example_text [], Node layered_button []]", OF disjI1,
      OF c(1) c(2) c(3)]
  have ex: "\<exists>pre f post. [?hid] @ solid grey # [primary_paint] = pre @ f # post
      \<and> (\<forall>q \<in> set pre. \<not> (ptype q = SOLID \<and> pvisible q))
      \<and> ptype f = SOLID \<and> pvisible f
      \<and> (\<not> within_tolerance (r (color f)) (r PRIMARY_BUTTON_COLOR_RGB)
         \<or> \<not> within_tolerance (g (color f)) (g PRIMARY_BUTTON_COLOR_RGB)
         \<or> \<not> within_tolerance (b (color f)) (b PRIMARY_BUTTON_COLOR_RGB))"
    apply (rule exI [of _ "[?hid]"])
    apply (rule exI [of _ "solid grey"])
    apply (rule exI [of _ "[primary_paint]"])
    using p far apply simp
    done
  have ex': "\<exists>pre f post. [?hid] @ solid grey # [primary_paint] = pre @ f # post
      \<and> (\<forall>q \<in> set pre. \<not> (ptype q = SOLID \<and> pvisible q))
      \<and> ptype f = SOLID \<and> pvisible f
      \<and> (\<not> within_tolerance (r (color f)) (r ?mock)
         \<or> \<not> within_tolerance (g (color f)) (g ?mock)
         \<or> \<not> within_tolerance (b (color f)) (b ?mock))"
    apply (rule exI [of _ "[?hid]"])
    apply (rule exI [of _ "solid grey"])
    apply (rule exI [of _ "[primary_paint]"])
    using p far apply simp
    done
  from a c(4) ex
  have 1: "button_rule_local layered_button = [button_issue layered_button]"
    by blast
  from a c(4) ex' mock_primary
  have 2: "button_rule_tokens mockData layered_button = [button_issue layered_button]"
    by blast
  from a c(5) 1
  have 3: "\<exists>issues. runAnalysis_local [Node layered_button []] = Inr issues
      \<and> button_issue layered_button \<in> set issues"
    by blast
  from a w [of layered_button] 1
  have 4: "\<exists>issues. runAnalysis_local [Node example_text [], Node layered_button []] = Inr issues
      \<and> button_issue layered_button \<in> set issues"
    by auto
  have 5: "fills covered_button = Fills [primary_paint, solid grey]"
    "button_rule_local covered_button = []"
    by (simp_all add: covered_button_def primary_paint_def button_rule_local_def
        solidFill_def example_defs toLowerCase_def lower_char_def matchesPrimary_refl)
  have 6: "runAnalysis_local [Node covered_button []]
       = Inr [\<lparr>itype = ''Colour/Token'', layer = ''Primary Button'', nodeId = ''1:2'',
               detail = ''Layer uses a hardcoded fill colour. Must use a Colour Style/Token.'',
               fixable = True\<rparr>]"
    by (simp add: runAnalysis_local_walk entered_def rules_local_def 5(2))
      (simp add: covered_button_def primary_paint_def colour_rule_local_def
        typography_rule_local_def solidFill_def example_defs)
  have 7: "color near_paint = \<lparr>r = dec 206 3, g = dec 275 3, b = dec 898 3\<rparr>"
    "color far_paint = \<lparr>r = dec 196 3, g = dec 265 3, b = dec 898 3\<rparr>"
    "PRIMARY_BUTTON_COLOR_RGB = \<lparr>r = dec 196 3, g = dec 275 3, b = dec 898 3\<rparr>"
    by (simp_all add: near_paint_def far_paint_def solid_def PRIMARY_BUTTON_COLOR_RGB_def)
  have 8: "button_rule_local (example_button\<lparr>fills := Fills [near_paint]\<rparr>) = []"
    using edge_paints(1)
    by (simp add: button_rule_local_def solidFill_def example_defs toLowerCase_def
        lower_char_def near_paint_def)
  have 9: "button_rule_local (example_button\<lparr>fills := Fills [far_paint]\<rparr>)
       = [button_issue (example_button\<lparr>fills := Fills [far_paint]\<rparr>)]"
    using edge_paints(2)
    by (simp add: button_rule_local_def solidFill_def example_defs toLowerCase_def
        lower_char_def far_paint_def)
  have 10: "button_rule_local
        (example_button\<lparr>fills := Fills [(solid grey)\<lparr>ptype := GRADIENT_LINEAR\<rparr>]\<rparr>)
       = [button_issue (example_button\<lparr>fills := Fills [(solid grey)\<lparr>ptype := GRADIENT_LINEAR\<rparr>]\<rparr>)]"
    "button_rule_local (example_button\<lparr>fills := Fills []\<rparr>) = []"
    by (simp_all add: button_rule_local_def solidFill_def example_defs toLowerCase_def
        lower_char_def)
  let ?m = "example_button\<lparr>fillStyleId := Some (StyleId ''S:1'')\<rparr>"
  have d: "str_includes (toLowerCase (name ?m)) ''button''" "ntype ?m = RECTANGLE"
    "fills ?m = Fills [solid grey]" "\<not> no_style (fillStyleId ?m)"
    by (simp_all add: example_defs toLowerCase_def lower_char_def)
  note b = button_rule_fires_iff [of ?m "[solid grey]" mockData, OF disjI1, OF d(1) d(2) d(3)]
  from b d(4) have 11: "button_rule_local ?m = []" "button_rule_tokens mockData ?m = []"
    by blast+
  from c p far same 1 2 3 4 5 6 7 8 9 10 11 d(4) mock_primary tolerance_values(3,4)
  show ?thesis by simp
qed

text \<open>
  The claim C3 as the specification states it does not hold in \<^verbatim>\<open>part_000\<close>: the test of
  the code rounds the difference before it compares it with the double \<^verbatim>\<open>0.01\<close>. With a
  primary token whose red channel is 0.012 and a paint whose red channel is the double
  next above 0.002, the other channels being equal, the two colours differ by less than
  one hundredth in every channel and the paint is visible and solid, yet the difference
  rounds to the double \<^verbatim>\<open>0.01\<close> itself and the rule emits its issue. The store is the one
  that the loader leaves when the API delivers that token.
\<close>

theorem button_rule_counterexample:
  "str_includes (toLowerCase (name dark_button)) ''button''
   \<and> ntype dark_button = RECTANGLE \<and> nvisible dark_button = Some True
   \<and> fills dark_button = Fills [dark_paint] \<and> no_style (fillStyleId dark_button)
   \<and> ptype dark_paint = SOLID \<and> pvisible dark_paint
   \<and> colourTokens dark_store ''Primary/Blue/600'' = Some dark_primary
   \<and> dval (r (color dark_paint)) = 4611686018427389 / 2 ^ 61
   \<and> dval (r dark_primary) = 3458764513820541 / 2 ^ 58
   \<and> \<bar>dval (r (color dark_paint)) - dval (r dark_primary)\<bar> < 1 / 100
   \<and> g (color dark_paint) = g dark_primary \<and> b (color dark_paint) = b dark_primary
   \<and> button_rule_tokens dark_store dark_button = [button_issue dark_button]
   \<and> designSystemConfig
        (fst (loadDesignSystemViaMCP dark_host (Some remote_globalConfig) initial_state))
       = dark_store
   \<and> fst (runAnalysis_tokens dark_host (Some remote_globalConfig) initial_state
          [Node dark_button []]) =
        Inr [\<lparr>itype = ''Colour/Token'', layer = ''Primary Button'', nodeId = ''1:2'',
              detail = ''Layer uses a hardcoded fill colour. Must use a Colour Style/Token.'',
              fixable = True\<rparr>,
             \<lparr>itype = ''Button/Style'', layer = ''Primary Button'', nodeId = ''1:2'',
              detail = ''Button uses hardcoded colour. Must use Primary Button token (Indigo/600).'',
              fixable = True\<rparr>]"
proof -
  have 1: "str_includes (toLowerCase (name dark_button)) ''button''
      \<and> ntype dark_button = RECTANGLE \<and> nvisible dark_button = Some True
      \<and> fills dark_button = Fills [dark_paint] \<and> no_style (fillStyleId dark_button)
      \<and> ptype dark_paint = SOLID \<and> pvisible dark_paint
      \<and> colourTokens dark_store ''Primary/Blue/600'' = Some dark_primary
      \<and> g (color dark_paint) = g dark_primary \<and> b (color dark_paint) = b dark_primary"
    by (simp add: dark_button_def dark_paint_def dark_store_def dark_primary_def example_defs
        toLowerCase_def lower_char_def)
  have 2: "dval (r (color dark_paint)) = 4611686018427389 / 2 ^ 61"
    "dval (r dark_primary) = 3458764513820541 / 2 ^ 58"
    by (simp_all add: dark_paint_def dark_primary_def solid_def dec_values dval_def)
  have 3: "\<bar>dval (r (color dark_paint)) - dval (r dark_primary)\<bar> < 1 / 100"
    by (simp add: 2)
  have 4: "button_rule_tokens dark_store dark_button = [button_issue dark_button]"
    using dark_far
    by (simp add: button_rule_tokens_def dark_button_def dark_store_def solidFill_def
        example_defs toLowerCase_def lower_char_def)
  have 5: "loadDesignSystemViaMCP dark_host (Some remote_globalConfig) initial_state =
      (\<lparr>designSystemConfig = dark_store,
        requests = [''https://api.figma.com/v1/files/KkqX7OKAggFzvfB0CMUwBz'',
                    ''https://api.figma.com/v1/styles/S:1'']\<rparr>, None)"
    by (simp add: loadDesignSystemViaMCP_def no_token_def trim_def is_space_def white_space_def
        figd_1_def remote_globalConfig_def initial_globalConfig_def loadFigmaDesignSystem_def
        load_style_def request_def set_colour_def dark_host_def remote_host_def
        example_host_def dark_style_details_def initial_state_def DEFAULT_CONFIG_def
        solid_def answered_def dark_store_def)
  have 6: "colour_rule_tokens dark_button =
      [\<lparr>itype = ''Colour/Token'', layer = ''Primary Button'', nodeId = ''1:2'',
        detail = ''Layer uses a hardcoded fill colour. Must use a Colour Style/Token.'',
        fixable = True\<rparr>]"
    by (simp add: colour_rule_tokens_def dark_button_def dark_paint_def solidFill_def
        example_defs)
  have 7: "button_issue dark_button =
      \<lparr>itype = ''Button/Style'', layer = ''Primary Button'', nodeId = ''1:2'',
       detail = ''Button uses hardcoded colour. Must use Primary Button token (Indigo/600).'',
       fixable = True\<rparr>"
    by (simp add: button_issue_def dark_button_def example_defs)
  have 8: "fst (runAnalysis_tokens dark_host (Some remote_globalConfig) initial_state
        [Node dark_button []]) = Inr (rules_tokens dark_store dark_button)"
    using 1 by (simp add: runAnalysis_tokens_walk 5 entered_def)
  from 1 2 3 4 5 6 7 8 show ?thesis
    by (simp add: rules_tokens_def)
qed

text \<open>
  Claim C10. In \<^verbatim>\<open>part_000\<close>, when the store has no colour token \<open>Primary/Blue/600\<close>, the
  button rule emits its issue for every candidate (name with \<open>button\<close> or \<open>btn\<close>, type
  \<open>RECTANGLE\<close>, a fills array, no fill style) that has a visible solid paint, whatever
  the colour of that paint: the comparison with the primary colour is then false.
\<close>

theorem button_rule_without_primary_token:
  assumes "colourTokens cfg ''Primary/Blue/600'' = None"
    and "str_includes (toLowerCase (name n)) ''button'' \<or> str_includes (toLowerCase (name n)) ''btn''"
    and "ntype n = RECTANGLE"
    and "fills n = Fills fs"
    and "no_style (fillStyleId n)"
    and "f \<in> set fs" and "ptype f = SOLID" and "pvisible f"
  shows "button_rule_tokens cfg n = [button_issue n]
     \<and> button_issue n \<in> set (rules_tokens cfg n)
     \<and> (nvisible n = Some True \<longrightarrow>
          (\<exists>issues. traverse (rules_tokens cfg) (Node n []) [] = (issues, None)
             \<and> button_issue n \<in> set issues))"
proof -
  from assms(6-8) have "solidFill fs \<noteq> None"
    by (auto simp: solidFill_None_iff)
  then obtain f' where "solidFill fs = Some f'"
    by blast
  with assms(1-5) have 1: "button_rule_tokens cfg n = [button_issue n]"
    by (simp add: button_rule_tokens_def)
  then have 2: "button_issue n \<in> set (rules_tokens cfg n)"
    by (simp add: rules_tokens_def)
  then have "nvisible n = Some True \<longrightarrow>
      (\<exists>issues. traverse (rules_tokens cfg) (Node n []) [] = (issues, None)
         \<and> button_issue n \<in> set issues)"
    by simp
  with 1 2 show ?thesis by blast
qed

theorem button_rule_without_primary_token_witness:
  "colourTokens DEFAULT_CONFIG ''Primary/Blue/600'' = None
   \<and> str_includes (toLowerCase (name example_button)) ''button''
   \<and> ntype example_button = RECTANGLE
   \<and> fills (example_button\<lparr>fills := Fills [solid \<lparr>r = dec 196 3, g = dec 275 3, b = dec 898 3\<rparr>]\<rparr>)
       = Fills [solid \<lparr>r = dec 196 3, g = dec 275 3, b = dec 898 3\<rparr>]
   \<and> no_style (fillStyleId example_button)
   \<and> ptype (solid \<lparr>r = dec 196 3, g = dec 275 3, b = dec 898 3\<rparr>) = SOLID
   \<and> pvisible (solid \<lparr>r = dec 196 3, g = dec 275 3, b = dec 898 3\<rparr>)
   \<and> button_rule_tokens DEFAULT_CONFIG
        (example_button\<lparr>fills := Fills [solid \<lparr>r = dec 196 3, g = dec 275 3, b = dec 898 3\<rparr>]\<rparr>)
       = [button_issue (example_button\<lparr>fills := Fills [solid \<lparr>r = dec 196 3, g = dec 275 3, b = dec 898 3\<rparr>]\<rparr>)]
   \<and> button_rule_local
        (example_button\<lparr>fills := Fills [solid \<lparr>r = dec 196 3, g = dec 275 3, b = dec 898 3\<rparr>]\<rparr>) = []"
proof -
  let ?c = "\<lparr>r = dec 196 3, g = dec 275 3, b = dec 898 3\<rparr>"
  let ?n = "example_button\<lparr>fills := Fills [solid ?c]\<rparr>"
  have h: "colourTokens DEFAULT_CONFIG ''Primary/Blue/600'' = None"
    "str_includes (toLowerCase (name ?n)) ''button''"
    "ntype ?n = RECTANGLE" "fills ?n = Fills [solid ?c]" "no_style (fillStyleId ?n)"
    "solid ?c \<in> set [solid ?c]" "ptype (solid ?c) = SOLID" "pvisible (solid ?c)"
    by (simp_all add: DEFAULT_CONFIG_def example_defs toLowerCase_def lower_char_def)
  have l: "button_rule_local ?n = []"
    by (simp add: rule_defs example_defs)
  from button_rule_without_primary_token [OF h(1) disjI1, OF h(2) h(3) h(4) h(5) h(6) h(7) h(8)]
  have "button_rule_tokens DEFAULT_CONFIG ?n = [button_issue ?n]"
    by blast
  with h l example_button_candidate show ?thesis by simp
qed

section \<open>The scenarios\<close>

lemma solidFill_single:
  assumes "filter (\<lambda>f. ptype f = SOLID \<and> pvisible f) fs = [p]"
  shows "solidFill fs = Some p"
  using assms by (simp add: solidFill_def find_filter_conv)

lemma load_no_token:
  assumes "no_token (figmaToken c)"
  shows "loadDesignSystemViaMCP h (Some c) s = loadMockDesignSystem h s"
  using assms by (simp add: loadDesignSystemViaMCP_def)

lemma initial_load:
  "loadDesignSystemViaMCP example_host (Some initial_globalConfig) initial_state
     = (initial_state\<lparr>designSystemConfig := mockData\<rparr>, None)"
  by (simp add: load_no_token no_token_def initial_globalConfig_def loadMockDesignSystem_def
      example_host_def)

lemma remote_load:
  "loadDesignSystemViaMCP remote_host (Some remote_globalConfig) initial_state =
     (\<lparr>designSystemConfig = DEFAULT_CONFIG\<lparr>colourTokens := [''Primary/Blue/600'' \<mapsto> grey]\<rparr>,
       requests = [''https://api.figma.com/v1/files/KkqX7OKAggFzvfB0CMUwBz'',
                   ''https://api.figma.com/v1/styles/S:1'']\<rparr>, None)"
  by (simp add: loadDesignSystemViaMCP_def no_token_def trim_def is_space_def white_space_def
      figd_1_def remote_globalConfig_def initial_globalConfig_def loadFigmaDesignSystem_def
      load_style_def request_def set_colour_def remote_host_def example_host_def
      grey_style_details_def initial_state_def DEFAULT_CONFIG_def solid_def answered_def)

lemma is_primary_button_name:
  "str_includes (toLowerCase ''Primary Button'') ''button''"
  by (simp add: toLowerCase_def lower_char_def)

text \<open>
  Claim C2, as the code has it. Let \<open>n\<close> be a visible rectangle named
  \<open>Primary Button\<close>, without a fill style, whose only visible solid paint has the colour
  (0.5, 0.5, 0.5). Its rules give exactly the issue of type \<open>Colour/Token\<close> followed by
  the issue of type \<open>Button/Style\<close>, and so does the analysis of that node: in
  \<^verbatim>\<open>src/code.ts\<close> outright, in \<^verbatim>\<open>part_000\<close> when the primary token of the loaded store,
  if there is one, is not within 0.01 of that grey. When the document resolves the id to
  \<open>n\<close> and \<open>n\<close> is not locked, \<^verbatim>\<open>applyFix\<close> with \<open>Button/Style\<close> returns success and
  replaces the fills by one visible solid paint of opacity 1: in the constant primary
  colour in \<^verbatim>\<open>src/code.ts\<close>; in \<^verbatim>\<open>part_000\<close> in the colour of the token
  \<open>Primary/Blue/600\<close>, or in the built-in colour (0.196, 0.275, 0.898) when the store has
  no such token.
\<close>

theorem primary_button_scenario:
  assumes "nvisible n = Some True" and "ntype n = RECTANGLE" and "name n = ''Primary Button''"
    and "fills n = Fills fs"
    and "filter (\<lambda>f. ptype f = SOLID \<and> pvisible f) fs = [p]"
    and "color p = \<lparr>r = dec 5 1, g = dec 5 1, b = dec 5 1\<rparr>"
    and "no_style (fillStyleId n)"
  shows "rules_local n =
           [\<lparr>itype = ''Colour/Token'', layer = name n, nodeId = nid n,
             detail = ''Layer uses a hardcoded fill colour. Must use a Colour Style/Token.'',
             fixable = True\<rparr>,
            \<lparr>itype = ''Button/Style'', layer = name n, nodeId = nid n,
             detail = ''Button uses hardcoded colour. Must use Primary Button token (Indigo/600).'',
             fixable = True\<rparr>]
       \<and> runAnalysis_local [Node n []] = Inr (rules_local n)
       \<and> (d (nid n) = Some n \<and> locked n \<noteq> Some True \<longrightarrow>
            applyFix_local load d (nid n) ''Button/Style'' =
              (\<lparr>ostatus = success, message = ''Applied Primary Button (Indigo/600) colour fill.''\<rparr>,
               d(nid n \<mapsto> n\<lparr>fills := Fills
                 [\<lparr>ptype = SOLID, color = PRIMARY_BUTTON_COLOR_RGB, opacity = 1,
                   pvisible = True, blendMode = ''NORMAL''\<rparr>]\<rparr>)))
       \<and> ((\<forall>q. colourTokens (designSystemConfig (fst (loadDesignSystemViaMCP h gc s)))
                  ''Primary/Blue/600'' = Some q \<longrightarrow> \<not> matchesPrimary (color p) q) \<longrightarrow>
            fst (runAnalysis_tokens h gc s [Node n []]) = Inr (rules_local n))
       \<and> (d (nid n) = Some n \<and> locked n \<noteq> Some True \<longrightarrow>
            applyFix_tokens load cfg d (nid n) ''Button/Style'' =
              (\<lparr>ostatus = success, message = ''Applied Primary Button (Indigo/600) colour fill.''\<rparr>,
               d(nid n \<mapsto> n\<lparr>fills := Fills
                 [\<lparr>ptype = SOLID,
                   color = (case colourTokens cfg ''Primary/Blue/600'' of
                              Some q \<Rightarrow> q
                            | None \<Rightarrow> \<lparr>r = dec 196 3, g = dec 275 3, b = dec 898 3\<rparr>),
                   opacity = 1, pvisible = True, blendMode = ''NORMAL''\<rparr>]\<rparr>)))"
proof -
  from assms(5) have sf: "solidFill fs = Some p"
    by (rule solidFill_single)
  have far: "\<not> matchesPrimary (color p) PRIMARY_BUTTON_COLOR_RGB"
    using grey_far(1) by (simp add: grey_def assms(6))
  have col: "colour_rule_local n =
      [\<lparr>itype = ''Colour/Token'', layer = name n, nodeId = nid n,
        detail = ''Layer uses a hardcoded fill colour. Must use a Colour Style/Token.'',
        fixable = True\<rparr>]"
    by (simp add: colour_rule_local_def assms(4,7) sf)
  have colt: "colour_rule_tokens n = colour_rule_local n"
    by (simp add: colour_rule_tokens_def colour_rule_local_def assms(2,4,7) sf)
  have tyr: "typography_rule_local n = []"
    by (simp add: typography_rule_local_def assms(2))
  have but: "button_rule_local n = [button_issue n]"
    using is_primary_button_name far
    by (simp add: button_rule_local_def assms(2,3,4,7) sf)
  have 1: "rules_local n =
      [\<lparr>itype = ''Colour/Token'', layer = name n, nodeId = nid n,
        detail = ''Layer uses a hardcoded fill colour. Must use a Colour Style/Token.'',
        fixable = True\<rparr>,
       \<lparr>itype = ''Button/Style'', layer = name n, nodeId = nid n,
        detail = ''Button uses hardcoded colour. Must use Primary Button token (Indigo/600).'',
        fixable = True\<rparr>]"
    by (simp add: rules_local_def col tyr but button_issue_def)
  have 2: "runAnalysis_local [Node n []] = Inr (rules_local n)"
    by (simp add: runAnalysis_local_walk entered_def assms(1))
  have 3: "d (nid n) = Some n \<and> locked n \<noteq> Some True \<longrightarrow>
      applyFix_local load d (nid n) ''Button/Style'' =
        (\<lparr>ostatus = success, message = ''Applied Primary Button (Indigo/600) colour fill.''\<rparr>,
         d(nid n \<mapsto> n\<lparr>fills := Fills
           [\<lparr>ptype = SOLID, color = PRIMARY_BUTTON_COLOR_RGB, opacity = 1,
             pvisible = True, blendMode = ''NORMAL''\<rparr>]\<rparr>))"
    by (simp add: applyFix_local_def fix_button_local_def is_array_def ok_def solid_def
        assms(2,4))
  have 4: "(\<forall>q. colourTokens (designSystemConfig (fst (loadDesignSystemViaMCP h gc s)))
          ''Primary/Blue/600'' = Some q \<longrightarrow> \<not> matchesPrimary (color p) q) \<longrightarrow>
      fst (runAnalysis_tokens h gc s [Node n []]) = Inr (rules_local n)"
  proof
    let ?cfg = "designSystemConfig (fst (loadDesignSystemViaMCP h gc s))"
    assume q: "\<forall>q. colourTokens ?cfg ''Primary/Blue/600'' = Some q
      \<longrightarrow> \<not> matchesPrimary (color p) q"
    have "button_rule_tokens ?cfg n = [button_issue n]"
      using is_primary_button_name q
      by (simp add: button_rule_tokens_def assms(2,3,4,7) sf split: option.splits)
    then have "rules_tokens ?cfg n = rules_local n"
      by (simp add: rules_tokens_def rules_local_def colt tyr but)
    then show "fst (runAnalysis_tokens h gc s [Node n []]) = Inr (rules_local n)"
      by (simp add: runAnalysis_tokens_walk entered_def assms(1))
  qed
  have 5: "d (nid n) = Some n \<and> locked n \<noteq> Some True \<longrightarrow>
      applyFix_tokens load cfg d (nid n) ''Button/Style'' =
        (\<lparr>ostatus = success, message = ''Applied Primary Button (Indigo/600) colour fill.''\<rparr>,
         d(nid n \<mapsto> n\<lparr>fills := Fills
           [\<lparr>ptype = SOLID,
             color = (case colourTokens cfg ''Primary/Blue/600'' of
                        Some q \<Rightarrow> q
                      | None \<Rightarrow> \<lparr>r = dec 196 3, g = dec 275 3, b = dec 898 3\<rparr>),
             opacity = 1, pvisible = True, blendMode = ''NORMAL''\<rparr>]\<rparr>))"
    by (simp add: applyFix_tokens_def fix_button_tokens_def is_array_def ok_def solid_def
        primaryButtonColour_def token_or_def assms(2,4) split: option.splits)
  from 1 2 3 4 5 show ?thesis by blast
qed


theorem primary_button_scenario_witness:
  "nvisible example_button = Some True \<and> ntype example_button = RECTANGLE
   \<and> name example_button = ''Primary Button''
   \<and> fills example_button = Fills [solid grey]
   \<and> filter (\<lambda>f. ptype f = SOLID \<and> pvisible f) [solid grey] = [solid grey]
   \<and> color (solid grey) = \<lparr>r = dec 5 1, g = dec 5 1, b = dec 5 1\<rparr>
   \<and> no_style (fillStyleId example_button)
   \<and> map itype (rules_local example_button) = [''Colour/Token'', ''Button/Style'']
   \<and> runAnalysis_local [Node example_button []] = Inr (rules_local example_button)
   \<and> example_doc ''1:2'' = Some example_button \<and> locked example_button \<noteq> Some True
   \<and> applyFix_local all_fonts example_doc ''1:2'' ''Button/Style'' =
        (\<lparr>ostatus = success, message = ''Applied Primary Button (Indigo/600) colour fill.''\<rparr>,
         example_doc(''1:2'' \<mapsto> example_button\<lparr>fills := Fills
           [\<lparr>ptype = SOLID, color = PRIMARY_BUTTON_COLOR_RGB, opacity = 1,
             pvisible = True, blendMode = ''NORMAL''\<rparr>]\<rparr>))
   \<and> fst (runAnalysis_tokens example_host (Some initial_globalConfig) initial_state
          [Node example_button []]) = Inr (rules_local example_button)
   \<and> applyFix_tokens all_fonts mockData example_doc ''1:2'' ''Button/Style'' =
        (\<lparr>ostatus = success, message = ''Applied Primary Button (Indigo/600) colour fill.''\<rparr>,
         example_doc(''1:2'' \<mapsto> example_button\<lparr>fills := Fills
           [\<lparr>ptype = SOLID, color = \<lparr>r = dec 157 3, g = dec 220 3, b = dec 718 3\<rparr>, opacity = 1,
             pvisible = True, blendMode = ''NORMAL''\<rparr>]\<rparr>))"
proof -
  have h: "nvisible example_button = Some True" "ntype example_button = RECTANGLE"
    "name example_button = ''Primary Button''" "fills example_button = Fills [solid grey]"
    "filter (\<lambda>f. ptype f = SOLID \<and> pvisible f) [solid grey] = [solid grey]"
    "color (solid grey) = \<lparr>r = dec 5 1, g = dec 5 1, b = dec 5 1\<rparr>"
    "no_style (fillStyleId example_button)"
    by (simp_all add: example_defs grey_def)
  have i: "nid example_button = ''1:2''" and u: "locked example_button \<noteq> Some True"
    by (simp_all add: example_defs)
  have far: "\<forall>q. colourTokens (designSystemConfig
        (fst (loadDesignSystemViaMCP example_host (Some initial_globalConfig) initial_state)))
        ''Primary/Blue/600'' = Some q \<longrightarrow> \<not> matchesPrimary (color (solid grey)) q"
    by (simp add: initial_load mock_primary) (simp add: solid_def grey_far)
  note t = primary_button_scenario [OF h, where d = example_doc and load = all_fonts
      and h = example_host and gc = "Some initial_globalConfig" and s = initial_state
      and cfg = mockData]
  from t have 1: "runAnalysis_local [Node example_button []] = Inr (rules_local example_button)"
    by blast
  from t i u example_doc_lookup(1)
  have 2: "applyFix_local all_fonts example_doc ''1:2'' ''Button/Style'' =
        (\<lparr>ostatus = success, message = ''Applied Primary Button (Indigo/600) colour fill.''\<rparr>,
         example_doc(''1:2'' \<mapsto> example_button\<lparr>fills := Fills
           [\<lparr>ptype = SOLID, color = PRIMARY_BUTTON_COLOR_RGB, opacity = 1,
             pvisible = True, blendMode = ''NORMAL''\<rparr>]\<rparr>))"
    by simp
  from t far
  have 3: "fst (runAnalysis_tokens example_host (Some initial_globalConfig) initial_state
          [Node example_button []]) = Inr (rules_local example_button)"
    by blast
  from t i u example_doc_lookup(1) mock_primary
  have 4: "applyFix_tokens all_fonts mockData example_doc ''1:2'' ''Button/Style'' =
        (\<lparr>ostatus = success, message = ''Applied Primary Button (Indigo/600) colour fill.''\<rparr>,
         example_doc(''1:2'' \<mapsto> example_button\<lparr>fills := Fills
           [\<lparr>ptype = SOLID, color = \<lparr>r = dec 157 3, g = dec 220 3, b = dec 718 3\<rparr>, opacity = 1,
             pvisible = True, blendMode = ''NORMAL''\<rparr>]\<rparr>))"
    by simp
  from h u 1 2 3 4 example_button_rules_local example_doc_lookup(1) show ?thesis
    by simp
qed


text \<open>
  The claim C2 as the specification states it does not hold for every such rectangle.
  A locked one is reported by the analysis, but the fix returns the error about the
  lock and changes nothing. And in \<^verbatim>\<open>part_000\<close>, when the API has delivered a primary
  token of that very grey, the analysis returns the \<open>Colour/Token\<close> issue alone.
\<close>

theorem primary_button_counterexample:
  "nvisible example_locked = Some True \<and> ntype example_locked = RECTANGLE
   \<and> name example_locked = ''Primary Button''
   \<and> fills example_locked = Fills [solid grey]
   \<and> color (solid grey) = \<lparr>r = dec 5 1, g = dec 5 1, b = dec 5 1\<rparr>
   \<and> no_style (fillStyleId example_locked)
   \<and> nid example_locked = ''1:5'' \<and> example_doc ''1:5'' = Some example_locked
   \<and> map itype (rules_local example_locked) = [''Colour/Token'', ''Button/Style'']
   \<and> applyFix_local all_fonts example_doc ''1:5'' ''Button/Style'' =
        (\<lparr>ostatus = error, message = ''Layer is locked. Manual fix needed.''\<rparr>, example_doc)
   \<and> applyFix_tokens all_fonts mockData example_doc ''1:5'' ''Button/Style'' =
        (\<lparr>ostatus = error, message = ''Layer is locked. Manual fix needed.''\<rparr>, example_doc)
   \<and> figmaToken remote_globalConfig = Some figd_1
   \<and> figd_1 = [0x66, 0x69, 0x67, 0x64, 0x5F, 0x31]
   \<and> fst (runAnalysis_tokens remote_host (Some remote_globalConfig) initial_state
          [Node example_button []]) =
        Inr [\<lparr>itype = ''Colour/Token'', layer = ''Primary Button'', nodeId = ''1:2'',
              detail = ''Layer uses a hardcoded fill colour. Must use a Colour Style/Token.'',
              fixable = True\<rparr>]"
proof -
  have 1: "nvisible example_locked = Some True \<and> ntype example_locked = RECTANGLE
      \<and> name example_locked = ''Primary Button''
      \<and> fills example_locked = Fills [solid grey]
      \<and> color (solid grey) = \<lparr>r = dec 5 1, g = dec 5 1, b = dec 5 1\<rparr>
      \<and> no_style (fillStyleId example_locked) \<and> nid example_locked = ''1:5''"
    by (simp add: example_defs grey_def)
  have 2: "map itype (rules_local example_locked) = [''Colour/Token'', ''Button/Style'']"
    by (simp add: rule_defs example_defs)
  have l: "locked example_locked = Some True"
    by (simp add: example_defs)
  have 3: "applyFix_local all_fonts example_doc ''1:5'' ''Button/Style'' =
      (\<lparr>ostatus = error, message = ''Layer is locked. Manual fix needed.''\<rparr>, example_doc)"
    by (simp add: applyFix_local_def example_doc_lookup(4) l err_def)
  have 4: "applyFix_tokens all_fonts mockData example_doc ''1:5'' ''Button/Style'' =
      (\<lparr>ostatus = error, message = ''Layer is locked. Manual fix needed.''\<rparr>, example_doc)"
    by (simp add: applyFix_tokens_def example_doc_lookup(4) l err_def)
  have 5: "figmaToken remote_globalConfig = Some figd_1"
    "figd_1 = [0x66, 0x69, 0x67, 0x64, 0x5F, 0x31]"
    by (simp_all add: remote_globalConfig_def figd_1_def)
  have 6: "rules_tokens (DEFAULT_CONFIG\<lparr>colourTokens := [''Primary/Blue/600'' \<mapsto> grey]\<rparr>)
        example_button =
      [\<lparr>itype = ''Colour/Token'', layer = ''Primary Button'', nodeId = ''1:2'',
        detail = ''Layer uses a hardcoded fill colour. Must use a Colour Style/Token.'',
        fixable = True\<rparr>]"
    by (simp add: rule_defs example_defs)
  have 7: "fst (runAnalysis_tokens remote_host (Some remote_globalConfig) initial_state
        [Node example_button []]) =
      Inr [\<lparr>itype = ''Colour/Token'', layer = ''Primary Button'', nodeId = ''1:2'',
            detail = ''Layer uses a hardcoded fill colour. Must use a Colour Style/Token.'',
            fixable = True\<rparr>]"
    by (simp add: runAnalysis_tokens_walk remote_load entered_def 6)
      (simp add: example_button_def)
  from 1 2 3 4 5 7 example_doc_lookup(4) show ?thesis by simp
qed

text \<open>
  Claim C6, as the code has it. Let \<open>n\<close> be a visible text node whose font is the mixed value or a list of
  fonts, with a visible solid paint among its fills and no fill style. The fill rule
  reports it, as the first issue of the analysis of that node: with type \<open>Colour/Token\<close>
  in \<^verbatim>\<open>src/code.ts\<close>, with type \<open>Text/Colour\<close> in \<^verbatim>\<open>part_000\<close>. When the document
  resolves the id to \<open>n\<close> and \<open>n\<close> is not locked, \<^verbatim>\<open>applyFix\<close> for that issue returns the
  error about mixed fonts and leaves the document, hence the fills of \<open>n\<close>, as they were.
\<close>

theorem mixed_font_text_scenario:
  assumes "ntype n = TEXT"
    and "fontName n = FontMixed \<or> (\<exists>fl. fontName n = FontList fl)"
    and "fills n = Fills fs"
    and "\<exists>f \<in> set fs. ptype f = SOLID \<and> pvisible f"
    and "no_style (fillStyleId n)"
    and "nvisible n = Some True"
  shows "(\<exists>i rest. runAnalysis_local [Node n cs] = Inr (i # rest)
            \<and> colour_rule_local n = [i] \<and> itype i = ''Colour/Token'' \<and> nodeId i = nid n
            \<and> (d (nid n) = Some n \<and> locked n \<noteq> Some True \<longrightarrow>
                 applyFix_local load d (nodeId i) (itype i) =
                   (\<lparr>ostatus = error,
                     message = (if fontName n = FontMixed
                       then ''Text layer uses mixed fonts (figma.mixed) and cannot be auto-fixed.''
                       else ''Text layer uses mixed fonts and cannot be auto-fixed.'')\<rparr>, d)))
       \<and> (\<exists>i rest. fst (runAnalysis_tokens h gc s [Node n cs]) = Inr (i # rest)
            \<and> colour_rule_tokens n = [i] \<and> itype i = ''Text/Colour'' \<and> nodeId i = nid n
            \<and> (d (nid n) = Some n \<and> locked n \<noteq> Some True \<longrightarrow>
                 applyFix_tokens load cfg d (nodeId i) (itype i) =
                   (\<lparr>ostatus = error,
                     message = (if fontName n = FontMixed
                       then ''Text layer uses mixed fonts (figma.mixed) and cannot be auto-fixed.''
                       else ''Text layer uses mixed fonts and cannot be auto-fixed.'')\<rparr>, d)))
       \<and> (d (nid n) = Some n \<and> locked n \<noteq> Some True \<longrightarrow>
            applyFix_tokens load cfg d (nid n) ''Colour/Token'' =
              (\<lparr>ostatus = error,
                message = (if fontName n = FontMixed
                  then ''Text layer uses mixed fonts (figma.mixed) and cannot be auto-fixed.''
                  else ''Text layer uses mixed fonts and cannot be auto-fixed.'')\<rparr>, d))"
proof -
  let ?m = "\<lparr>ostatus = error,
      message = (if fontName n = FontMixed
        then ''Text layer uses mixed fonts (figma.mixed) and cannot be auto-fixed.''
        else ''Text layer uses mixed fonts and cannot be auto-fixed.'')\<rparr>"
  let ?il = "\<lparr>itype = ''Colour/Token'', layer = name n, nodeId = nid n,
      detail = ''Layer uses a hardcoded fill colour. Must use a Colour Style/Token.'',
      fixable = True\<rparr>"
  let ?it = "\<lparr>itype = ''Text/Colour'', layer = name n, nodeId = nid n,
      detail = ''Text uses hardcoded colour instead of design system token. Should use Functional/Carbon for text.'',
      fixable = True\<rparr>"
  from assms(4) obtain f where sf: "solidFill fs = Some f"
    using solidFill_None_iff [of fs] by auto
  from assms(2) have g: "font_guard load n = Some ?m"
    by (auto simp: font_guard_def err_def)
  have fillable: "ntype n \<in> set fillableTypes"
    by (simp add: fillableTypes_def assms(1))
  have cl: "colour_rule_local n = [?il]"
    by (simp add: colour_rule_local_def assms(3,5) sf)
  have ct: "colour_rule_tokens n = [?it]"
    by (simp add: colour_rule_tokens_def assms(1,3,5) sf)
  have rl: "runAnalysis_local [Node n cs] =
      Inr (?il # typography_rule_local n @ button_rule_local n
        @ concat (map rules_local (before_throw (walk_all cs))))"
    by (simp add: runAnalysis_local_walk entered_def assms(6) rules_local_def cl)
  have rt: "fst (runAnalysis_tokens h gc s [Node n cs]) =
      Inr (?it # button_rule_tokens (designSystemConfig (fst (loadDesignSystemViaMCP h gc s))) n
        @ concat (map (rules_tokens (designSystemConfig (fst (loadDesignSystemViaMCP h gc s))))
            (before_throw (walk_all cs))))"
    by (simp add: runAnalysis_tokens_walk entered_def assms(6) rules_tokens_def ct)
  have fl: "d (nid n) = Some n \<and> locked n \<noteq> Some True \<longrightarrow>
      applyFix_local load d (nid n) ''Colour/Token'' = (?m, d)"
    using fillable by (simp add: applyFix_local_def fix_colour_local_def is_array_def assms(1,3) g)
  have ft: "d (nid n) = Some n \<and> locked n \<noteq> Some True \<longrightarrow>
      applyFix_tokens load cfg d (nid n) ''Text/Colour'' = (?m, d)"
    by (simp add: applyFix_tokens_def fix_text_colour_tokens_def assms(1) g)
  have fc: "d (nid n) = Some n \<and> locked n \<noteq> Some True \<longrightarrow>
      applyFix_tokens load cfg d (nid n) ''Colour/Token'' = (?m, d)"
    using fillable by (simp add: applyFix_tokens_def fix_colour_tokens_def is_array_def assms(1,3) g)
  have A: "\<exists>i rest. runAnalysis_local [Node n cs] = Inr (i # rest)
      \<and> colour_rule_local n = [i] \<and> itype i = ''Colour/Token'' \<and> nodeId i = nid n
      \<and> (d (nid n) = Some n \<and> locked n \<noteq> Some True \<longrightarrow>
           applyFix_local load d (nodeId i) (itype i) = (?m, d))"
    using rl cl fl by (intro exI [of _ ?il] exI) simp
  have B: "\<exists>i rest. fst (runAnalysis_tokens h gc s [Node n cs]) = Inr (i # rest)
      \<and> colour_rule_tokens n = [i] \<and> itype i = ''Text/Colour'' \<and> nodeId i = nid n
      \<and> (d (nid n) = Some n \<and> locked n \<noteq> Some True \<longrightarrow>
           applyFix_tokens load cfg d (nodeId i) (itype i) = (?m, d))"
    using rt ct ft by (intro exI [of _ ?it] exI) simp
  from A B fc show ?thesis by blast
qed

theorem mixed_font_text_scenario_witness:
  "ntype example_mixed_text = TEXT \<and> fontName example_mixed_text = FontMixed
   \<and> fills example_mixed_text = Fills [solid grey]
   \<and> ptype (solid grey) = SOLID \<and> pvisible (solid grey)
   \<and> no_style (fillStyleId example_mixed_text) \<and> nvisible example_mixed_text = Some True
   \<and> example_doc ''1:4'' = Some example_mixed_text \<and> locked example_mixed_text \<noteq> Some True
   \<and> applyFix_tokens all_fonts mockData example_doc ''1:4'' ''Colour/Token'' =
        (\<lparr>ostatus = error,
          message = ''Text layer uses mixed fonts (figma.mixed) and cannot be auto-fixed.''\<rparr>,
         example_doc)
   \<and> map itype (rules_local example_mixed_text) = [''Colour/Token'', ''Typography'']
   \<and> applyFix_local all_fonts example_doc ''1:4'' ''Colour/Token'' =
        (\<lparr>ostatus = error,
          message = ''Text layer uses mixed fonts (figma.mixed) and cannot be auto-fixed.''\<rparr>,
         example_doc)"
proof -
  have h: "ntype example_mixed_text = TEXT"
    "fontName example_mixed_text = FontMixed \<or> (\<exists>fl. fontName example_mixed_text = FontList fl)"
    "fills example_mixed_text = Fills [solid grey]"
    "\<exists>f \<in> set [solid grey]. ptype f = SOLID \<and> pvisible f"
    "no_style (fillStyleId example_mixed_text)"
    "nvisible example_mixed_text = Some True"
    by (simp_all add: example_defs)
  have i: "nid example_mixed_text = ''1:4''" "locked example_mixed_text \<noteq> Some True"
    "fontName example_mixed_text = FontMixed" "ptype (solid grey) = SOLID" "pvisible (solid grey)"
    by (simp_all add: example_defs)
  have r: "map itype (rules_local example_mixed_text) = [''Colour/Token'', ''Typography'']"
    by (simp add: rule_defs example_defs)
  have l: "applyFix_local all_fonts example_doc ''1:4'' ''Colour/Token'' =
        (\<lparr>ostatus = error,
          message = ''Text layer uses mixed fonts (figma.mixed) and cannot be auto-fixed.''\<rparr>,
         example_doc)"
    by (simp add: applyFix_local_def fix_colour_local_def example_doc_lookup(3) font_guard_def
        err_def is_array_def fillableTypes_def example_defs)
  note t = mixed_font_text_scenario [OF h, where d = example_doc and load = all_fonts
      and cfg = mockData]
  from t i example_doc_lookup(3)
  have "applyFix_tokens all_fonts mockData example_doc ''1:4'' ''Colour/Token'' =
        (\<lparr>ostatus = error,
          message = ''Text layer uses mixed fonts (figma.mixed) and cannot be auto-fixed.''\<rparr>,
         example_doc)"
    by simp
  with h i r l example_doc_lookup(3) show ?thesis by simp
qed

text \<open>
  The claim C6 as the specification states it does not hold for every such text node: a
  hidden one is not reported, and for a locked one \<^verbatim>\<open>applyFix\<close> returns the error about
  the lock, not the one about mixed fonts.
\<close>

theorem mixed_font_text_counterexample:
  "ntype hidden_mixed_text = TEXT \<and> fontName hidden_mixed_text = FontMixed
   \<and> fills hidden_mixed_text = Fills [solid grey] \<and> no_style (fillStyleId hidden_mixed_text)
   \<and> runAnalysis_local [Node hidden_mixed_text []] = Inr []
   \<and> fst (runAnalysis_tokens example_host (Some initial_globalConfig) initial_state
          [Node hidden_mixed_text []]) = Inr []
   \<and> ntype locked_mixed_text = TEXT \<and> fontName locked_mixed_text = FontMixed
   \<and> fills locked_mixed_text = Fills [solid grey] \<and> no_style (fillStyleId locked_mixed_text)
   \<and> map itype (rules_local locked_mixed_text) = [''Colour/Token'', ''Typography'']
   \<and> map itype (rules_tokens mockData locked_mixed_text) = [''Text/Colour'']
   \<and> applyFix_local all_fonts [''1:4'' \<mapsto> locked_mixed_text] ''1:4'' ''Colour/Token'' =
        (\<lparr>ostatus = error, message = ''Layer is locked. Manual fix needed.''\<rparr>,
         [''1:4'' \<mapsto> locked_mixed_text])
   \<and> applyFix_tokens all_fonts mockData [''1:4'' \<mapsto> locked_mixed_text] ''1:4'' ''Text/Colour'' =
        (\<lparr>ostatus = error, message = ''Layer is locked. Manual fix needed.''\<rparr>,
         [''1:4'' \<mapsto> locked_mixed_text])"
proof -
  have 1: "ntype hidden_mixed_text = TEXT \<and> fontName hidden_mixed_text = FontMixed
      \<and> fills hidden_mixed_text = Fills [solid grey] \<and> no_style (fillStyleId hidden_mixed_text)
      \<and> ntype locked_mixed_text = TEXT \<and> fontName locked_mixed_text = FontMixed
      \<and> fills locked_mixed_text = Fills [solid grey] \<and> no_style (fillStyleId locked_mixed_text)"
    by (simp add: example_defs)
  have h: "\<not> entered hidden_mixed_text"
    by (simp add: entered_def example_defs)
  have 2: "runAnalysis_local [Node hidden_mixed_text []] = Inr []"
    by (simp add: runAnalysis_local_walk h)
  have 3: "fst (runAnalysis_tokens example_host (Some initial_globalConfig) initial_state
      [Node hidden_mixed_text []]) = Inr []"
    by (simp add: runAnalysis_tokens_walk h)
  have 4: "map itype (rules_local locked_mixed_text) = [''Colour/Token'', ''Typography'']"
    by (simp add: rule_defs example_defs)
  have 5: "map itype (rules_tokens mockData locked_mixed_text) = [''Text/Colour'']"
    by (simp add: rule_defs example_defs)
  have l: "locked locked_mixed_text = Some True"
    by (simp add: example_defs)
  have 6: "applyFix_local all_fonts [''1:4'' \<mapsto> locked_mixed_text] ''1:4'' ''Colour/Token'' =
      (\<lparr>ostatus = error, message = ''Layer is locked. Manual fix needed.''\<rparr>,
       [''1:4'' \<mapsto> locked_mixed_text])"
    by (simp add: applyFix_local_def l err_def)
  have 7: "applyFix_tokens all_fonts mockData [''1:4'' \<mapsto> locked_mixed_text] ''1:4'' ''Text/Colour'' =
      (\<lparr>ostatus = error, message = ''Layer is locked. Manual fix needed.''\<rparr>,
       [''1:4'' \<mapsto> locked_mixed_text])"
    by (simp add: applyFix_tokens_def l err_def)
  from 1 2 3 4 5 6 7 show ?thesis by simp
qed

lemma detail_18: "number_string 18 = ''18''" and detail_14: "number_string 14 = ''14''"
  by (simp_all add: number_string_def digit_char_def)

text \<open>
  Claim C7, as the code has it. Let \<open>n\<close> be a visible text node whose font size is the
  number 18; the approved size is 14. The analysis of \<^verbatim>\<open>src/code.ts\<close> returns exactly
  one issue of type \<open>Typography\<close> for it, and its detail contains \<open>18\<close> and \<open>14\<close>; the
  analysis of \<^verbatim>\<open>part_000\<close>, which has no rule on font sizes, returns none. When the document
  resolves the id to \<open>n\<close>, \<open>n\<close> is not locked and its font is a single font that loads,
  \<^verbatim>\<open>applyFix\<close> with \<open>Typography\<close> follows one policy in each version: in
  \<^verbatim>\<open>src/code.ts\<close> it sets the font size to 14 and returns success, in \<^verbatim>\<open>part_000\<close> it
  returns an error that points to the text styles of the design system and changes
  nothing.
\<close>

theorem typography_scenario:
  assumes "ntype n = TEXT" and "fontSize n = Px 18" and "nvisible n = Some True"
  shows "APPROVED_FONT_SIZE = 14
       \<and> (\<exists>issues i. runAnalysis_local [Node n []] = Inr issues
            \<and> filter (\<lambda>i. itype i = ''Typography'') issues = [i]
            \<and> typography_rule_local n = [i] \<and> nodeId i = nid n \<and> layer i = name n
            \<and> detail i = ''Uses non-standard font size (18px). Recommended size is 14px.''
            \<and> str_includes (detail i) ''18'' \<and> str_includes (detail i) ''14'')
       \<and> (\<exists>issues. fst (runAnalysis_tokens h gc s [Node n []]) = Inr issues
            \<and> filter (\<lambda>i. itype i = ''Typography'') issues = [])
       \<and> (d (nid n) = Some n \<and> locked n \<noteq> Some True \<and> fontName n = Font f \<and> load f \<longrightarrow>
            applyFix_local load d (nid n) ''Typography'' =
              (\<lparr>ostatus = success, message = ''Set font size to 14px.''\<rparr>,
               d(nid n \<mapsto> n\<lparr>fontSize := Px 14\<rparr>))
            \<and> applyFix_tokens load cfg d (nid n) ''Typography'' =
              (\<lparr>ostatus = error,
                message = ''Typography fixes should use design system text styles instead of hardcoded font sizes.''\<rparr>,
               d))"
proof -
  let ?i = "\<lparr>itype = ''Typography'', layer = name n, nodeId = nid n,
      detail = ''Uses non-standard font size (18px). Recommended size is 14px.'',
      fixable = True\<rparr>"
  have ty: "typography_rule_local n = [?i]"
    by (simp add: typography_rule_local_def assms(1,2) APPROVED_FONT_SIZE_def
        detail_18 detail_14)
  have bu: "button_rule_local n = []"
    by (simp add: button_rule_local_def assms(1) split: fills_prop.splits)
  have "colour_rule_local n = [] \<or> colour_rule_local n =
      [\<lparr>itype = ''Colour/Token'', layer = name n, nodeId = nid n,
        detail = ''Layer uses a hardcoded fill colour. Must use a Colour Style/Token.'',
        fixable = True\<rparr>]"
    by (simp add: colour_rule_local_def split: fills_prop.splits option.splits)
  then have co: "filter (\<lambda>i. itype i = ''Typography'') (colour_rule_local n) = []"
    by auto
  have ra: "runAnalysis_local [Node n []] = Inr (rules_local n)"
    by (simp add: runAnalysis_local_walk entered_def assms(3))
  have fi: "filter (\<lambda>i. itype i = ''Typography'') (rules_local n) = [?i]"
    by (simp add: rules_local_def co ty bu)
  have inc: "str_includes (detail ?i) ''18''" "str_includes (detail ?i) ''14''"
    by simp_all
  have A: "\<exists>issues i. runAnalysis_local [Node n []] = Inr issues
      \<and> filter (\<lambda>i. itype i = ''Typography'') issues = [i]
      \<and> typography_rule_local n = [i] \<and> nodeId i = nid n \<and> layer i = name n
      \<and> detail i = ''Uses non-standard font size (18px). Recommended size is 14px.''
      \<and> str_includes (detail i) ''18'' \<and> str_includes (detail i) ''14''"
    using ra fi ty inc by (intro exI [of _ "rules_local n"] exI [of _ ?i]) simp
  have B: "d (nid n) = Some n \<and> locked n \<noteq> Some True \<and> fontName n = Font f \<and> load f \<longrightarrow>
      applyFix_local load d (nid n) ''Typography'' =
        (\<lparr>ostatus = success, message = ''Set font size to 14px.''\<rparr>,
         d(nid n \<mapsto> n\<lparr>fontSize := Px 14\<rparr>))
      \<and> applyFix_tokens load cfg d (nid n) ''Typography'' =
        (\<lparr>ostatus = error,
          message = ''Typography fixes should use design system text styles instead of hardcoded font sizes.''\<rparr>,
         d)"
    by (simp add: applyFix_local_def applyFix_tokens_def fix_typography_local_def
        fix_typography_tokens_def font_guard_def ok_def err_def APPROVED_FONT_SIZE_def
        detail_14 assms(1))
  let ?cfg = "designSystemConfig (fst (loadDesignSystemViaMCP h gc s))"
  have "colour_rule_tokens n = [] \<or> colour_rule_tokens n =
      [\<lparr>itype = ''Text/Colour'', layer = name n, nodeId = nid n,
        detail = ''Text uses hardcoded colour instead of design system token. Should use Functional/Carbon for text.'',
        fixable = True\<rparr>]"
    by (simp add: colour_rule_tokens_def assms(1) split: fills_prop.splits option.splits)
  then have cot: "filter (\<lambda>i. itype i = ''Typography'') (colour_rule_tokens n) = []"
    by auto
  have but: "button_rule_tokens ?cfg n = []"
    by (simp add: button_rule_tokens_def assms(1) split: fills_prop.splits)
  have C: "\<exists>issues. fst (runAnalysis_tokens h gc s [Node n []]) = Inr issues
      \<and> filter (\<lambda>i. itype i = ''Typography'') issues = []"
    by (simp add: runAnalysis_tokens_walk entered_def assms(3) rules_tokens_def cot but)
  from A B C show ?thesis by (simp add: APPROVED_FONT_SIZE_def)
qed

theorem typography_scenario_witness:
  "ntype example_text = TEXT \<and> fontSize example_text = Px 18
   \<and> nvisible example_text = Some True
   \<and> example_doc ''1:3'' = Some example_text \<and> locked example_text \<noteq> Some True
   \<and> fontName example_text = Font inter_regular \<and> all_fonts inter_regular
   \<and> map itype (rules_local example_text) = [''Colour/Token'', ''Typography'']
   \<and> applyFix_local all_fonts example_doc ''1:3'' ''Typography'' =
        (\<lparr>ostatus = success, message = ''Set font size to 14px.''\<rparr>,
         example_doc(''1:3'' \<mapsto> example_text\<lparr>fontSize := Px 14\<rparr>))
   \<and> applyFix_tokens all_fonts mockData example_doc ''1:3'' ''Typography'' =
        (\<lparr>ostatus = error,
          message = ''Typography fixes should use design system text styles instead of hardcoded font sizes.''\<rparr>,
         example_doc)"
proof -
  have h: "ntype example_text = TEXT" "fontSize example_text = Px 18"
    "nvisible example_text = Some True"
    by (simp_all add: example_defs)
  have i: "nid example_text = ''1:3''" "locked example_text \<noteq> Some True"
    "fontName example_text = Font inter_regular" "all_fonts inter_regular"
    by (simp_all add: example_defs)
  have r: "map itype (rules_local example_text) = [''Colour/Token'', ''Typography'']"
    by (simp add: rule_defs example_defs)
  note t = typography_scenario [OF h, where d = example_doc and load = all_fonts
      and cfg = mockData and f = inter_regular]
  from t i example_doc_lookup(2)
  have "applyFix_local all_fonts example_doc ''1:3'' ''Typography'' =
        (\<lparr>ostatus = success, message = ''Set font size to 14px.''\<rparr>,
         example_doc(''1:3'' \<mapsto> example_text\<lparr>fontSize := Px 14\<rparr>))
   \<and> applyFix_tokens all_fonts mockData example_doc ''1:3'' ''Typography'' =
        (\<lparr>ostatus = error,
          message = ''Typography fixes should use design system text styles instead of hardcoded font sizes.''\<rparr>,
         example_doc)"
    by simp
  with h i r example_doc_lookup(2) show ?thesis by simp
qed

text \<open>
  The claim C7 as the specification states it does not hold for every text node of
  size 18: a hidden one yields no issue, the analysis of \<^verbatim>\<open>part_000\<close> yields no
  \<open>Typography\<close> issue for a visible one, and for a locked one with a font that loads
  \<^verbatim>\<open>applyFix\<close> returns the error about the lock.
\<close>

theorem typography_counterexample:
  "ntype hidden_text = TEXT \<and> fontSize hidden_text = Px 18
   \<and> runAnalysis_local [Node hidden_text []] = Inr []
   \<and> ntype example_text = TEXT \<and> fontSize example_text = Px 18
   \<and> nvisible example_text = Some True
   \<and> fst (runAnalysis_tokens example_host (Some initial_globalConfig) initial_state
          [Node example_text []]) =
        Inr [\<lparr>itype = ''Text/Colour'', layer = ''Title'', nodeId = ''1:3'',
              detail = ''Text uses hardcoded colour instead of design system token. Should use Functional/Carbon for text.'',
              fixable = True\<rparr>]
   \<and> ntype locked_text = TEXT \<and> fontSize locked_text = Px 18
   \<and> fontName locked_text = Font inter_regular \<and> all_fonts inter_regular
   \<and> applyFix_local all_fonts [''1:3'' \<mapsto> locked_text] ''1:3'' ''Typography'' =
        (\<lparr>ostatus = error, message = ''Layer is locked. Manual fix needed.''\<rparr>,
         [''1:3'' \<mapsto> locked_text])
   \<and> applyFix_tokens all_fonts mockData [''1:3'' \<mapsto> locked_text] ''1:3'' ''Typography'' =
        (\<lparr>ostatus = error, message = ''Layer is locked. Manual fix needed.''\<rparr>,
         [''1:3'' \<mapsto> locked_text])"
proof -
  have 1: "ntype hidden_text = TEXT \<and> fontSize hidden_text = Px 18
      \<and> ntype example_text = TEXT \<and> fontSize example_text = Px 18
      \<and> nvisible example_text = Some True
      \<and> ntype locked_text = TEXT \<and> fontSize locked_text = Px 18
      \<and> fontName locked_text = Font inter_regular \<and> all_fonts inter_regular"
    by (simp add: example_defs)
  have h: "\<not> entered hidden_text" and v: "entered example_text"
    by (simp_all add: entered_def example_defs)
  have 2: "runAnalysis_local [Node hidden_text []] = Inr []"
    by (simp add: runAnalysis_local_walk h)
  have r: "rules_tokens mockData example_text =
      [\<lparr>itype = ''Text/Colour'', layer = ''Title'', nodeId = ''1:3'',
        detail = ''Text uses hardcoded colour instead of design system token. Should use Functional/Carbon for text.'',
        fixable = True\<rparr>]"
    by (simp add: rule_defs example_defs)
  have 3: "fst (runAnalysis_tokens example_host (Some initial_globalConfig) initial_state
        [Node example_text []]) =
      Inr [\<lparr>itype = ''Text/Colour'', layer = ''Title'', nodeId = ''1:3'',
            detail = ''Text uses hardcoded colour instead of design system token. Should use Functional/Carbon for text.'',
            fixable = True\<rparr>]"
    by (simp add: runAnalysis_tokens_walk initial_load v r)
  have l: "locked locked_text = Some True"
    by (simp add: example_defs)
  have 4: "applyFix_local all_fonts [''1:3'' \<mapsto> locked_text] ''1:3'' ''Typography'' =
      (\<lparr>ostatus = error, message = ''Layer is locked. Manual fix needed.''\<rparr>,
       [''1:3'' \<mapsto> locked_text])"
    by (simp add: applyFix_local_def l err_def)
  have 5: "applyFix_tokens all_fonts mockData [''1:3'' \<mapsto> locked_text] ''1:3'' ''Typography'' =
      (\<lparr>ostatus = error, message = ''Layer is locked. Manual fix needed.''\<rparr>,
       [''1:3'' \<mapsto> locked_text])"
    by (simp add: applyFix_tokens_def l err_def)
  from 1 2 3 4 5 show ?thesis by simp
qed

section \<open>The token loader\<close>

lemma requests_set [simp]:
  "requests (set_colour k v s) = requests s"
  "requests (set_textStyle k' v' s) = requests s"
  "requests (set_component k'' v'' s) = requests s"
  by (simp_all add: set_colour_def set_textStyle_def set_component_def)

lemma requests_local_colours: "requests (local_colours ps s) = requests s"
  unfolding local_colours_def
  by (induction ps arbitrary: s) (simp_all split: list.splits)

lemma requests_local_texts: "requests (local_texts ts s) = requests s"
  unfolding local_texts_def
  by (induction ts arbitrary: s) simp_all

lemma requests_local_components: "requests (local_components cs s) = requests s"
  unfolding local_components_def
  by (induction cs arbitrary: s) simp_all

lemma requests_local_body: "requests (fst (local_body h s)) = requests s"
  by (simp add: local_body_def Let_def requests_local_colours requests_local_texts
      requests_local_components split: option.splits)

lemma loadLocal_eq: "loadLocalDesignSystem h s = (fst (local_body h s), None)"
  by (auto simp: loadLocalDesignSystem_def split: prod.splits option.splits)

lemma loadMock_eq:
  "loadMockDesignSystem h s =
     (if mock_throws h then fst (local_body h s) else s\<lparr>designSystemConfig := mockData\<rparr>, None)"
  by (simp add: loadMockDesignSystem_def loadLocal_eq)

lemma requests_loadMock: "requests (fst (loadMockDesignSystem h s)) = requests s"
  by (simp add: loadMock_eq requests_local_body)

text \<open>
  The code units that \<^verbatim>\<open>trim\<close> removes, and what is left of a string: nothing exactly
  when the string holds no other code unit.
\<close>

lemma white_space_set:
  "set white_space =
     {0x0009, 0x000A, 0x000B, 0x000C, 0x000D, 0x0020, 0x00A0, 0x1680,
      0x2000, 0x2001, 0x2002, 0x2003, 0x2004, 0x2005, 0x2006, 0x2007, 0x2008, 0x2009, 0x200A,
      0x2028, 0x2029, 0x202F, 0x205F, 0x3000, 0xFEFF}"
  by (simp add: white_space_def)

lemma dropWhile_all: "(\<forall>x \<in> set (dropWhile P xs). P x) \<longleftrightarrow> (\<forall>x \<in> set xs. P x)"
  by (induction xs) auto

lemma trim_blank: "trim t = [] \<longleftrightarrow> set t \<subseteq> set white_space"
proof -
  have "trim t = [] \<longleftrightarrow> (\<forall>x \<in> set (dropWhile is_space t). is_space x)"
    by (simp add: trim_def dropWhile_eq_Nil_conv)
  also have "\<dots> \<longleftrightarrow> (\<forall>x \<in> set t. is_space x)"
    by (rule dropWhile_all)
  also have "\<dots> \<longleftrightarrow> set t \<subseteq> set white_space"
    by (auto simp: is_space_def)
  finally show ?thesis .
qed

lemma no_token_iff:
  "no_token t \<longleftrightarrow> t = None \<or> (\<exists>v. t = Some v \<and> set v \<subseteq> set white_space)"
  by (cases t) (auto simp: no_token_def trim_blank)

lemma load_with_token:
  assumes "\<not> no_token (figmaToken c)"
    and "loadFigmaDesignSystem h c (timer_after h) s = (s', fuel', res)"
  shows "loadDesignSystemViaMCP h (Some c) s =
     (if res = Returns then (s', None) else loadMockDesignSystem h s')"
  using assms by (cases res) (simp_all add: loadDesignSystemViaMCP_def)

text \<open>
  Claim C8. The loader does not throw, whatever the configuration, the host and the
  state: \<^verbatim>\<open>loadDesignSystemViaMCP\<close>, \<^verbatim>\<open>loadMockDesignSystem\<close> and
  \<^verbatim>\<open>loadLocalDesignSystem\<close> return without an exception. With a credential that is
  absent, empty or made only of the code units that \<^verbatim>\<open>trim\<close> removes (the white space and
  the line terminators of ECMAScript, listed in the statement) it does what
  \<^verbatim>\<open>loadMockDesignSystem\<close> does and requests no URL. With any other credential it calls
  the API, starting the timer: when the call throws or the timer fires first, it goes on
  with \<^verbatim>\<open>loadMockDesignSystem\<close> from the state that the call has reached by then, and when
  the call returns first that state is the result. A timer that fires before the first
  response leaves the one request for the file. \<^verbatim>\<open>loadMockDesignSystem\<close> installs the mock
  data; when building them throws it reads the local styles instead, and when one of the
  local getters throws in turn, the exception is dropped and the store keeps what was
  set before it (the colours of the paint styles, when it is the text styles that throw).
\<close>

theorem token_loader_never_throws:
  "snd (loadDesignSystemViaMCP h gc s) = None
   \<and> snd (loadMockDesignSystem h s) = None
   \<and> snd (loadLocalDesignSystem h s) = None
   \<and> (gc = Some c
        \<and> (figmaToken c = None
            \<or> (\<exists>t. figmaToken c = Some t
                  \<and> set t \<subseteq>
                     {0x0009, 0x000A, 0x000B, 0x000C, 0x000D, 0x0020, 0x00A0, 0x1680,
                      0x2000, 0x2001, 0x2002, 0x2003, 0x2004, 0x2005, 0x2006, 0x2007,
                      0x2008, 0x2009, 0x200A, 0x2028, 0x2029, 0x202F, 0x205F, 0x3000,
                      0xFEFF})) \<longrightarrow>
        loadDesignSystemViaMCP h gc s = loadMockDesignSystem h s
        \<and> requests (fst (loadDesignSystemViaMCP h gc s)) = requests s)
   \<and> (gc = Some c \<and> figmaToken c = Some t
        \<and> \<not> set t \<subseteq>
             {0x0009, 0x000A, 0x000B, 0x000C, 0x000D, 0x0020, 0x00A0, 0x1680,
              0x2000, 0x2001, 0x2002, 0x2003, 0x2004, 0x2005, 0x2006, 0x2007,
              0x2008, 0x2009, 0x200A, 0x2028, 0x2029, 0x202F, 0x205F, 0x3000,
              0xFEFF}
        \<and> loadFigmaDesignSystem h c (timer_after h) s = (s', fuel', res) \<longrightarrow>
        (res = Throws e \<or> res = TimerWins \<longrightarrow>
           loadDesignSystemViaMCP h gc s = loadMockDesignSystem h s')
        \<and> (res = Returns \<longrightarrow> loadDesignSystemViaMCP h gc s = (s', None))
        \<and> (timer_after h = Some 0 \<longrightarrow>
             res = TimerWins
             \<and> s' = s\<lparr>requests := requests s @ [baseUrl c @ ''/files/'' @ fileKey c]\<rparr>))
   \<and> (\<not> mock_throws h \<longrightarrow>
        loadMockDesignSystem h s = (s\<lparr>designSystemConfig := mockData\<rparr>, None))
   \<and> (mock_throws h \<longrightarrow>
        loadMockDesignSystem h s = (fst (local_body h s), None)
        \<and> loadMockDesignSystem h s = loadLocalDesignSystem h s)
   \<and> (getLocalPaintStyles h = Some ps \<and> getLocalTextStyles h = None \<longrightarrow>
        local_body h s = (local_colours ps s, Some HostError)
        \<and> loadLocalDesignSystem h s = (local_colours ps s, None))"
proof (intro conjI impI)
  show m: "snd (loadMockDesignSystem h s) = None" for h s
    by (simp add: loadMock_eq)
  show "snd (loadLocalDesignSystem h s) = None"
    by (simp add: loadLocal_eq)
  show "snd (loadDesignSystemViaMCP h gc s) = None"
    by (simp add: loadDesignSystemViaMCP_def m split: option.splits prod.splits api_result.splits)
next
  assume a: "gc = Some c
    \<and> (figmaToken c = None
        \<or> (\<exists>t. figmaToken c = Some t
              \<and> set t \<subseteq>
                 {0x0009, 0x000A, 0x000B, 0x000C, 0x000D, 0x0020, 0x00A0, 0x1680,
                  0x2000, 0x2001, 0x2002, 0x2003, 0x2004, 0x2005, 0x2006, 0x2007,
                  0x2008, 0x2009, 0x200A, 0x2028, 0x2029, 0x202F, 0x205F, 0x3000,
                  0xFEFF}))"
  then have "no_token (figmaToken c)"
    unfolding no_token_iff white_space_set by blast
  with a show e: "loadDesignSystemViaMCP h gc s = loadMockDesignSystem h s"
    by (simp add: loadDesignSystemViaMCP_def)
  show "requests (fst (loadDesignSystemViaMCP h gc s)) = requests s"
    by (simp add: e requests_loadMock)
next
  assume a: "gc = Some c \<and> figmaToken c = Some t
    \<and> \<not> set t \<subseteq>
         {0x0009, 0x000A, 0x000B, 0x000C, 0x000D, 0x0020, 0x00A0, 0x1680,
          0x2000, 0x2001, 0x2002, 0x2003, 0x2004, 0x2005, 0x2006, 0x2007,
          0x2008, 0x2009, 0x200A, 0x2028, 0x2029, 0x202F, 0x205F, 0x3000,
          0xFEFF}
    \<and> loadFigmaDesignSystem h c (timer_after h) s = (s', fuel', res)"
  then have nt: "\<not> no_token (figmaToken c)"
    unfolding no_token_iff white_space_set by simp
  from a have l: "loadFigmaDesignSystem h c (timer_after h) s = (s', fuel', res)"
    by simp
  {
    assume "res = Throws e \<or> res = TimerWins"
    with a load_with_token [OF nt l]
    show "loadDesignSystemViaMCP h gc s = loadMockDesignSystem h s'"
      by auto
  next
    assume "res = Returns"
    with a load_with_token [OF nt l]
    show "loadDesignSystemViaMCP h gc s = (s', None)"
      by simp
  next
    assume "timer_after h = Some 0"
    with l show "res = TimerWins"
      and "s' = s\<lparr>requests := requests s @ [baseUrl c @ ''/files/'' @ fileKey c]\<rparr>"
      by (auto simp: loadFigmaDesignSystem_def request_def Let_def)
  }
next
  assume "\<not> mock_throws h"
  then show "loadMockDesignSystem h s = (s\<lparr>designSystemConfig := mockData\<rparr>, None)"
    by (simp add: loadMock_eq)
next
  assume "mock_throws h"
  then show "loadMockDesignSystem h s = (fst (local_body h s), None)"
    and "loadMockDesignSystem h s = loadLocalDesignSystem h s"
    by (simp_all add: loadMock_eq loadLocal_eq)
next
  assume a: "getLocalPaintStyles h = Some ps \<and> getLocalTextStyles h = None"
  then show b: "local_body h s = (local_colours ps s, Some HostError)"
    by (simp add: local_body_def)
  show "loadLocalDesignSystem h s = (local_colours ps s, None)"
    by (simp add: loadLocal_eq b)
qed

theorem token_loader_never_throws_witness:
  "figmaToken initial_globalConfig = Some []
   \<and> loadDesignSystemViaMCP example_host (Some initial_globalConfig) initial_state
       = (initial_state\<lparr>designSystemConfig := mockData\<rparr>, None)
   \<and> requests (fst (loadDesignSystemViaMCP example_host (Some initial_globalConfig) initial_state))
       = []
   \<and> blank_credential = [0x0020, 0x0009, 0x00A0, 0x3000, 0xFEFF, 0x000A]
   \<and> trim blank_credential = []
   \<and> loadDesignSystemViaMCP remote_host
        (Some (initial_globalConfig\<lparr>figmaToken := Some blank_credential\<rparr>)) initial_state
       = (initial_state\<lparr>designSystemConfig := mockData\<rparr>, None)
   \<and> requests initial_state = []
   \<and> figmaToken remote_globalConfig = Some figd_1
   \<and> figd_1 = [0x66, 0x69, 0x67, 0x64, 0x5F, 0x31]
   \<and> trim figd_1 = figd_1
   \<and> loadFigmaDesignSystem example_host remote_globalConfig (timer_after example_host)
        initial_state
       = (\<lparr>designSystemConfig = DEFAULT_CONFIG,
           requests = [''https://api.figma.com/v1/files/KkqX7OKAggFzvfB0CMUwBz'']\<rparr>,
          None, Throws HostError)
   \<and> loadDesignSystemViaMCP example_host (Some remote_globalConfig) initial_state
       = (\<lparr>designSystemConfig = mockData,
           requests = [''https://api.figma.com/v1/files/KkqX7OKAggFzvfB0CMUwBz'']\<rparr>, None)
   \<and> loadDesignSystemViaMCP remote_host (Some remote_globalConfig) initial_state
       = (\<lparr>designSystemConfig = DEFAULT_CONFIG\<lparr>colourTokens := [''Primary/Blue/600'' \<mapsto> grey]\<rparr>,
           requests = [''https://api.figma.com/v1/files/KkqX7OKAggFzvfB0CMUwBz'',
                       ''https://api.figma.com/v1/styles/S:1'']\<rparr>, None)
   \<and> loadFigmaDesignSystem (remote_host\<lparr>timer_after := Some 1\<rparr>) remote_globalConfig (Some 1)
        initial_state
       = (\<lparr>designSystemConfig = DEFAULT_CONFIG,
           requests = [''https://api.figma.com/v1/files/KkqX7OKAggFzvfB0CMUwBz'',
                       ''https://api.figma.com/v1/styles/S:1'']\<rparr>,
          Some 0, TimerWins)
   \<and> loadDesignSystemViaMCP (remote_host\<lparr>timer_after := Some 1\<rparr>) (Some remote_globalConfig)
        initial_state
       = (\<lparr>designSystemConfig = mockData,
           requests = [''https://api.figma.com/v1/files/KkqX7OKAggFzvfB0CMUwBz'',
                       ''https://api.figma.com/v1/styles/S:1'']\<rparr>, None)
   \<and> loadDesignSystemViaMCP (remote_host\<lparr>timer_after := Some 0\<rparr>) (Some remote_globalConfig)
        initial_state
       = (\<lparr>designSystemConfig = mockData,
           requests = [''https://api.figma.com/v1/files/KkqX7OKAggFzvfB0CMUwBz'']\<rparr>, None)
   \<and> loadDesignSystemViaMCP (remote_host\<lparr>timer_after := Some 2\<rparr>) (Some remote_globalConfig)
        initial_state
       = loadDesignSystemViaMCP remote_host (Some remote_globalConfig) initial_state
   \<and> mock_throws (example_host\<lparr>mock_throws := True\<rparr>)
   \<and> getLocalPaintStyles (example_host\<lparr>mock_throws := True\<rparr>)
       = Some [\<lparr>ps_name = ''Brand/Ink'', paints = [solid grey]\<rparr>]
   \<and> getLocalTextStyles (example_host\<lparr>mock_throws := True\<rparr>) = None
   \<and> loadDesignSystemViaMCP (example_host\<lparr>mock_throws := True\<rparr>) (Some initial_globalConfig)
        initial_state
       = (set_colour ''Brand/Ink'' grey initial_state, None)"
proof -
  let ?W = "{0x0009, 0x000A, 0x000B, 0x000C, 0x000D, 0x0020, 0x00A0, 0x1680,
      0x2000, 0x2001, 0x2002, 0x2003, 0x2004, 0x2005, 0x2006, 0x2007, 0x2008, 0x2009, 0x200A,
      0x2028, 0x2029, 0x202F, 0x205F, 0x3000, 0xFEFF} :: nat set"
  let ?b = "initial_globalConfig\<lparr>figmaToken := Some blank_credential\<rparr>"
  let ?h = "example_host\<lparr>mock_throws := True\<rparr>"
  let ?ta = "remote_host\<lparr>timer_after := Some 0\<rparr>"
  let ?tb = "remote_host\<lparr>timer_after := Some 1\<rparr>"
  let ?tc = "remote_host\<lparr>timer_after := Some 2\<rparr>"
  let ?ps = "[\<lparr>ps_name = ''Brand/Ink'', paints = [solid grey]\<rparr>]"
  let ?file = "''https://api.figma.com/v1/files/KkqX7OKAggFzvfB0CMUwBz''"
  let ?style = "''https://api.figma.com/v1/styles/S:1''"
  have empty: "figmaToken initial_globalConfig = Some []" "set [] \<subseteq> ?W"
    by (simp_all add: initial_globalConfig_def)
  have blank: "figmaToken ?b = Some blank_credential" "set blank_credential \<subseteq> ?W"
    "trim blank_credential = []"
    "blank_credential = [0x0020, 0x0009, 0x00A0, 0x3000, 0xFEFF, 0x000A]"
    by (simp_all add: blank_credential_def trim_def is_space_def white_space_def)
  have tok: "figmaToken remote_globalConfig = Some figd_1" "\<not> set figd_1 \<subseteq> ?W"
    "trim figd_1 = figd_1" "figd_1 = [0x66, 0x69, 0x67, 0x64, 0x5F, 0x31]"
    by (simp_all add: remote_globalConfig_def figd_1_def trim_def is_space_def white_space_def)
  have cfg: "baseUrl remote_globalConfig @ ''/files/'' @ fileKey remote_globalConfig = ?file"
    by (simp add: remote_globalConfig_def initial_globalConfig_def)
  have hst: "\<not> mock_throws example_host" "\<not> mock_throws remote_host" "mock_throws ?h"
    "getLocalPaintStyles ?h = Some ?ps" "getLocalTextStyles ?h = None"
    "timer_after example_host = None" "timer_after remote_host = None"
    by (simp_all add: remote_host_def example_host_def)
  have rej: "loadFigmaDesignSystem example_host remote_globalConfig None initial_state =
      (\<lparr>designSystemConfig = DEFAULT_CONFIG, requests = [?file]\<rparr>, None, Throws HostError)"
    by (simp add: loadFigmaDesignSystem_def request_def example_host_def initial_state_def
        remote_globalConfig_def initial_globalConfig_def answered_def)
  have api: "loadFigmaDesignSystem (remote_host\<lparr>timer_after := k\<rparr>) remote_globalConfig fuel
        initial_state =
      (if fuel = Some 0
       then (\<lparr>designSystemConfig = DEFAULT_CONFIG, requests = [?file]\<rparr>, Some 0, TimerWins)
       else if fuel = Some 1
       then (\<lparr>designSystemConfig = DEFAULT_CONFIG, requests = [?file, ?style]\<rparr>,
             Some 0, TimerWins)
       else (\<lparr>designSystemConfig = DEFAULT_CONFIG\<lparr>colourTokens := [''Primary/Blue/600'' \<mapsto> grey]\<rparr>,
              requests = [?file, ?style]\<rparr>, map_option (\<lambda>k. k - 2) fuel, Returns))"
    for k fuel
    by (cases fuel)
      (auto simp: loadFigmaDesignSystem_def load_style_def request_def set_colour_def
        remote_host_def example_host_def grey_style_details_def initial_state_def
        remote_globalConfig_def initial_globalConfig_def DEFAULT_CONFIG_def solid_def
        answered_def)
  have same: "remote_host\<lparr>timer_after := None\<rparr> = remote_host"
    by (simp add: remote_host_def example_host_def)
  have col: "local_colours ?ps initial_state = set_colour ''Brand/Ink'' grey initial_state"
    by (simp add: local_colours_def solid_def)
  note a = token_loader_never_throws [of example_host "Some initial_globalConfig"
      initial_state initial_globalConfig]
  note a' = token_loader_never_throws [of remote_host "Some ?b" initial_state ?b]
  note b = token_loader_never_throws [of example_host "Some remote_globalConfig" initial_state
      remote_globalConfig figd_1
      "\<lparr>designSystemConfig = DEFAULT_CONFIG, requests = [?file]\<rparr>" None "Throws HostError"
      HostError]
  note b' = token_loader_never_throws [of example_host _
      "\<lparr>designSystemConfig = DEFAULT_CONFIG, requests = [?file]\<rparr>"]
  note r = token_loader_never_throws [of remote_host "Some remote_globalConfig" initial_state
      remote_globalConfig figd_1
      "\<lparr>designSystemConfig = DEFAULT_CONFIG\<lparr>colourTokens := [''Primary/Blue/600'' \<mapsto> grey]\<rparr>,
        requests = [?file, ?style]\<rparr>" None Returns]
  note r2 = token_loader_never_throws [of ?tc "Some remote_globalConfig" initial_state
      remote_globalConfig figd_1
      "\<lparr>designSystemConfig = DEFAULT_CONFIG\<lparr>colourTokens := [''Primary/Blue/600'' \<mapsto> grey]\<rparr>,
        requests = [?file, ?style]\<rparr>" "Some 0" Returns]
  note t1 = token_loader_never_throws [of ?tb "Some remote_globalConfig" initial_state
      remote_globalConfig figd_1
      "\<lparr>designSystemConfig = DEFAULT_CONFIG, requests = [?file, ?style]\<rparr>" "Some 0" TimerWins]
  note t1' = token_loader_never_throws [of ?tb _
      "\<lparr>designSystemConfig = DEFAULT_CONFIG, requests = [?file, ?style]\<rparr>"]
  note t0 = token_loader_never_throws [of ?ta "Some remote_globalConfig" initial_state
      remote_globalConfig figd_1
      "\<lparr>designSystemConfig = DEFAULT_CONFIG, requests = [?file]\<rparr>" "Some 0" TimerWins]
  note t0' = token_loader_never_throws [of ?ta _
      "\<lparr>designSystemConfig = DEFAULT_CONFIG, requests = [?file]\<rparr>"]
  note c = token_loader_never_throws [of ?h "Some initial_globalConfig" initial_state
      initial_globalConfig _ _ _ _ _ ?ps]
  from a empty hst(1)
  have 1: "loadDesignSystemViaMCP example_host (Some initial_globalConfig) initial_state
       = (initial_state\<lparr>designSystemConfig := mockData\<rparr>, None)"
    by simp
  from a' blank(1,2) hst(2)
  have 2: "loadDesignSystemViaMCP remote_host (Some ?b) initial_state
       = (initial_state\<lparr>designSystemConfig := mockData\<rparr>, None)"
    by simp
  from b tok(1,2) rej hst(6)
  have "loadDesignSystemViaMCP example_host (Some remote_globalConfig) initial_state
       = loadMockDesignSystem example_host
           \<lparr>designSystemConfig = DEFAULT_CONFIG, requests = [?file]\<rparr>"
    by simp
  with b' hst(1)
  have 3: "loadDesignSystemViaMCP example_host (Some remote_globalConfig) initial_state
       = (\<lparr>designSystemConfig = mockData, requests = [?file]\<rparr>, None)"
    by simp
  from r tok(1,2) api [of None None] same hst(7)
  have 4: "loadDesignSystemViaMCP remote_host (Some remote_globalConfig) initial_state
       = (\<lparr>designSystemConfig = DEFAULT_CONFIG\<lparr>colourTokens := [''Primary/Blue/600'' \<mapsto> grey]\<rparr>,
           requests = [?file, ?style]\<rparr>, None)"
    by simp
  from t1 tok(1,2) api [of "Some 1" "Some 1"]
  have "loadDesignSystemViaMCP ?tb (Some remote_globalConfig) initial_state
       = loadMockDesignSystem ?tb
           \<lparr>designSystemConfig = DEFAULT_CONFIG, requests = [?file, ?style]\<rparr>"
    by simp
  with t1' hst(2)
  have 5: "loadDesignSystemViaMCP ?tb (Some remote_globalConfig) initial_state
       = (\<lparr>designSystemConfig = mockData, requests = [?file, ?style]\<rparr>, None)"
    by simp
  from t0 tok(1,2) api [of "Some 0" "Some 0"]
  have "loadDesignSystemViaMCP ?ta (Some remote_globalConfig) initial_state
       = loadMockDesignSystem ?ta \<lparr>designSystemConfig = DEFAULT_CONFIG, requests = [?file]\<rparr>"
    by simp
  with t0' hst(2)
  have 6: "loadDesignSystemViaMCP ?ta (Some remote_globalConfig) initial_state
       = (\<lparr>designSystemConfig = mockData, requests = [?file]\<rparr>, None)"
    by simp
  from r2 tok(1,2) api [of "Some 2" "Some 2"] 4
  have 7: "loadDesignSystemViaMCP ?tc (Some remote_globalConfig) initial_state
       = loadDesignSystemViaMCP remote_host (Some remote_globalConfig) initial_state"
    by simp
  from c empty hst col
  have 8: "loadDesignSystemViaMCP ?h (Some initial_globalConfig) initial_state
       = (set_colour ''Brand/Ink'' grey initial_state, None)"
    by simp
  from 1 2 3 4 5 6 7 8 empty blank tok rej hst api [of "Some 1" "Some 1"]
  show ?thesis
    by (simp add: initial_state_def)
qed

lemma mock_carbon: "colourTokens mockData ''Functional/Carbon'' = None"
  by (simp add: mockData_def new_Map_def)

lemma carbonColour_independent:
  "colourTokens cfg ''Functional/Carbon'' = None \<Longrightarrow>
     carbonColour cfg = \<lparr>r = dec 1 1, g = dec 1 1, b = dec 1 1\<rparr>"
  by (simp add: carbonColour_def token_or_def)

text \<open>
  Claim C9, as the code has it. A load with a credential that is absent or blank requests
  no URL and, the mock data being built, leaves the mock store: it holds the primary
  colour \<open>Primary/Blue/600\<close> and it does not hold \<open>Functional/Carbon\<close>. For a store
  without \<open>Functional/Carbon\<close> the two fixes that look the token up, \<open>Text/Colour\<close> and
  \<open>Colour/Token\<close>, take the colour (0.1, 0.1, 0.1): the outcome is the one they have
  with the token present, and it is success, with the fills replaced by one opaque solid
  paint of that colour, on an unlocked rectangle with a fills array and on an unlocked
  text node with a fills array whose single font loads.
\<close>

theorem mock_store_and_carbon_fallback:
  "(no_token (figmaToken c) \<and> \<not> mock_throws h \<longrightarrow>
      requests (fst (loadDesignSystemViaMCP h (Some c) s)) = requests s
      \<and> designSystemConfig (fst (loadDesignSystemViaMCP h (Some c) s)) = mockData
      \<and> colourTokens mockData ''Primary/Blue/600'' = Some \<lparr>r = dec 157 3, g = dec 220 3, b = dec 718 3\<rparr>
      \<and> colourTokens mockData ''Functional/Carbon'' = None)
   \<and> (colourTokens cfg ''Functional/Carbon'' = None
        \<and> (t = ''Text/Colour'' \<or> t = ''Colour/Token'') \<longrightarrow>
      fst (applyFix_tokens load cfg d i t)
        = fst (applyFix_tokens load
            (cfg\<lparr>colourTokens := (colourTokens cfg)(''Functional/Carbon'' \<mapsto> k)\<rparr>) d i t))
   \<and> (colourTokens cfg ''Functional/Carbon'' = None \<and> d i = Some n \<and> locked n \<noteq> Some True
        \<and> ntype n = RECTANGLE \<and> fills n = Fills fs \<longrightarrow>
      applyFix_tokens load cfg d i ''Colour/Token'' =
        (\<lparr>ostatus = success, message = ''Applied Functional/Carbon colour fill.''\<rparr>,
         d(i \<mapsto> n\<lparr>fills := Fills
           [\<lparr>ptype = SOLID, color = \<lparr>r = dec 1 1, g = dec 1 1, b = dec 1 1\<rparr>, opacity = 1,
             pvisible = True, blendMode = ''NORMAL''\<rparr>]\<rparr>)))
   \<and> (colourTokens cfg ''Functional/Carbon'' = None \<and> d i = Some n \<and> locked n \<noteq> Some True
        \<and> ntype n = TEXT \<and> fills n = Fills fs \<and> fontName n = Font f \<and> load f \<longrightarrow>
      applyFix_tokens load cfg d i ''Text/Colour'' =
        (\<lparr>ostatus = success, message = ''Applied Functional/Carbon colour to text.''\<rparr>,
         d(i \<mapsto> n\<lparr>fills := Fills
           [\<lparr>ptype = SOLID, color = \<lparr>r = dec 1 1, g = dec 1 1, b = dec 1 1\<rparr>, opacity = 1,
             pvisible = True, blendMode = ''NORMAL''\<rparr>]\<rparr>)))"
proof (intro conjI impI)
  assume a: "no_token (figmaToken c) \<and> \<not> mock_throws h"
  then have e: "loadDesignSystemViaMCP h (Some c) s = (s\<lparr>designSystemConfig := mockData\<rparr>, None)"
    by (simp add: load_no_token loadMock_eq)
  show "requests (fst (loadDesignSystemViaMCP h (Some c) s)) = requests s"
    and "designSystemConfig (fst (loadDesignSystemViaMCP h (Some c) s)) = mockData"
    by (simp_all add: e)
  show "colourTokens mockData ''Primary/Blue/600'' = Some \<lparr>r = dec 157 3, g = dec 220 3, b = dec 718 3\<rparr>"
    by (rule mock_primary)
  show "colourTokens mockData ''Functional/Carbon'' = None"
    by (rule mock_carbon)
next
  assume a: "colourTokens cfg ''Functional/Carbon'' = None
    \<and> (t = ''Text/Colour'' \<or> t = ''Colour/Token'')"
  show "fst (applyFix_tokens load cfg d i t)
      = fst (applyFix_tokens load
          (cfg\<lparr>colourTokens := (colourTokens cfg)(''Functional/Carbon'' \<mapsto> k)\<rparr>) d i t)"
  proof (cases "d i")
    case None
    then show ?thesis by (simp add: applyFix_tokens_def)
  next
    case (Some n)
    have "fst (fix_text_colour_tokens load cfg' d i n) = fst (fix_text_colour_tokens load cfg'' d i n)"
      for cfg' cfg''
      by (simp add: fix_text_colour_tokens_def split: option.splits)
    moreover
    have "fst (fix_colour_tokens load cfg' d i n) = fst (fix_colour_tokens load cfg'' d i n)"
      for cfg' cfg''
      by (simp add: fix_colour_tokens_def split: option.splits)
    ultimately show ?thesis
      using a Some by (auto simp: applyFix_tokens_def)
  qed
next
  assume "colourTokens cfg ''Functional/Carbon'' = None \<and> d i = Some n \<and> locked n \<noteq> Some True
    \<and> ntype n = RECTANGLE \<and> fills n = Fills fs"
  then show "applyFix_tokens load cfg d i ''Colour/Token'' =
      (\<lparr>ostatus = success, message = ''Applied Functional/Carbon colour fill.''\<rparr>,
       d(i \<mapsto> n\<lparr>fills := Fills
         [\<lparr>ptype = SOLID, color = \<lparr>r = dec 1 1, g = dec 1 1, b = dec 1 1\<rparr>, opacity = 1,
           pvisible = True, blendMode = ''NORMAL''\<rparr>]\<rparr>))"
    by (simp add: applyFix_tokens_def fix_colour_tokens_def fillableTypes_def is_array_def
        ok_def solid_def carbonColour_independent)
next
  assume "colourTokens cfg ''Functional/Carbon'' = None \<and> d i = Some n \<and> locked n \<noteq> Some True
    \<and> ntype n = TEXT \<and> fills n = Fills fs \<and> fontName n = Font f \<and> load f"
  then show "applyFix_tokens load cfg d i ''Text/Colour'' =
      (\<lparr>ostatus = success, message = ''Applied Functional/Carbon colour to text.''\<rparr>,
       d(i \<mapsto> n\<lparr>fills := Fills
         [\<lparr>ptype = SOLID, color = \<lparr>r = dec 1 1, g = dec 1 1, b = dec 1 1\<rparr>, opacity = 1,
           pvisible = True, blendMode = ''NORMAL''\<rparr>]\<rparr>))"
    by (simp add: applyFix_tokens_def fix_text_colour_tokens_def font_guard_def is_array_def
        ok_def solid_def carbonColour_independent)
qed

theorem mock_store_and_carbon_fallback_witness:
  "no_token (figmaToken initial_globalConfig) \<and> \<not> mock_throws example_host
   \<and> designSystemConfig
        (fst (loadDesignSystemViaMCP example_host (Some initial_globalConfig) initial_state))
       = mockData
   \<and> colourTokens mockData ''Functional/Carbon'' = None
   \<and> example_doc ''1:2'' = Some example_button \<and> locked example_button \<noteq> Some True
   \<and> ntype example_button = RECTANGLE \<and> fills example_button = Fills [solid grey]
   \<and> applyFix_tokens all_fonts mockData example_doc ''1:2'' ''Colour/Token'' =
        (\<lparr>ostatus = success, message = ''Applied Functional/Carbon colour fill.''\<rparr>,
         example_doc(''1:2'' \<mapsto> example_button\<lparr>fills := Fills
           [\<lparr>ptype = SOLID, color = \<lparr>r = dec 1 1, g = dec 1 1, b = dec 1 1\<rparr>, opacity = 1,
             pvisible = True, blendMode = ''NORMAL''\<rparr>]\<rparr>))
   \<and> example_doc ''1:3'' = Some example_text \<and> locked example_text \<noteq> Some True
   \<and> ntype example_text = TEXT \<and> fills example_text = Fills [solid grey]
   \<and> fontName example_text = Font inter_regular \<and> all_fonts inter_regular
   \<and> applyFix_tokens all_fonts mockData example_doc ''1:3'' ''Text/Colour'' =
        (\<lparr>ostatus = success, message = ''Applied Functional/Carbon colour to text.''\<rparr>,
         example_doc(''1:3'' \<mapsto> example_text\<lparr>fills := Fills
           [\<lparr>ptype = SOLID, color = \<lparr>r = dec 1 1, g = dec 1 1, b = dec 1 1\<rparr>, opacity = 1,
             pvisible = True, blendMode = ''NORMAL''\<rparr>]\<rparr>))"
proof -
  have h: "no_token (figmaToken initial_globalConfig)" "\<not> mock_throws example_host"
    by (simp_all add: no_token_def initial_globalConfig_def example_host_def)
  have b: "locked example_button \<noteq> Some True" "ntype example_button = RECTANGLE"
    "fills example_button = Fills [solid grey]"
    by (simp_all add: example_defs)
  have x: "locked example_text \<noteq> Some True" "ntype example_text = TEXT"
    "fills example_text = Fills [solid grey]" "fontName example_text = Font inter_regular"
    "all_fonts inter_regular"
    by (simp_all add: example_defs)
  note t1 = mock_store_and_carbon_fallback [of initial_globalConfig example_host initial_state
      mockData _ _ example_doc "''1:2''" _ example_button "[solid grey]"]
  note t2 = mock_store_and_carbon_fallback [of initial_globalConfig example_host initial_state
      mockData _ all_fonts example_doc "''1:3''" _ example_text "[solid grey]" inter_regular]
  from t1 h
  have 1: "designSystemConfig
        (fst (loadDesignSystemViaMCP example_host (Some initial_globalConfig) initial_state))
       = mockData"
    by blast
  from t1 mock_carbon example_doc_lookup(1) b
  have 2: "applyFix_tokens all_fonts mockData example_doc ''1:2'' ''Colour/Token'' =
        (\<lparr>ostatus = success, message = ''Applied Functional/Carbon colour fill.''\<rparr>,
         example_doc(''1:2'' \<mapsto> example_button\<lparr>fills := Fills
           [\<lparr>ptype = SOLID, color = \<lparr>r = dec 1 1, g = dec 1 1, b = dec 1 1\<rparr>, opacity = 1,
             pvisible = True, blendMode = ''NORMAL''\<rparr>]\<rparr>))"
    by blast
  from t2 mock_carbon example_doc_lookup(2) x
  have 3: "applyFix_tokens all_fonts mockData example_doc ''1:3'' ''Text/Colour'' =
        (\<lparr>ostatus = success, message = ''Applied Functional/Carbon colour to text.''\<rparr>,
         example_doc(''1:3'' \<mapsto> example_text\<lparr>fills := Fills
           [\<lparr>ptype = SOLID, color = \<lparr>r = dec 1 1, g = dec 1 1, b = dec 1 1\<rparr>, opacity = 1,
             pvisible = True, blendMode = ''NORMAL''\<rparr>]\<rparr>))"
    by blast
  from 1 2 3 h b x mock_carbon example_doc_lookup(1,2) show ?thesis by simp
qed

text \<open>
  The claim C9 as the specification states it does not hold: the store that the load
  with the initial, empty credential leaves is the mock store, and the mock store has no
  colour token \<open>Functional/Carbon\<close>.
\<close>

theorem carbon_token_counterexample:
  "figmaToken initial_globalConfig = Some []
   \<and> requests (fst (loadDesignSystemViaMCP example_host (Some initial_globalConfig) initial_state))
       = []
   \<and> colourTokens (designSystemConfig
        (fst (loadDesignSystemViaMCP example_host (Some initial_globalConfig) initial_state)))
        ''Functional/Carbon'' = None"
  by (simp add: initial_load mock_carbon) (simp add: initial_globalConfig_def initial_state_def)


end
